(* ===== verification/Prelude.thy ===== *)
theory Prelude
  imports Main "HOL-Library.Word"
begin

text \<open>
  Shared vocabulary of the development: the C integer types of the three
  programs (\<open>size_t\<close> as a 64-bit word, \<open>int\<close> as a 32-bit word read with
  \<open>sint\<close>), the conversions the C compiler inserts between them, ceiling
  division on \<open>nat\<close> (the number of growth steps), and the fact collections
  the component theories feed.

  Collections: \<open>c_arith\<close> holds the value of each macro expression of the
  sources and the conversion lemmas; \<open>os_simps\<close> holds, for every call into
  the environment, its effect on each field of the process state;
  \<open>prog_defs\<close> holds the unfolding equations of the non-recursive program
  functions.
\<close>

named_theorems c_arith
named_theorems os_simps
named_theorems prog_defs

section \<open>C integer types\<close>

type_synonym size_t = "64 word"
type_synonym c_int = "32 word"
type_synonym c_uint = "32 word"
type_synonym byte = "8 word"

text \<open>
  \<open>int_to_size_t\<close> is the usual arithmetic conversion of an \<open>int\<close> operand
  that meets a \<open>size_t\<close> operand (or a \<open>size_t\<close> parameter): sign extension
  to 64 bits. \<open>int_to_unsigned\<close> is the conversion to \<open>unsigned int\<close>, which
  keeps the bits. \<open>int_mul_ok\<close> says that a product of two \<open>int\<close>s is
  representable, which is what C requires of signed multiplication.
\<close>

definition int_to_size_t :: "c_int \<Rightarrow> size_t" where
  [c_arith]: "int_to_size_t n = scast n"

definition int_to_unsigned :: "c_int \<Rightarrow> c_uint" where
  [c_arith]: "int_to_unsigned n = n"

definition int_mul_ok :: "c_int \<Rightarrow> c_int \<Rightarrow> bool" where
  "int_mul_ok a b \<longleftrightarrow> - (2 ^ 31) \<le> sint a * sint b \<and> sint a * sint b < 2 ^ 31"

section \<open>Ceiling division\<close>

definition ceil_div :: "nat \<Rightarrow> nat \<Rightarrow> nat" where
  "ceil_div a b = (a + b - 1) div b"

section \<open>Results that may fail\<close>

text \<open>
  A computation that may fault returns \<open>'e + 'a\<close> with \<open>Inl\<close> the fault;
  \<open>bind_res\<close> sequences two of them and stops at the first fault.
\<close>

definition bind_res :: "'e + 'a \<Rightarrow> ('a \<Rightarrow> 'e + 'b) \<Rightarrow> 'e + 'b" where
  "bind_res m f = (case m of Inl e \<Rightarrow> Inl e | Inr a \<Rightarrow> f a)"

fun is_ok :: "'e + 'a \<Rightarrow> bool" where
  "is_ok (Inl e) = False"
| "is_ok (Inr a) = True"

text \<open>
  \<open>iterate_res f xs\<close> runs the fallible step \<open>f\<close> once for each element of
  \<open>xs\<close>, in order, and stops at the first fault.
\<close>

fun iterate_res :: "('a \<Rightarrow> 's \<Rightarrow> 'e + 's) \<Rightarrow> 'a list \<Rightarrow> 's \<Rightarrow> 'e + 's" where
  "iterate_res f [] s = Inr s"
| "iterate_res f (x # xs) s = bind_res (f x s) (iterate_res f xs)"

text \<open>
  What one execution of a loop body tells the loop: \<open>Break\<close> for a
  \<open>break\<close> statement, \<open>Continue\<close> for reaching the end of the body.
\<close>

datatype 'a loop_ctl = Break 'a | Continue 'a

section \<open>Lemmas on words\<close>

lemma size_t_less_iff: "(a :: size_t) < b \<longleftrightarrow> unat a < unat b"
  by (rule word_less_nat_alt)

lemma unat_plus_nowrap:
  "unat a + unat b < 2 ^ 64 \<Longrightarrow> unat (a + b :: size_t) = unat a + unat b"
  using unat_add_lem [of a b] by simp

lemma unat_plus_wrap:
  "2 ^ 64 \<le> unat a + unat b \<Longrightarrow> unat (a + b :: size_t) = unat a + unat b - 2 ^ 64"
proof -
  assume wrap: "2 ^ 64 \<le> unat a + unat b"
  have "unat a < 2 ^ 64" "unat b < 2 ^ 64"
    using unsigned_less [of a] unsigned_less [of b] by simp_all
  then have "unat a + unat b - 2 ^ 64 < (2 ^ 64 :: nat)"
    by arith
  moreover have "unat (a + b) = (unat a + unat b) mod 2 ^ 64"
    by (simp add: unat_word_ariths)
  ultimately show ?thesis
    using wrap by (simp add: mod_if le_mod_geq)
qed

lemma unat_linear:
  "unat c + k * unat st < 2 ^ 64 \<Longrightarrow>
   unat (c + of_nat k * st :: size_t) = unat c + k * unat st"
proof (induction k)
  case 0
  show ?case by simp
next
  case (Suc k)
  then have prev: "unat (c + of_nat k * st) = unat c + k * unat st"
    by simp
  have split: "c + of_nat (Suc k) * st = (c + of_nat k * st) + st"
    by (simp add: algebra_simps)
  have "unat ((c + of_nat k * st) + st) = unat (c + of_nat k * st) + unat st"
    using Suc.prems prev by (intro unat_plus_nowrap) simp
  with prev show ?case
    by (simp only: split) simp
qed

lemma sint_mult_ok: "int_mul_ok a b \<Longrightarrow> sint (a * b) = sint a * sint b"
proof -
  assume "int_mul_ok a b"
  then have "- (2 ^ 31) \<le> sint a * sint b" "sint a * sint b < 2 ^ 31"
    by (simp_all add: int_mul_ok_def)
  then have "signed_take_bit 31 (sint a * sint b) = sint a * sint b"
    by (simp add: signed_take_bit_int_eq_self)
  then show ?thesis
    by (simp add: sint_word_ariths)
qed

lemma take_bit_64_sint:
  "0 \<le> sint (n :: c_int) \<Longrightarrow> take_bit 64 (sint n) = sint n"
proof -
  assume nonneg: "0 \<le> sint n"
  have "sint n < 2 ^ (LENGTH(32) - 1)"
    by (rule sint_lt)
  then have "sint n < 2 ^ 31"
    by simp
  also have "(2::int) ^ 31 \<le> 2 ^ 64"
    by (rule power_increasing) simp_all
  finally have "sint n < 2 ^ 64" .
  with nonneg show ?thesis
    by (rule take_bit_int_eq_self)
qed

lemma uint_scast_nonneg:
  "0 \<le> sint (n :: c_int) \<Longrightarrow> uint (scast n :: size_t) = sint n"
proof -
  assume nonneg: "0 \<le> sint n"
  have "uint (scast n :: size_t) = take_bit 64 (sint n)"
    by (simp only: scast_eq uint_word_of_int_eq) simp
  with nonneg show ?thesis
    by (simp only: take_bit_64_sint)
qed

lemma unat_int_to_size_t:
  "0 \<le> sint n \<Longrightarrow> unat (int_to_size_t n) = nat (sint n)"
  by (simp only: int_to_size_t_def unat_eq_nat_uint uint_scast_nonneg)

section \<open>Lemmas on ceiling division\<close>

lemma ceil_div_le_iff: "0 < b \<Longrightarrow> ceil_div a b \<le> k \<longleftrightarrow> a \<le> k * b"
proof -
  assume pos: "0 < b"
  have "(a + b - 1) div b \<le> k \<longleftrightarrow> a + b - 1 < (k + 1) * b"
    using pos by (simp add: div_less_iff_less_mult less_Suc_eq_le [symmetric] del: mult_Suc)
  also have "\<dots> \<longleftrightarrow> a \<le> k * b"
    using pos by auto
  finally show ?thesis
    by (simp add: ceil_div_def)
qed

lemma ceil_div_covers: "0 < b \<Longrightarrow> a \<le> ceil_div a b * b"
  using ceil_div_le_iff [of b a "ceil_div a b"] by simp

lemma ceil_div_tight: "0 < b \<Longrightarrow> ceil_div a b * b < a + b"
proof -
  assume pos: "0 < b"
  have "(a + b - 1) div b * b \<le> a + b - 1"
    by simp
  with pos show ?thesis
    unfolding ceil_div_def by linarith
qed

lemma ceil_div_zero [simp]: "ceil_div 0 b = 0"
  by (cases b) (simp_all add: ceil_div_def)

lemma ceil_div_pos: "0 < b \<Longrightarrow> 0 < a \<Longrightarrow> 0 < ceil_div a b"
  using ceil_div_le_iff [of b a 0] by simp

lemma ceil_div_step: "0 < b \<Longrightarrow> 0 < a \<Longrightarrow> ceil_div a b = Suc (ceil_div (a - b) b)"
proof -
  assume pos: "0 < b" "0 < a"
  have "ceil_div a b \<le> k \<longleftrightarrow> Suc (ceil_div (a - b) b) \<le> k" for k
  proof (cases k)
    case 0
    with pos show ?thesis
      using ceil_div_pos [of b a] by simp
  next
    case (Suc j)
    have "a \<le> Suc j * b \<longleftrightarrow> a - b \<le> j * b"
      by auto
    with Suc pos show ?thesis
      by (simp add: ceil_div_le_iff del: mult_Suc)
  qed
  then show ?thesis
    by (meson order_antisym order_refl)
qed

section \<open>Lemmas on fallible results\<close>

lemma bind_res_Inl [simp]: "bind_res (Inl e) f = Inl e"
  by (simp add: bind_res_def)

lemma bind_res_Inr [simp]: "bind_res (Inr a) f = f a"
  by (simp add: bind_res_def)

lemma bind_res_eq_Inr_iff:
  "bind_res m f = Inr b \<longleftrightarrow> (\<exists>a. m = Inr a \<and> f a = Inr b)"
  by (cases m) simp_all

lemma is_ok_iff: "is_ok r \<longleftrightarrow> (\<exists>a. r = Inr a)"
  by (cases r) simp_all

lemma iterate_res_id: "(\<And>x. x \<in> set xs \<Longrightarrow> f x s = Inr s) \<Longrightarrow> iterate_res f xs s = Inr s"
  by (induction xs) simp_all

end
