(* ===== verification/Environment.thy ===== *)
theory Environment
  imports Prelude "HOL-Library.AList"
begin

text \<open>
  The environment the three programs run in: the part of the C library and of
  the operating system that the sources call (\<open>malloc\<close>, \<open>memset\<close>, \<open>free\<close>,
  \<open>sleep\<close>, \<open>printf\<close>, \<open>fprintf(stderr, ...)\<close>, \<open>getpid\<close>) and reading a
  \<open>char\<close> through a pointer. None of this code is in the repository; it is
  modelled from the C standard's description of the calls and from what the
  specification says of reservation, zero-fill and suspension.

  The process state is a record. The heap is an association list from the
  base address of each live block to its bytes, the most recent block first;
  a byte is \<open>None\<close> until it is written (an indeterminate value, and memory
  the operating system has not had to commit). Allocation is a bump
  allocator bounded by \<open>mem_limit\<close>: a request is granted exactly when the
  bytes reserved so far plus the request fit the limit, and a refused request
  returns \<open>NULL\<close>. Time is the number of seconds slept.
\<close>

section \<open>State\<close>

datatype fault = NullDeref | OutOfBounds | InvalidFree

type_synonym addr = nat
type_synonym cell = "byte option"

abbreviation (input) NULL :: addr where
  "NULL \<equiv> 0"

record proc =
  heap :: "(addr \<times> cell list) list"
  brk :: addr
  mem_limit :: nat
  stdout :: "string list"
  stderr :: "string list"
  clock :: nat
  pid :: c_int

definition boot :: "nat \<Rightarrow> c_int \<Rightarrow> proc" where
  "boot limit p =
     \<lparr>heap = [], brk = 1, mem_limit = limit, stdout = [], stderr = [], clock = 0, pid = p\<rparr>"

text \<open>
  \<open>reserved\<close> is the number of bytes in live blocks, \<open>committed\<close> the number
  of those that have been written. \<open>heap_ok\<close> is the well-formedness of the
  allocator state.
\<close>

definition written :: "cell list \<Rightarrow> nat" where
  "written cs = length (filter (\<lambda>c. c \<noteq> None) cs)"

definition reserved :: "proc \<Rightarrow> nat" where
  "reserved s = sum_list (map (\<lambda>b. length (snd b)) (heap s))"

definition committed :: "proc \<Rightarrow> nat" where
  "committed s = sum_list (map (\<lambda>b. written (snd b)) (heap s))"

definition heap_ok :: "proc \<Rightarrow> bool" where
  "heap_ok s \<longleftrightarrow>
     distinct (map fst (heap s)) \<and> list_all (\<lambda>b. 0 < fst b \<and> fst b < brk s) (heap s) \<and>
     0 < brk s \<and> reserved s \<le> mem_limit s"

section \<open>Memory\<close>

definition malloc :: "size_t \<Rightarrow> proc \<Rightarrow> addr \<times> proc" where
  "malloc n s =
     (if reserved s + unat n \<le> mem_limit s
      then (brk s, s\<lparr>heap := (brk s, replicate (unat n) None) # heap s,
                      brk := brk s + unat n + 1\<rparr>)
      else (NULL, s))"

definition memset :: "addr \<Rightarrow> c_int \<Rightarrow> size_t \<Rightarrow> proc \<Rightarrow> fault + proc" where
  "memset p c n s =
     (if p = NULL then Inl NullDeref
      else case map_of (heap s) p of
        None \<Rightarrow> Inl OutOfBounds
      | Some cs \<Rightarrow>
          if unat n \<le> length cs
          then Inr (s\<lparr>heap := AList.update p
                 (replicate (unat n) (Some (ucast c)) @ drop (unat n) cs) (heap s)\<rparr>)
          else Inl OutOfBounds)"

definition load :: "addr \<Rightarrow> size_t \<Rightarrow> proc \<Rightarrow> fault + cell" where
  "load p i s =
     (if p = NULL then Inl NullDeref
      else case map_of (heap s) p of
        None \<Rightarrow> Inl OutOfBounds
      | Some cs \<Rightarrow> if unat i < length cs then Inr (cs ! unat i) else Inl OutOfBounds)"

definition free :: "addr \<Rightarrow> proc \<Rightarrow> fault + proc" where
  "free p s =
     (if p = NULL then Inr s
      else case map_of (heap s) p of
        None \<Rightarrow> Inl InvalidFree
      | Some cs \<Rightarrow> Inr (s\<lparr>heap := AList.delete p (heap s)\<rparr>))"

section \<open>Time, output, identity\<close>

definition sleep :: "c_uint \<Rightarrow> proc \<Rightarrow> proc" where
  "sleep seconds s = s\<lparr>clock := clock s + unat seconds\<rparr>"

definition printf :: "string \<Rightarrow> proc \<Rightarrow> proc" where
  "printf text s = s\<lparr>stdout := stdout s @ [text]\<rparr>"

definition fprintf_stderr :: "string \<Rightarrow> proc \<Rightarrow> proc" where
  "fprintf_stderr text s = s\<lparr>stderr := stderr s @ [text]\<rparr>"

definition getpid :: "proc \<Rightarrow> c_int" where
  "getpid s = pid s"

text \<open>
  The conversions \<open>%zu\<close> and \<open>%d\<close> of \<open>printf\<close>: decimal digits, most
  significant first, with a sign for a negative \<open>int\<close>. \<open>undec\<close> reads a
  digit string back.
\<close>

definition digit :: "nat \<Rightarrow> char" where
  "digit d = ''0123456789'' ! d"

fun dec :: "nat \<Rightarrow> string" where
  "dec n = (if n < 10 then [digit n] else dec (n div 10) @ [digit (n mod 10)])"

definition fmt_zu :: "size_t \<Rightarrow> string" where
  "fmt_zu n = dec (unat n)"

definition fmt_d :: "c_int \<Rightarrow> string" where
  "fmt_d n = (if sint n < 0 then CHR ''-'' # dec (nat (- sint n)) else dec (nat (sint n)))"

definition digit_val :: "char \<Rightarrow> nat" where
  "digit_val c = of_char c - 48"

definition undec :: "string \<Rightarrow> nat" where
  "undec cs = foldl (\<lambda>acc c. 10 * acc + digit_val c) 0 cs"

text \<open>
  What a reader of the output sees in a line: \<open>read_number\<close> is the value of
  the first run of decimal digits.
\<close>

definition is_digit :: "char \<Rightarrow> bool" where
  "is_digit c \<longleftrightarrow> c \<in> set ''0123456789''"

definition read_number :: "string \<Rightarrow> nat" where
  "read_number line = undec (takeWhile is_digit (dropWhile (\<lambda>c. \<not> is_digit c) line))"

text \<open>\<open>read_numbers\<close> is the list of all numbers in a line, in order.\<close>

function read_numbers :: "string \<Rightarrow> nat list" where
  "read_numbers line =
     (case dropWhile (\<lambda>c. \<not> is_digit c) line of
        [] \<Rightarrow> []
      | d # ds \<Rightarrow> undec (takeWhile is_digit (d # ds)) # read_numbers (dropWhile is_digit ds))"
  by pat_completeness auto
termination
proof (relation "measure length")
  fix line :: string and d ds
  assume "dropWhile (\<lambda>c. \<not> is_digit c) line = d # ds"
  then have "length (d # ds) \<le> length line"
    by (metis length_dropWhile_le)
  moreover have "length (dropWhile is_digit ds) \<le> length ds"
    by (rule length_dropWhile_le)
  ultimately show "(dropWhile is_digit ds, line) \<in> measure length"
    by simp
qed simp

section \<open>Effect of each call on each field\<close>

declare dec.simps [simp del]

lemma malloc_granted:
  "reserved s + unat n \<le> mem_limit s \<Longrightarrow>
   malloc n s = (brk s, s\<lparr>heap := (brk s, replicate (unat n) None) # heap s,
                          brk := brk s + unat n + 1\<rparr>)"
  by (simp add: malloc_def)

lemma malloc_refused:
  "mem_limit s < reserved s + unat n \<Longrightarrow> malloc n s = (NULL, s)"
  by (simp add: malloc_def)

lemma malloc_NULL_iff:
  "0 < brk s \<Longrightarrow> fst (malloc n s) = NULL \<longleftrightarrow> mem_limit s < reserved s + unat n"
  by (auto simp: malloc_def)

lemma malloc_frame [os_simps]:
  "stdout (snd (malloc n s)) = stdout s"
  "stderr (snd (malloc n s)) = stderr s"
  "clock (snd (malloc n s)) = clock s"
  "pid (snd (malloc n s)) = pid s"
  "mem_limit (snd (malloc n s)) = mem_limit s"
  by (simp_all add: malloc_def)

lemma sleep_fields [simp, os_simps]:
  "heap (sleep n s) = heap s"
  "brk (sleep n s) = brk s"
  "mem_limit (sleep n s) = mem_limit s"
  "stdout (sleep n s) = stdout s"
  "stderr (sleep n s) = stderr s"
  "clock (sleep n s) = clock s + unat n"
  "pid (sleep n s) = pid s"
  by (simp_all add: sleep_def)

lemma printf_fields [simp, os_simps]:
  "heap (printf t s) = heap s"
  "brk (printf t s) = brk s"
  "mem_limit (printf t s) = mem_limit s"
  "stdout (printf t s) = stdout s @ [t]"
  "stderr (printf t s) = stderr s"
  "clock (printf t s) = clock s"
  "pid (printf t s) = pid s"
  by (simp_all add: printf_def)

lemma fprintf_stderr_fields [simp, os_simps]:
  "heap (fprintf_stderr t s) = heap s"
  "brk (fprintf_stderr t s) = brk s"
  "mem_limit (fprintf_stderr t s) = mem_limit s"
  "stdout (fprintf_stderr t s) = stdout s"
  "stderr (fprintf_stderr t s) = stderr s @ [t]"
  "clock (fprintf_stderr t s) = clock s"
  "pid (fprintf_stderr t s) = pid s"
  by (simp_all add: fprintf_stderr_def)

lemma boot_fields [simp]:
  "heap (boot l p) = []"
  "brk (boot l p) = 1"
  "mem_limit (boot l p) = l"
  "stdout (boot l p) = []"
  "stderr (boot l p) = []"
  "clock (boot l p) = 0"
  "pid (boot l p) = p"
  by (simp_all add: boot_def)

text \<open>\<open>reserved\<close>, \<open>committed\<close> and \<open>heap_ok\<close> look at the allocator fields only.\<close>

lemma reserved_cong: "heap s = heap t \<Longrightarrow> reserved s = reserved t"
  by (simp add: reserved_def)

lemma committed_cong: "heap s = heap t \<Longrightarrow> committed s = committed t"
  by (simp add: committed_def)

lemma heap_ok_cong:
  "heap s = heap t \<Longrightarrow> brk s = brk t \<Longrightarrow> mem_limit s = mem_limit t \<Longrightarrow>
   heap_ok s = heap_ok t"
  by (simp add: heap_ok_def reserved_def)

lemma measures_sleep [simp]:
  "reserved (sleep n s) = reserved s"
  "committed (sleep n s) = committed s"
  "heap_ok (sleep n s) = heap_ok s"
  by (simp_all add: reserved_def committed_def heap_ok_def)

lemma measures_printf [simp]:
  "reserved (printf t s) = reserved s"
  "committed (printf t s) = committed s"
  "heap_ok (printf t s) = heap_ok s"
  by (simp_all add: reserved_def committed_def heap_ok_def)

lemma measures_fprintf_stderr [simp]:
  "reserved (fprintf_stderr t s) = reserved s"
  "committed (fprintf_stderr t s) = committed s"
  "heap_ok (fprintf_stderr t s) = heap_ok s"
  by (simp_all add: reserved_def committed_def heap_ok_def)

lemma measures_boot [simp]:
  "reserved (boot l p) = 0"
  "committed (boot l p) = 0"
  "heap_ok (boot l p)"
  by (simp_all add: reserved_def committed_def heap_ok_def)

lemma written_replicate [simp]:
  "written (replicate n None) = 0"
  "written (replicate n (Some b)) = n"
  by (simp_all add: written_def)

lemma written_append [simp]: "written (xs @ ys) = written xs + written ys"
  by (simp add: written_def)

lemma written_le: "written cs \<le> length cs"
  by (simp add: written_def)

lemma committed_le_reserved: "committed s \<le> reserved s"
  unfolding committed_def reserved_def
  by (rule sum_list_mono) (simp add: written_le)

section \<open>The allocator keeps its invariant\<close>

lemma heap_ok_brk: "heap_ok s \<Longrightarrow> 0 < brk s"
  by (simp add: heap_ok_def)

lemma heap_ok_fresh: "heap_ok s \<Longrightarrow> map_of (heap s) (brk s) = None"
proof -
  assume "heap_ok s"
  then have "\<forall>b \<in> set (heap s). fst b < brk s"
    by (simp add: heap_ok_def list_all_iff)
  then have "brk s \<notin> fst ` set (heap s)"
    by auto
  then show ?thesis
    by (simp add: map_of_eq_None_iff)
qed

lemma measures_push:
  "reserved (s\<lparr>heap := (a, cs) # heap s, brk := b\<rparr>) = reserved s + length cs"
  "committed (s\<lparr>heap := (a, cs) # heap s, brk := b\<rparr>) = committed s + written cs"
  by (simp_all add: reserved_def committed_def)

text \<open>A new block at the fresh address keeps the invariant when it fits the limit.\<close>

lemma heap_ok_push:
  assumes "heap_ok s" "reserved s + length cs \<le> mem_limit s" "brk s < b"
  shows "heap_ok (s\<lparr>heap := (brk s, cs) # heap s, brk := b\<rparr>)"
proof -
  from assms(1) have below: "\<forall>a \<in> set (heap s). 0 < fst a \<and> fst a < brk s"
    by (simp add: heap_ok_def list_all_iff)
  then have "brk s \<notin> fst ` set (heap s)"
    by auto
  moreover from below assms(3) have "\<forall>a \<in> set (heap s). fst a < b"
    by auto
  ultimately show ?thesis
    using assms below by (simp add: heap_ok_def list_all_iff measures_push)
qed

lemma malloc_reserved:
  "reserved (snd (malloc n s)) =
     (if reserved s + unat n \<le> mem_limit s then reserved s + unat n else reserved s)"
  by (simp add: malloc_def reserved_def)

lemma malloc_committed [simp]: "committed (snd (malloc n s)) = committed s"
  by (simp add: malloc_def committed_def)

lemma malloc_heap_ok: "heap_ok s \<Longrightarrow> heap_ok (snd (malloc n s))"
proof (cases "reserved s + unat n \<le> mem_limit s")
  case False
  assume "heap_ok s"
  with False show ?thesis
    by (simp add: malloc_def)
next
  case True
  assume ok: "heap_ok s"
  then have below: "\<forall>b \<in> set (heap s). 0 < fst b \<and> fst b < brk s"
    by (simp add: heap_ok_def list_all_iff)
  then have "brk s \<notin> fst ` set (heap s)"
    by auto
  moreover from below have "\<forall>b \<in> set (heap s). fst b < brk s + unat n + 1"
    by auto
  ultimately show ?thesis
    using ok True below by (simp add: malloc_def heap_ok_def reserved_def list_all_iff)
qed

lemma sum_list_update:
  fixes f :: "'k \<times> 'v \<Rightarrow> nat"
  shows "distinct (map fst al) \<Longrightarrow> map_of al p = Some v \<Longrightarrow>
   sum_list (map f (AList.update p w al)) + f (p, v) = sum_list (map f al) + f (p, w)"
proof (induction al)
  case Nil
  then show ?case by simp
next
  case (Cons b al)
  show ?case
  proof (cases "fst b = p")
    case True
    with Cons.prems have "b = (p, v)"
      by (cases b) simp
    then show ?thesis
      by simp
  next
    case False
    with Cons.prems have "distinct (map fst al)" "map_of al p = Some v"
      by (auto split: if_splits)
    then have "sum_list (map f (AList.update p w al)) + f (p, v)
        = sum_list (map f al) + f (p, w)"
      by (rule Cons.IH)
    with False show ?thesis
      by (cases b) simp
  qed
qed

lemma sum_list_delete:
  fixes f :: "'k \<times> 'v \<Rightarrow> nat"
  shows "distinct (map fst al) \<Longrightarrow> map_of al p = Some v \<Longrightarrow>
   sum_list (map f (AList.delete p al)) + f (p, v) = sum_list (map f al)"
proof (induction al)
  case Nil
  then show ?case by simp
next
  case (Cons b al)
  show ?case
  proof (cases "fst b = p")
    case True
    with Cons.prems have b: "b = (p, v)" and "p \<notin> fst ` set al"
      by (cases b; simp)+
    then have "AList.delete p al = al"
      by (simp add: delete_id)
    with b show ?thesis
      by simp
  next
    case False
    with Cons.prems have "distinct (map fst al)" "map_of al p = Some v"
      by (auto split: if_splits)
    then have "sum_list (map f (AList.delete p al)) + f (p, v) = sum_list (map f al)"
      by (rule Cons.IH)
    with False show ?thesis
      by (cases b) simp
  qed
qed

lemma memset_cases:
  assumes "memset p c n s = Inr t"
  obtains cs where "p \<noteq> NULL" "map_of (heap s) p = Some cs" "unat n \<le> length cs"
    "t = s\<lparr>heap := AList.update p
           (replicate (unat n) (Some (ucast c)) @ drop (unat n) cs) (heap s)\<rparr>"
  using assms by (auto simp: memset_def split: if_splits option.splits)

lemma memset_frame [os_simps]:
  assumes "memset p c n s = Inr t"
  shows "brk t = brk s" "mem_limit t = mem_limit s" "stdout t = stdout s"
    "stderr t = stderr s" "clock t = clock s" "pid t = pid s"
  using assms by (auto elim!: memset_cases)

lemma memset_reserved:
  assumes "heap_ok s" "memset p c n s = Inr t"
  shows "reserved t = reserved s"
proof -
  from assms(2) obtain cs where cs: "map_of (heap s) p = Some cs" "unat n \<le> length cs"
    and t: "t = s\<lparr>heap := AList.update p
           (replicate (unat n) (Some (ucast c)) @ drop (unat n) cs) (heap s)\<rparr>"
    by (rule memset_cases)
  from assms(1) have "distinct (map fst (heap s))"
    by (simp add: heap_ok_def)
  from sum_list_update [OF this cs(1), where f = "\<lambda>b. length (snd b)"
      and w = "replicate (unat n) (Some (ucast c)) @ drop (unat n) cs"] cs(2) t
  show ?thesis
    by (simp add: reserved_def)
qed

lemma memset_committed:
  assumes "heap_ok s" "memset p c n s = Inr t" "map_of (heap s) p = Some cs"
  shows "committed t + written (take (unat n) cs) = committed s + unat n"
proof -
  from assms(2,3) have n: "unat n \<le> length cs"
    and t: "t = s\<lparr>heap := AList.update p
           (replicate (unat n) (Some (ucast c)) @ drop (unat n) cs) (heap s)\<rparr>"
    by (auto elim!: memset_cases)
  from assms(1) have "distinct (map fst (heap s))"
    by (simp add: heap_ok_def)
  from sum_list_update [OF this assms(3), where f = "\<lambda>b. written (snd b)"
      and w = "replicate (unat n) (Some (ucast c)) @ drop (unat n) cs"]
  have "committed t + written cs = committed s + (unat n + written (drop (unat n) cs))"
    using t by (simp add: committed_def)
  moreover have "written cs = written (take (unat n) cs) + written (drop (unat n) cs)"
    using written_append [of "take (unat n) cs" "drop (unat n) cs"] by simp
  ultimately show ?thesis
    by simp
qed

lemma memset_heap_ok:
  assumes "heap_ok s" "memset p c n s = Inr t"
  shows "heap_ok t"
proof -
  from assms(2) obtain cs where cs: "map_of (heap s) p = Some cs"
    and t: "t = s\<lparr>heap := AList.update p
           (replicate (unat n) (Some (ucast c)) @ drop (unat n) cs) (heap s)\<rparr>"
    by (rule memset_cases)
  from cs have "p \<in> set (map fst (heap s))"
    by (metis domI dom_map_of_conv_image_fst set_map)
  then have keys: "map fst (heap t) = map fst (heap s)"
    using t by (simp add: update_keys)
  have "\<forall>a \<in> set (map fst (heap s)). 0 < a \<and> a < brk s"
    using assms(1) by (simp add: heap_ok_def list_all_iff)
  then have "\<forall>a \<in> set (map fst (heap t)). 0 < a \<and> a < brk t"
    using keys t by simp
  then have "list_all (\<lambda>b. 0 < fst b \<and> fst b < brk t) (heap t)"
    by (simp add: list_all_iff)
  moreover have "distinct (map fst (heap t))"
    using assms(1) keys by (simp add: heap_ok_def)
  moreover have "reserved t \<le> mem_limit t"
    using assms(1) memset_reserved [OF assms] t by (simp add: heap_ok_def)
  ultimately show ?thesis
    using assms(1) t by (simp add: heap_ok_def)
qed

lemma memset_granted:
  "map_of (heap s) p = Some cs \<Longrightarrow> p \<noteq> NULL \<Longrightarrow> unat n \<le> length cs \<Longrightarrow>
   memset p c n s = Inr (s\<lparr>heap := AList.update p
           (replicate (unat n) (Some (ucast c)) @ drop (unat n) cs) (heap s)\<rparr>)"
  by (simp add: memset_def)

text \<open>
  What the programs do with every block they obtain: reserve it, then fill it
  whole. The block is then committed in full.
\<close>

lemma malloc_memset:
  assumes "heap_ok s" "reserved s + unat n \<le> mem_limit s"
  shows "memset (fst (malloc n s)) c n (snd (malloc n s)) =
           Inr (s\<lparr>heap := (brk s, replicate (unat n) (Some (ucast c))) # heap s,
                   brk := brk s + unat n + 1\<rparr>)"
  using assms heap_ok_brk [OF assms(1)] by (simp add: malloc_def memset_def)

section \<open>Release and reads\<close>

lemma free_NULL [simp]: "free NULL s = Inr s"
  by (simp add: free_def)

lemma free_cases:
  assumes "free p s = Inr t" "p \<noteq> NULL"
  obtains cs where "map_of (heap s) p = Some cs" "t = s\<lparr>heap := AList.delete p (heap s)\<rparr>"
  using assms by (auto simp: free_def split: option.splits)

lemma free_frame [os_simps]:
  assumes "free p s = Inr t"
  shows "brk t = brk s" "mem_limit t = mem_limit s" "stdout t = stdout s"
    "stderr t = stderr s" "clock t = clock s" "pid t = pid s"
  using assms by (auto simp: free_def split: if_splits option.splits)

lemma free_reserved:
  assumes "heap_ok s" "free p s = Inr t" "map_of (heap s) p = Some cs" "p \<noteq> NULL"
  shows "reserved t + length cs = reserved s"
proof -
  from assms(2,4) assms(3) have t: "t = s\<lparr>heap := AList.delete p (heap s)\<rparr>"
    by (auto elim!: free_cases)
  from assms(1) have "distinct (map fst (heap s))"
    by (simp add: heap_ok_def)
  from sum_list_delete [OF this assms(3), where f = "\<lambda>b. length (snd b)"] t
  show ?thesis
    by (simp add: reserved_def)
qed

lemma free_heap_ok:
  assumes "heap_ok s" "free p s = Inr t"
  shows "heap_ok t"
proof (cases "p = NULL")
  case True
  with assms show ?thesis by simp
next
  case False
  with assms(2) obtain cs where cs: "map_of (heap s) p = Some cs"
    and t: "t = s\<lparr>heap := AList.delete p (heap s)\<rparr>"
    by (rule free_cases)
  have "reserved t \<le> reserved s"
    using free_reserved [OF assms cs False] by simp
  moreover have "set (heap t) \<subseteq> set (heap s)"
    using t by (auto simp: AList.delete_eq)
  ultimately show ?thesis
    using assms(1) t by (auto simp: heap_ok_def list_all_iff distinct_delete)
qed

lemma malloc_free:
  assumes "heap_ok s" "reserved s + unat n \<le> mem_limit s"
  shows "free (fst (malloc n s)) (snd (malloc n s)) = Inr (s\<lparr>brk := brk s + unat n + 1\<rparr>)"
proof -
  have "AList.delete (brk s) (heap s) = heap s"
    using heap_ok_fresh [OF assms(1)] by (simp add: delete_id map_of_eq_None_iff)
  with assms heap_ok_brk [OF assms(1)] show ?thesis
    by (simp add: malloc_def free_def)
qed

lemma load_NULL [simp]: "load NULL i s = Inl NullDeref"
  by (simp add: load_def)

lemma load_in_bounds:
  "p \<noteq> NULL \<Longrightarrow> map_of (heap s) p = Some cs \<Longrightarrow> unat i < length cs \<Longrightarrow>
   load p i s = Inr (cs ! unat i)"
  by (simp add: load_def)

section \<open>Decimal output\<close>

lemma digit_val_digit: "d < 10 \<Longrightarrow> digit_val (digit d) = d"
proof -
  assume "d < 10"
  then have "d \<in> set [0, 1, 2, 3, 4, 5, 6, 7, 8, 9]"
    by (simp only: set_simps insert_iff empty_iff) arith
  then show ?thesis
    by (auto simp: digit_val_def digit_def)
qed

lemma undec_snoc: "undec (cs @ [c]) = 10 * undec cs + digit_val c"
  by (simp add: undec_def)

lemma undec_dec: "undec (dec n) = n"
proof (induction n rule: dec.induct)
  case (1 n)
  show ?case
  proof (cases "n < 10")
    case True
    then show ?thesis
      by (subst dec.simps) (simp add: undec_def digit_val_digit)
  next
    case False
    with "1.IH" have "undec (dec (n div 10)) = n div 10"
      by simp
    with False show ?thesis
      by (subst dec.simps) (simp add: undec_snoc digit_val_digit)
  qed
qed

lemma is_digit_digit: "d < 10 \<Longrightarrow> is_digit (digit d)"
proof -
  assume "d < 10"
  then have "d \<in> set [0, 1, 2, 3, 4, 5, 6, 7, 8, 9]"
    by (simp only: set_simps insert_iff empty_iff) arith
  then show ?thesis
    by (auto simp: is_digit_def digit_def)
qed

lemma dec_digits: "c \<in> set (dec n) \<Longrightarrow> is_digit c"
proof (induction n rule: dec.induct)
  case (1 n)
  then show ?case
    by (subst (asm) dec.simps) (auto simp: is_digit_digit split: if_splits)
qed

lemma dec_not_Nil: "dec n \<noteq> []"
  by (subst dec.simps) simp

lemma read_number_dec:
  assumes "list_all (\<lambda>c. \<not> is_digit c) pre" "list_all (\<lambda>c. \<not> is_digit c) (take 1 post)"
  shows "read_number (pre @ dec n @ post) = n"
proof -
  from assms(1) have pre: "\<And>c. c \<in> set pre \<Longrightarrow> \<not> is_digit c"
    by (simp add: list_all_iff)
  from dec_not_Nil [of n] dec_digits [of _ n] have "is_digit (hd (dec n))"
    by (cases "dec n") auto
  with pre dec_not_Nil [of n]
  have "dropWhile (\<lambda>c. \<not> is_digit c) (pre @ dec n @ post) = dec n @ post"
    by (cases "dec n") (simp_all add: dropWhile_append3)
  moreover from assms(2) have "takeWhile is_digit (dec n @ post) = dec n"
    by (cases post) (auto simp: dec_digits takeWhile_append2 [of "dec n" is_digit, simplified])
  ultimately show ?thesis
    by (simp add: read_number_def undec_dec)
qed

declare read_numbers.simps [simp del]

lemma read_numbers_none:
  "list_all (\<lambda>c. \<not> is_digit c) line \<Longrightarrow> read_numbers line = []"
proof -
  assume "list_all (\<lambda>c. \<not> is_digit c) line"
  then have "dropWhile (\<lambda>c. \<not> is_digit c) line = []"
    by (simp add: list_all_iff)
  then show ?thesis
    by (subst read_numbers.simps) (simp only: list.case)
qed

lemma read_numbers_dec:
  assumes "list_all (\<lambda>c. \<not> is_digit c) pre" "list_all (\<lambda>c. \<not> is_digit c) (take 1 post)"
  shows "read_numbers (pre @ dec n @ post) = n # read_numbers post"
proof -
  from assms(1) have pre: "\<And>c. c \<in> set pre \<Longrightarrow> \<not> is_digit c"
    by (simp add: list_all_iff)
  obtain d ds where dec: "dec n = d # ds"
    using dec_not_Nil [of n] by (cases "dec n") auto
  with dec_digits [of _ n] have d: "is_digit d" and ds: "\<And>c. c \<in> set ds \<Longrightarrow> is_digit c"
    by auto
  from pre d have drop: "dropWhile (\<lambda>c. \<not> is_digit c) (pre @ dec n @ post) = d # ds @ post"
    by (simp add: dec dropWhile_append3)
  from assms(2) d ds have take: "takeWhile is_digit (d # ds @ post) = d # ds"
    and rest: "dropWhile is_digit (ds @ post) = post"
    by (cases post; simp)+
  have "read_numbers (pre @ dec n @ post) =
      undec (takeWhile is_digit (d # ds @ post)) # read_numbers (dropWhile is_digit (ds @ post))"
    by (subst read_numbers.simps) (simp only: drop list.case)
  then show ?thesis
    by (simp only: take rest dec [symmetric] undec_dec)
qed

lemma dec_100: "dec 100 = ''100''" "dec 60 = ''60''"
  by (simp_all add: dec.simps digit_def)

lemma fmt_d_nonneg: "0 \<le> sint n \<Longrightarrow> fmt_d n = dec (nat (sint n))"
  by (simp add: fmt_d_def)

lemma readiness_read_back:
  assumes "0 \<le> sint p"
  shows "read_numbers (''Initial 100 MB of memory allocated. PID: '' @ fmt_d p @ ''\<newline>'') =
    [100, nat (sint p)]"
proof -
  have "read_numbers (''Initial '' @ dec 100 @
      ('' MB of memory allocated. PID: '' @ dec (nat (sint p)) @ ''\<newline>'')) =
    100 # read_numbers ('' MB of memory allocated. PID: '' @ dec (nat (sint p)) @ ''\<newline>'')"
    by (rule read_numbers_dec) (simp_all add: is_digit_def)
  also have "read_numbers ('' MB of memory allocated. PID: '' @ dec (nat (sint p)) @ ''\<newline>'') =
      nat (sint p) # read_numbers ''\<newline>''"
    by (rule read_numbers_dec) (simp_all add: is_digit_def)
  also have "read_numbers ''\<newline>'' = []"
    by (rule read_numbers_none) (simp add: is_digit_def)
  finally show ?thesis
    using assms by (simp add: dec_100 fmt_d_nonneg)
qed

lemma waiting_read_back:
  assumes "list_all (\<lambda>c. \<not> is_digit c) pre" "list_all (\<lambda>c. \<not> is_digit c) post"
  shows "read_numbers (pre @ ''60'' @ post) = [60]"
  using read_numbers_dec [OF assms(1), of post 60] assms(2) read_numbers_none [OF assms(2)]
  by (cases post) (simp_all add: dec_100)

lemma dec_inj: "dec m = dec n \<Longrightarrow> m = n"
  by (metis undec_dec)

lemma fmt_zu_inj: "fmt_zu a = fmt_zu b \<Longrightarrow> a = b"
  by (metis dec_inj fmt_zu_def word_unat_eq_iff)

lemma fmt_d_values [simp]:
  "fmt_d 100 = ''100''"
  "fmt_d 60 = ''60''"
  by (simp_all add: fmt_d_def dec.simps digit_def)

end
