(* ===== verification/Simulator.thy ===== *)
theory Simulator
  imports Environment
begin

text \<open>
  The timed memory growth simulator of the specification, as one loop over
  the environment, parameterised by a growth plan. The two growth loops of
  the repository (\<open>increase_memory_usage\<close> and \<open>start_memory_leak\<close>) are
  instances of it; everything that holds of both is proved here once.

  \<open>grow_body\<close> is one iteration and \<open>grow_loop\<close> the loop. The loop need
  not end for every plan (a step of zero bytes never makes progress), so it
  is a partial function into \<open>option\<close>, with \<open>None\<close> for a run that never
  returns. \<open>grow_outcome\<close> is the reference definition: a closed form that
  says how many steps are taken and which state results. \<open>plan_ok\<close> is the
  condition under which loop and closed form agree: a positive step, and a
  target that leaves room for the last step below \<open>2 ^ 64\<close>.
\<close>

section \<open>The plan and the loop\<close>

record growth_plan =
  target_size_bytes :: size_t
  step_size_bytes :: size_t
  step_interval :: c_uint
  report_line :: "size_t \<Rightarrow> string"
  failure_line :: string

definition grow_body ::
  "growth_plan \<Rightarrow> size_t \<Rightarrow> proc \<Rightarrow> fault + (size_t \<times> proc) loop_ctl" where
  "grow_body plan cumulative s =
     (case malloc (step_size_bytes plan) s of
        (block, s1) \<Rightarrow>
          if block = NULL then Inr (Break (cumulative, fprintf_stderr (failure_line plan) s1))
          else bind_res (memset block 0 (step_size_bytes plan) s1) (\<lambda>s2.
            let cumulative' = cumulative + step_size_bytes plan;
                s3 = printf (report_line plan cumulative') s2;
                s4 = sleep (step_interval plan) s3
            in Inr (Continue (cumulative', s4))))"

partial_function (option) grow_loop ::
  "growth_plan \<Rightarrow> size_t \<Rightarrow> proc \<Rightarrow> (fault + size_t \<times> proc) option" where
  "grow_loop plan cumulative s =
     (if cumulative < target_size_bytes plan then
        (case grow_body plan cumulative s of
           Inl f \<Rightarrow> Some (Inl f)
         | Inr (Break r) \<Rightarrow> Some (Inr r)
         | Inr (Continue (cumulative', s')) \<Rightarrow> grow_loop plan cumulative' s')
      else Some (Inr (cumulative, s)))"

section \<open>The reference definition\<close>

text \<open>
  \<open>grow_once\<close> is the state after one granted step and \<open>grown k\<close> the state
  after \<open>k\<close> of them. \<open>steps_needed\<close> is the number of steps that reach the
  target, \<open>steps_granted\<close> the number of steps the memory limit allows.
\<close>

definition grow_once :: "growth_plan \<Rightarrow> size_t \<Rightarrow> proc \<Rightarrow> proc" where
  "grow_once plan cumulative s =
     sleep (step_interval plan)
       (printf (report_line plan (cumulative + step_size_bytes plan))
          (s\<lparr>heap := (brk s, replicate (unat (step_size_bytes plan)) (Some 0)) # heap s,
             brk := brk s + unat (step_size_bytes plan) + 1\<rparr>))"

primrec grown :: "growth_plan \<Rightarrow> nat \<Rightarrow> size_t \<Rightarrow> proc \<Rightarrow> proc" where
  "grown plan 0 cumulative s = s"
| "grown plan (Suc k) cumulative s =
     grown plan k (cumulative + step_size_bytes plan) (grow_once plan cumulative s)"

definition steps_needed :: "growth_plan \<Rightarrow> size_t \<Rightarrow> nat" where
  "steps_needed plan cumulative =
     ceil_div (unat (target_size_bytes plan) - unat cumulative) (unat (step_size_bytes plan))"

definition steps_granted :: "growth_plan \<Rightarrow> proc \<Rightarrow> nat" where
  "steps_granted plan s = (mem_limit s - reserved s) div unat (step_size_bytes plan)"

definition steps_taken :: "growth_plan \<Rightarrow> size_t \<Rightarrow> proc \<Rightarrow> nat" where
  "steps_taken plan cumulative s = min (steps_needed plan cumulative) (steps_granted plan s)"

definition grow_outcome :: "growth_plan \<Rightarrow> size_t \<Rightarrow> proc \<Rightarrow> size_t \<times> proc" where
  "grow_outcome plan cumulative s =
     (let k = steps_taken plan cumulative s;
          s' = grown plan k cumulative s
      in (cumulative + of_nat k * step_size_bytes plan,
          if steps_granted plan s < steps_needed plan cumulative
          then fprintf_stderr (failure_line plan) s' else s'))"

definition plan_ok :: "growth_plan \<Rightarrow> bool" where
  "plan_ok plan \<longleftrightarrow>
     0 < unat (step_size_bytes plan) \<and>
     unat (target_size_bytes plan) + unat (step_size_bytes plan) \<le> 2 ^ 64"

section \<open>One iteration\<close>

lemma grow_body_granted:
  assumes "heap_ok s" "reserved s + unat (step_size_bytes plan) \<le> mem_limit s"
  shows "grow_body plan cumulative s =
    Inr (Continue (cumulative + step_size_bytes plan, grow_once plan cumulative s))"
  using assms malloc_memset [OF assms, of 0] heap_ok_brk [OF assms(1)]
  by (simp add: grow_body_def grow_once_def split_beta malloc_granted Let_def)

lemma grow_body_refused:
  assumes "mem_limit s < reserved s + unat (step_size_bytes plan)"
  shows "grow_body plan cumulative s =
    Inr (Break (cumulative, fprintf_stderr (failure_line plan) s))"
  using assms by (simp add: grow_body_def malloc_refused)

lemma grow_body_no_fault: "heap_ok s \<Longrightarrow> is_ok (grow_body plan cumulative s)"
  by (cases "reserved s + unat (step_size_bytes plan) \<le> mem_limit s")
    (simp_all add: grow_body_granted grow_body_refused)

lemma grow_body_Continue:
  assumes "grow_body plan c s = Inr (Continue (c', s'))"
  shows "c' = c + step_size_bytes plan"
  using assms
  by (auto simp: grow_body_def bind_res_def Let_def split: prod.splits if_splits sum.splits)

lemma grow_once_fields [simp]:
  "heap (grow_once plan c s) =
     (brk s, replicate (unat (step_size_bytes plan)) (Some 0)) # heap s"
  "brk (grow_once plan c s) = brk s + unat (step_size_bytes plan) + 1"
  "mem_limit (grow_once plan c s) = mem_limit s"
  "stdout (grow_once plan c s) = stdout s @ [report_line plan (c + step_size_bytes plan)]"
  "stderr (grow_once plan c s) = stderr s"
  "clock (grow_once plan c s) = clock s + unat (step_interval plan)"
  "pid (grow_once plan c s) = pid s"
  by (simp_all add: grow_once_def)

lemma grow_once_measures [simp]:
  "reserved (grow_once plan c s) = reserved s + unat (step_size_bytes plan)"
  "committed (grow_once plan c s) = committed s + unat (step_size_bytes plan)"
  by (simp_all add: reserved_def committed_def)

lemma grow_once_heap_ok:
  assumes "heap_ok s" "reserved s + unat (step_size_bytes plan) \<le> mem_limit s"
  shows "heap_ok (grow_once plan c s)"
  using assms by (simp add: grow_once_def heap_ok_push)

section \<open>Unfolding the loop\<close>

lemma grow_loop_done:
  "\<not> cumulative < target_size_bytes plan \<Longrightarrow>
   grow_loop plan cumulative s = Some (Inr (cumulative, s))"
  by (simp add: grow_loop.simps)

lemma grow_loop_refused:
  "cumulative < target_size_bytes plan \<Longrightarrow>
   mem_limit s < reserved s + unat (step_size_bytes plan) \<Longrightarrow>
   grow_loop plan cumulative s =
     Some (Inr (cumulative, fprintf_stderr (failure_line plan) s))"
  by (subst grow_loop.simps) (simp add: grow_body_refused)

lemma grow_loop_granted:
  "cumulative < target_size_bytes plan \<Longrightarrow> heap_ok s \<Longrightarrow>
   reserved s + unat (step_size_bytes plan) \<le> mem_limit s \<Longrightarrow>
   grow_loop plan cumulative s =
     grow_loop plan (cumulative + step_size_bytes plan) (grow_once plan cumulative s)"
  by (subst grow_loop.simps) (simp add: grow_body_granted)

section \<open>The state after k granted steps\<close>

lemma grown_add:
  "grown plan (j + k) c s =
     grown plan k (c + of_nat j * step_size_bytes plan) (grown plan j c s)"
  by (induction j arbitrary: c s) (simp_all add: algebra_simps)

lemma grown_frame [simp]:
  "mem_limit (grown plan k c s) = mem_limit s"
  "stderr (grown plan k c s) = stderr s"
  "pid (grown plan k c s) = pid s"
  by (induction k arbitrary: c s) simp_all

lemma grown_clock [simp]:
  "clock (grown plan k c s) = clock s + k * unat (step_interval plan)"
  by (induction k arbitrary: c s) simp_all

lemma grown_brk [simp]:
  "brk (grown plan k c s) = brk s + k * (unat (step_size_bytes plan) + 1)"
  by (induction k arbitrary: c s) simp_all

lemma grown_reserved [simp]:
  "reserved (grown plan k c s) = reserved s + k * unat (step_size_bytes plan)"
  by (induction k arbitrary: c s) simp_all

lemma grown_committed [simp]:
  "committed (grown plan k c s) = committed s + k * unat (step_size_bytes plan)"
  by (induction k arbitrary: c s) simp_all

lemma grown_stdout:
  "stdout (grown plan k c s) =
     stdout s @ map (\<lambda>i. report_line plan (c + of_nat (Suc i) * step_size_bytes plan)) [0..<k]"
proof (induction k arbitrary: c s)
  case 0
  show ?case by simp
next
  case (Suc k)
  have "map (\<lambda>i. report_line plan (c + of_nat (Suc i) * step_size_bytes plan)) [0..<Suc k] =
      report_line plan (c + step_size_bytes plan) #
      map (\<lambda>i. report_line plan (c + step_size_bytes plan + of_nat (Suc i) * step_size_bytes plan))
        [0..<k]"
    by (simp add: upt_conv_Cons map_Suc_upt [symmetric] algebra_simps del: upt_Suc)
  with Suc.IH [of "c + step_size_bytes plan" "grow_once plan c s"] show ?case
    by simp
qed

lemma grown_heap:
  "heap (grown plan k c s) =
     map (\<lambda>i. (brk s + i * (unat (step_size_bytes plan) + 1),
               replicate (unat (step_size_bytes plan)) (Some 0))) (rev [0..<k]) @ heap s"
proof (induction k arbitrary: c s)
  case 0
  show ?case by simp
next
  case (Suc k)
  have "map (\<lambda>i. (brk s + i * (unat (step_size_bytes plan) + 1),
               replicate (unat (step_size_bytes plan)) (Some (0::byte)))) [0..<Suc k] =
      (brk s, replicate (unat (step_size_bytes plan)) (Some 0)) #
      map (\<lambda>i. (brk s + unat (step_size_bytes plan) + 1 + i * (unat (step_size_bytes plan) + 1),
               replicate (unat (step_size_bytes plan)) (Some 0))) [0..<k]"
    by (simp add: upt_conv_Cons map_Suc_upt [symmetric] algebra_simps del: upt_Suc)
  with Suc.IH [of "c + step_size_bytes plan" "grow_once plan c s"] show ?case
    by (simp add: rev_map [symmetric] del: upt_Suc)
qed

lemma grown_heap_ok:
  "heap_ok s \<Longrightarrow> reserved s + k * unat (step_size_bytes plan) \<le> mem_limit s \<Longrightarrow>
   heap_ok (grown plan k c s)"
proof (induction k arbitrary: c s)
  case 0
  then show ?case by simp
next
  case (Suc k)
  from Suc.prems have "heap_ok (grow_once plan c s)"
    by (simp add: grow_once_heap_ok)
  moreover from Suc.prems
  have "reserved (grow_once plan c s) + k * unat (step_size_bytes plan) \<le> mem_limit (grow_once plan c s)"
    by simp
  ultimately show ?case
    by (simp add: Suc.IH)
qed

section \<open>Counting steps\<close>

lemma steps_needed_zero_iff:
  "plan_ok plan \<Longrightarrow> steps_needed plan c = 0 \<longleftrightarrow> \<not> c < target_size_bytes plan"
proof -
  assume "plan_ok plan"
  then have pos: "0 < unat (step_size_bytes plan)"
    by (simp add: plan_ok_def)
  show ?thesis
  proof (cases "c < target_size_bytes plan")
    case True
    then have "0 < unat (target_size_bytes plan) - unat c"
      by (simp add: size_t_less_iff)
    with pos True show ?thesis
      using ceil_div_pos [of "unat (step_size_bytes plan)" "unat (target_size_bytes plan) - unat c"]
      by (simp add: steps_needed_def)
  next
    case False
    then show ?thesis
      by (simp add: steps_needed_def size_t_less_iff)
  qed
qed

lemma unat_step_nowrap:
  "plan_ok plan \<Longrightarrow> c < target_size_bytes plan \<Longrightarrow>
   unat (c + step_size_bytes plan) = unat c + unat (step_size_bytes plan)"
  by (rule unat_plus_nowrap) (simp add: plan_ok_def size_t_less_iff)

lemma grow_body_decreases:
  assumes "plan_ok plan" "c < target_size_bytes plan"
    "grow_body plan c s = Inr (Continue (c', s'))"
  shows "unat (target_size_bytes plan) - unat c' < unat (target_size_bytes plan) - unat c"
proof -
  from assms(1) have "0 < unat (step_size_bytes plan)"
    by (simp add: plan_ok_def)
  moreover from assms(2) have "unat c < unat (target_size_bytes plan)"
    by (simp add: size_t_less_iff)
  moreover have "unat c' = unat c + unat (step_size_bytes plan)"
    using unat_step_nowrap [OF assms(1,2)] grow_body_Continue [OF assms(3)] by simp
  ultimately show ?thesis
    by linarith
qed

lemma steps_needed_step:
  assumes "plan_ok plan" "c < target_size_bytes plan"
  shows "steps_needed plan c = Suc (steps_needed plan (c + step_size_bytes plan))"
proof -
  from assms have pos: "0 < unat (step_size_bytes plan)"
    and gap: "0 < unat (target_size_bytes plan) - unat c"
    by (simp_all add: plan_ok_def size_t_less_iff)
  from ceil_div_step [OF pos gap] unat_step_nowrap [OF assms] show ?thesis
    by (simp add: steps_needed_def)
qed

lemma steps_granted_zero_iff:
  "plan_ok plan \<Longrightarrow> heap_ok s \<Longrightarrow>
   steps_granted plan s = 0 \<longleftrightarrow> mem_limit s < reserved s + unat (step_size_bytes plan)"
  by (auto simp: steps_granted_def plan_ok_def heap_ok_def div_eq_0_iff)

lemma steps_granted_step:
  assumes "plan_ok plan" "reserved s + unat (step_size_bytes plan) \<le> mem_limit s"
  shows "steps_granted plan s = Suc (steps_granted plan (grow_once plan c s))"
proof -
  define \<sigma> where "\<sigma> = unat (step_size_bytes plan)"
  define d where "d = mem_limit s - (reserved s + \<sigma>)"
  from assms(1) have pos: "\<sigma> \<noteq> 0"
    by (simp add: plan_ok_def \<sigma>_def)
  from assms(2) have "mem_limit s - reserved s = d + \<sigma>"
    unfolding d_def \<sigma>_def by arith
  moreover have "(d + \<sigma>) div \<sigma> = Suc (d div \<sigma>)"
    using pos div_add_self2 [of \<sigma> d] by simp
  ultimately have "(mem_limit s - reserved s) div \<sigma> = Suc (d div \<sigma>)"
    by (simp only:)
  then show ?thesis
    unfolding steps_granted_def d_def \<sigma>_def by (simp only: grow_once_fields grow_once_measures)
qed

lemma steps_granted_eqI:
  assumes "reserved s + j * unat (step_size_bytes plan) \<le> mem_limit s"
    "mem_limit s < reserved s + Suc j * unat (step_size_bytes plan)"
  shows "steps_granted plan s = j"
proof -
  have "(mem_limit s - reserved s) div unat (step_size_bytes plan) = j"
    using assms by (intro div_nat_eqI) (simp_all add: mult.commute)
  then show ?thesis
    by (simp add: steps_granted_def)
qed

lemma steps_taken_enough:
  assumes "0 < unat (step_size_bytes plan)"
    "reserved s + steps_needed plan c * unat (step_size_bytes plan) \<le> mem_limit s"
  shows "steps_taken plan c s = steps_needed plan c"
    "\<not> steps_granted plan s < steps_needed plan c"
proof -
  from assms(2)
  have "steps_needed plan c * unat (step_size_bytes plan) \<le> mem_limit s - reserved s"
    by simp
  with assms(1) have "steps_needed plan c \<le> steps_granted plan s"
    by (simp add: steps_granted_def less_eq_div_iff_mult_less_eq)
  then show "steps_taken plan c s = steps_needed plan c"
    "\<not> steps_granted plan s < steps_needed plan c"
    by (simp_all add: steps_taken_def)
qed

lemma steps_taken_short:
  assumes "j < steps_needed plan c"
    "reserved s + j * unat (step_size_bytes plan) \<le> mem_limit s"
    "mem_limit s < reserved s + Suc j * unat (step_size_bytes plan)"
  shows "steps_taken plan c s = j" "steps_granted plan s < steps_needed plan c"
  using assms steps_granted_eqI [OF assms(2,3)] by (simp_all add: steps_taken_def)

lemma steps_taken_step:
  assumes "plan_ok plan" "c < target_size_bytes plan"
    "reserved s + unat (step_size_bytes plan) \<le> mem_limit s"
  shows "steps_taken plan c s =
    Suc (steps_taken plan (c + step_size_bytes plan) (grow_once plan c s))"
  by (simp add: steps_taken_def steps_needed_step [OF assms(1,2)]
      steps_granted_step [OF assms(1,3), of c])

lemma steps_taken_pos:
  assumes "plan_ok plan" "heap_ok s" "0 < steps_taken plan c s"
  shows "c < target_size_bytes plan"
    and "reserved s + unat (step_size_bytes plan) \<le> mem_limit s"
proof -
  from assms(3) have "steps_needed plan c \<noteq> 0" "steps_granted plan s \<noteq> 0"
    by (auto simp: steps_taken_def)
  with assms(1,2) show "c < target_size_bytes plan"
    and "reserved s + unat (step_size_bytes plan) \<le> mem_limit s"
    by (simp_all add: steps_needed_zero_iff steps_granted_zero_iff)
qed

section \<open>The loop computes the reference definition\<close>

lemma grow_outcome_done:
  assumes "plan_ok plan" "\<not> c < target_size_bytes plan"
  shows "grow_outcome plan c s = (c, s)"
proof -
  from assms have "steps_needed plan c = 0"
    by (simp add: steps_needed_zero_iff)
  then show ?thesis
    by (simp add: grow_outcome_def steps_taken_def)
qed

lemma grow_outcome_refused:
  assumes "plan_ok plan" "heap_ok s" "c < target_size_bytes plan"
    "mem_limit s < reserved s + unat (step_size_bytes plan)"
  shows "grow_outcome plan c s = (c, fprintf_stderr (failure_line plan) s)"
proof -
  from assms have "steps_granted plan s = 0" "0 < steps_needed plan c"
    by (simp_all add: steps_granted_zero_iff steps_needed_step)
  then show ?thesis
    by (simp add: grow_outcome_def steps_taken_def)
qed

lemma grow_outcome_granted:
  assumes "plan_ok plan" "c < target_size_bytes plan"
    "reserved s + unat (step_size_bytes plan) \<le> mem_limit s"
  shows "grow_outcome plan c s =
    grow_outcome plan (c + step_size_bytes plan) (grow_once plan c s)"
proof -
  let ?c1 = "c + step_size_bytes plan" and ?s1 = "grow_once plan c s"
  have need: "steps_needed plan c = Suc (steps_needed plan ?c1)"
    using assms(1,2) by (rule steps_needed_step)
  have can: "steps_granted plan s = Suc (steps_granted plan ?s1)"
    using assms(1,3) by (rule steps_granted_step)
  have taken: "steps_taken plan c s = Suc (steps_taken plan ?c1 ?s1)"
    using assms by (rule steps_taken_step)
  have "c + of_nat (Suc k) * step_size_bytes plan = ?c1 + of_nat k * step_size_bytes plan" for k
    by (simp add: algebra_simps)
  then show ?thesis
    unfolding grow_outcome_def Let_def taken by (simp add: need can)
qed

lemma grow_loop_steps:
  assumes "plan_ok plan"
  shows "heap_ok s \<Longrightarrow> steps_needed plan c = n \<Longrightarrow>
    grow_loop plan c s = Some (Inr (grow_outcome plan c s))"
proof (induction n arbitrary: c s)
  case 0
  with assms have "\<not> c < target_size_bytes plan"
    by (simp add: steps_needed_zero_iff)
  with assms show ?case
    by (simp add: grow_loop_done grow_outcome_done)
next
  case (Suc n)
  with assms have less: "c < target_size_bytes plan"
    using steps_needed_zero_iff [of plan c] by auto
  show ?case
  proof (cases "reserved s + unat (step_size_bytes plan) \<le> mem_limit s")
    case False
    with assms Suc.prems less show ?thesis
      by (simp add: grow_loop_refused grow_outcome_refused)
  next
    case True
    from Suc.prems(2) steps_needed_step [OF assms less]
    have "steps_needed plan (c + step_size_bytes plan) = n"
      by simp
    moreover have "heap_ok (grow_once plan c s)"
      using Suc.prems(1) True by (rule grow_once_heap_ok)
    ultimately have "grow_loop plan (c + step_size_bytes plan) (grow_once plan c s) =
        Some (Inr (grow_outcome plan (c + step_size_bytes plan) (grow_once plan c s)))"
      by (rule Suc.IH [rotated])
    with assms Suc.prems(1) less True show ?thesis
      by (simp add: grow_loop_granted grow_outcome_granted)
  qed
qed

lemma grow_loop_eq:
  "plan_ok plan \<Longrightarrow> heap_ok s \<Longrightarrow> grow_loop plan c s = Some (Inr (grow_outcome plan c s))"
  by (rule grow_loop_steps) simp_all

section \<open>Total functions that unfold like the loop\<close>

text \<open>
  The interface between the simulator and a program: a total function that
  satisfies the loop's unfolding equation for a plan agrees with the loop
  wherever the loop returns, and so computes the reference definition.
\<close>

lemma grow_loop_sound:
  assumes unfold: "\<And>c s. F c s =
      (if c < target_size_bytes plan then
         (case grow_body plan c s of
            Inl f \<Rightarrow> Inl f
          | Inr (Break r) \<Rightarrow> Inr r
          | Inr (Continue (c', s')) \<Rightarrow> F c' s')
       else Inr (c, s))"
    and ret: "grow_loop plan c s = Some r"
  shows "r = F c s"
proof -
  have "plan = plan \<longrightarrow> r = F c s"
  proof (rule grow_loop.raw_induct [where P = "\<lambda>p c s r. p = plan \<longrightarrow> r = F c s", OF _ ret])
    fix g p c s r
    assume IH: "\<And>p c s r. g p c s = Some r \<Longrightarrow> p = plan \<longrightarrow> r = F c s"
      and eq: "(if c < target_size_bytes p then
          (case grow_body p c s of
             Inl f \<Rightarrow> Some (Inl f)
           | Inr (Break r) \<Rightarrow> Some (Inr r)
           | Inr (Continue (cumulative', s')) \<Rightarrow> g p cumulative' s')
        else Some (Inr (c, s))) = Some r"
    from eq IH show "p = plan \<longrightarrow> r = F c s"
      by (subst unfold) (auto split: if_splits sum.splits loop_ctl.splits prod.splits)
  qed
  then show ?thesis
    by simp
qed

lemma grow_loop_total:
  assumes unfold: "\<And>c s. F c s =
      (if c < target_size_bytes plan then
         (case grow_body plan c s of
            Inl f \<Rightarrow> Inl f
          | Inr (Break r) \<Rightarrow> Inr r
          | Inr (Continue (c', s')) \<Rightarrow> F c' s')
       else Inr (c, s))"
    and "plan_ok plan" "heap_ok s"
  shows "F c s = Inr (grow_outcome plan c s)"
  using grow_loop_sound [of F plan c s, OF unfold grow_loop_eq [OF assms(2,3)]] by simp

section \<open>Reading the outcome\<close>

lemma steps_needed_room:
  assumes "plan_ok plan" "k \<le> steps_needed plan c" "unat c \<le> unat (target_size_bytes plan)"
  shows "unat c + k * unat (step_size_bytes plan) < 2 ^ 64"
proof -
  let ?b = "unat (step_size_bytes plan)" and ?a = "unat (target_size_bytes plan) - unat c"
  from assms(1) have pos: "0 < ?b" and room: "unat (target_size_bytes plan) + ?b \<le> 2 ^ 64"
    by (simp_all add: plan_ok_def)
  from assms(2) have "k * ?b \<le> ceil_div ?a ?b * ?b"
    by (simp add: steps_needed_def)
  also from pos have "\<dots> < ?a + ?b"
    by (rule ceil_div_tight)
  finally have "unat c + k * ?b < unat c + (?a + ?b)"
    by simp
  with assms(3) room show ?thesis
    by simp
qed

lemma grow_outcome_fst:
  "fst (grow_outcome plan c s) = c + of_nat (steps_taken plan c s) * step_size_bytes plan"
  by (simp add: grow_outcome_def Let_def)

lemma grow_outcome_unat:
  assumes "plan_ok plan" "unat c \<le> unat (target_size_bytes plan)"
  shows "unat (fst (grow_outcome plan c s)) =
    unat c + steps_taken plan c s * unat (step_size_bytes plan)"
proof -
  have "steps_taken plan c s \<le> steps_needed plan c"
    by (simp add: steps_taken_def)
  with assms(1) have "unat c + steps_taken plan c s * unat (step_size_bytes plan) < 2 ^ 64"
    using assms(2) by (rule steps_needed_room)
  then show ?thesis
    by (simp add: grow_outcome_fst unat_linear)
qed

lemma grow_outcome_reaches:
  assumes "plan_ok plan" "unat c \<le> unat (target_size_bytes plan)"
    "steps_needed plan c \<le> steps_granted plan s"
  shows "unat (target_size_bytes plan) \<le> unat (fst (grow_outcome plan c s))"
    and "unat (fst (grow_outcome plan c s)) <
      unat (target_size_bytes plan) + unat (step_size_bytes plan)"
proof -
  let ?b = "unat (step_size_bytes plan)" and ?a = "unat (target_size_bytes plan) - unat c"
  from assms(1) have pos: "0 < ?b"
    by (simp add: plan_ok_def)
  from assms(3) have taken: "steps_taken plan c s = ceil_div ?a ?b"
    by (simp add: steps_taken_def steps_needed_def)
  have final: "unat (fst (grow_outcome plan c s)) = unat c + ceil_div ?a ?b * ?b"
    using grow_outcome_unat [OF assms(1,2)] taken by simp
  from pos have "?a \<le> ceil_div ?a ?b * ?b"
    by (rule ceil_div_covers)
  with final assms(2) show "unat (target_size_bytes plan) \<le> unat (fst (grow_outcome plan c s))"
    by simp
  from pos have "ceil_div ?a ?b * ?b < ?a + ?b"
    by (rule ceil_div_tight)
  with final assms(2) show "unat (fst (grow_outcome plan c s)) <
      unat (target_size_bytes plan) + unat (step_size_bytes plan)"
    by simp
qed

lemma grow_outcome_fields:
  "stdout (snd (grow_outcome plan c s)) =
     stdout s @ map (\<lambda>i. report_line plan (c + of_nat (Suc i) * step_size_bytes plan))
       [0..<steps_taken plan c s]"
  "stderr (snd (grow_outcome plan c s)) =
     stderr s @ (if steps_granted plan s < steps_needed plan c then [failure_line plan] else [])"
  "clock (snd (grow_outcome plan c s)) =
     clock s + steps_taken plan c s * unat (step_interval plan)"
  "reserved (snd (grow_outcome plan c s)) =
     reserved s + steps_taken plan c s * unat (step_size_bytes plan)"
  "committed (snd (grow_outcome plan c s)) =
     committed s + steps_taken plan c s * unat (step_size_bytes plan)"
  "mem_limit (snd (grow_outcome plan c s)) = mem_limit s"
  "pid (snd (grow_outcome plan c s)) = pid s"
  by (simp_all add: grow_outcome_def Let_def grown_stdout)

lemma steps_taken_cong:
  "mem_limit s - reserved s = mem_limit t - reserved t \<Longrightarrow>
   steps_taken plan c s = steps_taken plan c t \<and> steps_granted plan s = steps_granted plan t"
  by (simp add: steps_taken_def steps_granted_def)

lemma grow_outcome_output:
  "drop (length (stdout s)) (stdout (snd (grow_outcome plan c s))) =
     map (\<lambda>i. report_line plan (c + of_nat (Suc i) * step_size_bytes plan))
       [0..<steps_taken plan c s]"
  "drop (length (stderr s)) (stderr (snd (grow_outcome plan c s))) =
     (if steps_granted plan s < steps_needed plan c then [failure_line plan] else [])"
  by (simp_all add: grow_outcome_fields)

lemma grow_outcome_heap:
  "heap (snd (grow_outcome plan c s)) =
     map (\<lambda>i. (brk s + i * (unat (step_size_bytes plan) + 1),
               replicate (unat (step_size_bytes plan)) (Some 0)))
       (rev [0..<steps_taken plan c s]) @ heap s"
  by (simp add: grow_outcome_def Let_def grown_heap)

lemma grow_outcome_brk:
  "brk (snd (grow_outcome plan c s)) =
     brk s + steps_taken plan c s * (unat (step_size_bytes plan) + 1)"
  by (simp add: grow_outcome_def Let_def)

lemma steps_taken_fits:
  assumes "plan_ok plan" "heap_ok s"
  shows "reserved s + steps_taken plan c s * unat (step_size_bytes plan) \<le> mem_limit s"
proof -
  let ?b = "unat (step_size_bytes plan)"
  have "steps_taken plan c s * ?b \<le> steps_granted plan s * ?b"
    by (simp add: steps_taken_def)
  also have "\<dots> \<le> mem_limit s - reserved s"
    by (simp add: steps_granted_def)
  finally have "steps_taken plan c s * ?b \<le> mem_limit s - reserved s" .
  moreover from assms(2) have "reserved s \<le> mem_limit s"
    by (simp add: heap_ok_def)
  ultimately show ?thesis
    by linarith
qed

lemma grow_outcome_heap_ok:
  assumes "plan_ok plan" "heap_ok s"
  shows "heap_ok (snd (grow_outcome plan c s))"
  using grown_heap_ok [OF assms(2) steps_taken_fits [OF assms], of c]
  by (simp add: grow_outcome_def Let_def)

lemma grow_outcome_complete:
  assumes "plan_ok plan" "unat c \<le> unat (target_size_bytes plan)"
    "reserved s + steps_needed plan c * unat (step_size_bytes plan) \<le> mem_limit s"
  shows "unat (target_size_bytes plan) \<le> unat (fst (grow_outcome plan c s))"
    and "unat (fst (grow_outcome plan c s)) <
      unat (target_size_bytes plan) + unat (step_size_bytes plan)"
    and "length (stdout (snd (grow_outcome plan c s))) = length (stdout s) + steps_needed plan c"
    and "stderr (snd (grow_outcome plan c s)) = stderr s"
proof -
  from assms(1) have pos: "0 < unat (step_size_bytes plan)"
    by (simp add: plan_ok_def)
  note enough = steps_taken_enough [OF pos assms(3)]
  from enough(2) have le: "steps_needed plan c \<le> steps_granted plan s"
    by simp
  from grow_outcome_reaches [OF assms(1,2) le]
  show "unat (target_size_bytes plan) \<le> unat (fst (grow_outcome plan c s))"
    and "unat (fst (grow_outcome plan c s)) <
      unat (target_size_bytes plan) + unat (step_size_bytes plan)"
    by simp_all
  from enough
  show "length (stdout (snd (grow_outcome plan c s))) = length (stdout s) + steps_needed plan c"
    and "stderr (snd (grow_outcome plan c s)) = stderr s"
    by (simp_all add: grow_outcome_fields)
qed

text \<open>A step of zero bytes below the target never ends.\<close>

lemma grow_loop_zero_step:
  assumes "step_size_bytes plan = 0" "c < target_size_bytes plan" "heap_ok s"
  shows "grow_loop plan c s = None"
proof (cases "grow_loop plan c s")
  case None
  then show ?thesis .
next
  case (Some r)
  have "\<not> (step_size_bytes plan = 0 \<and> c < target_size_bytes plan \<and> heap_ok s)"
  proof (rule grow_loop.raw_induct
      [where P = "\<lambda>plan c s r. \<not> (step_size_bytes plan = 0 \<and> c < target_size_bytes plan \<and> heap_ok s)",
        OF _ Some])
    fix f plan c s r
    assume IH: "\<And>plan c s r. f plan c s = Some r \<Longrightarrow>
        \<not> (step_size_bytes plan = 0 \<and> c < target_size_bytes plan \<and> heap_ok s)"
      and eq: "(if c < target_size_bytes plan then
          (case grow_body plan c s of
             Inl f \<Rightarrow> Some (Inl f)
           | Inr (Break r) \<Rightarrow> Some (Inr r)
           | Inr (Continue (cumulative', s')) \<Rightarrow> f plan cumulative' s')
        else Some (Inr (c, s))) = Some r"
    show "\<not> (step_size_bytes plan = 0 \<and> c < target_size_bytes plan \<and> heap_ok s)"
    proof
      assume a: "step_size_bytes plan = 0 \<and> c < target_size_bytes plan \<and> heap_ok s"
      then have fits: "reserved s + unat (step_size_bytes plan) \<le> mem_limit s"
        by (simp add: heap_ok_def)
      with a eq have "f plan c (grow_once plan c s) = Some r"
        by (simp add: grow_body_granted)
      then have "\<not> (step_size_bytes plan = 0 \<and> c < target_size_bytes plan
          \<and> heap_ok (grow_once plan c s))"
        by (rule IH)
      with a fits show False
        by (simp add: grow_once_heap_ok)
    qed
  qed
  with assms show ?thesis
    by simp
qed

end
