(* ===== verification/Lifecycle.thy ===== *)
theory Lifecycle
  imports Simulator
begin

text \<open>
  The life of a simulator process as a machine: the phases the
  specification names (\<open>STARTING\<close>, \<open>GROWING\<close>, \<open>IDLE\<close>) and the two ways a
  process ends on its own (\<open>EXITED\<close> with a status, \<open>CRASHED\<close> with a
  fault). A \<open>program\<close> says what \<open>main\<close> runs in each phase: its start-up
  sequence, whether the call of the growth function is compiled in, the
  guard and the body of the growth loop, and the body of the idle loop.

  \<open>next_conf\<close> is the machine as a function, \<open>step\<close> the same machine as a
  relation (\<open>step_iff_next_conf\<close>), \<open>reaches\<close> its reflexive transitive
  closure and \<open>run_for n\<close> the configuration after \<open>n\<close> steps. One step of
  the machine is one execution of the start-up sequence, one iteration of
  the growth loop (or the test of its guard that ends it), or one iteration
  of the idle loop.

  The lemmas are stated for any program whose growth loop follows a plan
  (its body is \<open>grow_body\<close> of the plan and its guard compares with the
  plan's target); the theory \<open>Processes\<close> discharges these conditions for
  the two programs. \<open>accounted\<close> and \<open>stepped\<close> are the invariants of the
  life cycle, proved by induction over \<open>reaches\<close>.
\<close>

section \<open>Phases, programs and steps\<close>

datatype phase = STARTING | GROWING size_t | IDLE | EXITED c_int | CRASHED fault

type_synonym conf = "phase \<times> proc"

record program =
  startup :: "proc \<Rightarrow> fault + (c_int + addr) \<times> proc"
  growth_enabled :: bool
  initial_counter :: size_t
  growth_target :: size_t
  growth_body :: "size_t \<Rightarrow> proc \<Rightarrow> fault + (size_t \<times> proc) loop_ctl"
  idle_body :: "proc \<Rightarrow> proc"

fun next_conf :: "program \<Rightarrow> conf \<Rightarrow> conf option" where
  "next_conf P (STARTING, s) =
     (case startup P s of
        Inl f \<Rightarrow> Some (CRASHED f, s)
      | Inr (Inl status, s') \<Rightarrow> Some (EXITED status, s')
      | Inr (Inr buffer, s') \<Rightarrow>
          Some (if growth_enabled P then GROWING (initial_counter P) else IDLE, s'))"
| "next_conf P (GROWING c, s) =
     (if c < growth_target P then
        (case growth_body P c s of
           Inl f \<Rightarrow> Some (CRASHED f, s)
         | Inr (Break (c', s')) \<Rightarrow> Some (IDLE, s')
         | Inr (Continue (c', s')) \<Rightarrow> Some (GROWING c', s'))
      else Some (IDLE, s))"
| "next_conf P (IDLE, s) = Some (IDLE, idle_body P s)"
| "next_conf P (EXITED status, s) = None"
| "next_conf P (CRASHED f, s) = None"

inductive step :: "program \<Rightarrow> conf \<Rightarrow> conf \<Rightarrow> bool" for P where
  start_crash: "startup P s = Inl f \<Longrightarrow> step P (STARTING, s) (CRASHED f, s)"
| start_exit: "startup P s = Inr (Inl status, s') \<Longrightarrow> step P (STARTING, s) (EXITED status, s')"
| start_grow: "startup P s = Inr (Inr buffer, s') \<Longrightarrow> growth_enabled P \<Longrightarrow>
     step P (STARTING, s) (GROWING (initial_counter P), s')"
| start_idle: "startup P s = Inr (Inr buffer, s') \<Longrightarrow> \<not> growth_enabled P \<Longrightarrow>
     step P (STARTING, s) (IDLE, s')"
| grow_crash: "c < growth_target P \<Longrightarrow> growth_body P c s = Inl f \<Longrightarrow>
     step P (GROWING c, s) (CRASHED f, s)"
| grow_more: "c < growth_target P \<Longrightarrow> growth_body P c s = Inr (Continue (c', s')) \<Longrightarrow>
     step P (GROWING c, s) (GROWING c', s')"
| grow_stop: "c < growth_target P \<Longrightarrow> growth_body P c s = Inr (Break (c', s')) \<Longrightarrow>
     step P (GROWING c, s) (IDLE, s')"
| grow_done: "\<not> c < growth_target P \<Longrightarrow> step P (GROWING c, s) (IDLE, s)"
| idle: "step P (IDLE, s) (IDLE, idle_body P s)"

inductive reaches :: "program \<Rightarrow> conf \<Rightarrow> conf \<Rightarrow> bool" for P c where
  here: "reaches P c c"
| after: "reaches P c c' \<Longrightarrow> step P c' c'' \<Longrightarrow> reaches P c c''"

primrec run_for :: "program \<Rightarrow> nat \<Rightarrow> conf \<Rightarrow> conf" where
  "run_for P 0 c = c"
| "run_for P (Suc n) c = (case next_conf P c of None \<Rightarrow> c | Some c' \<Rightarrow> run_for P n c')"

fun final :: "phase \<Rightarrow> bool" where
  "final (EXITED status) = True"
| "final (CRASHED f) = True"
| "final ph = False"

section \<open>The order of the phases\<close>

text \<open>
  The phases in the order a process passes through them: starting, growing
  (by the counter), idle, and the two ends. \<open>phase_key\<close> places a phase in
  that order; the order makes \<open>phase\<close> a linear order, so that "the machine
  never goes back" is monotonicity of a run.
\<close>

fun fault_index :: "fault \<Rightarrow> nat" where
  "fault_index NullDeref = 0"
| "fault_index OutOfBounds = 1"
| "fault_index InvalidFree = 2"

fun phase_key :: "phase \<Rightarrow> nat \<times> nat" where
  "phase_key STARTING = (0, 0)"
| "phase_key (GROWING c) = (1, unat c)"
| "phase_key IDLE = (2, 0)"
| "phase_key (EXITED status) = (3, unat status)"
| "phase_key (CRASHED f) = (4, fault_index f)"

lemma fault_index_inj: "fault_index f = fault_index g \<Longrightarrow> f = g"
  by (cases f; cases g) simp_all

lemma phase_key_inj: "phase_key p = phase_key q \<Longrightarrow> p = q"
  by (cases p; cases q) (auto dest: fault_index_inj simp: word_unat_eq_iff)

instantiation phase :: linorder
begin

definition less_eq_phase :: "phase \<Rightarrow> phase \<Rightarrow> bool" where
  "less_eq_phase p q \<longleftrightarrow>
     fst (phase_key p) < fst (phase_key q) \<or>
     fst (phase_key p) = fst (phase_key q) \<and> snd (phase_key p) \<le> snd (phase_key q)"

definition less_phase :: "phase \<Rightarrow> phase \<Rightarrow> bool" where
  "less_phase p q \<longleftrightarrow> p \<le> q \<and> \<not> q \<le> p"

instance
proof
  fix p q r :: phase
  show "p < q \<longleftrightarrow> p \<le> q \<and> \<not> q \<le> p"
    by (simp add: less_phase_def)
  show "p \<le> p"
    by (simp add: less_eq_phase_def)
  show "p \<le> q \<Longrightarrow> q \<le> r \<Longrightarrow> p \<le> r"
    by (auto simp: less_eq_phase_def)
  show "p \<le> q \<Longrightarrow> q \<le> p \<Longrightarrow> p = q"
    by (auto simp: less_eq_phase_def intro!: phase_key_inj prod_eqI)
  show "p \<le> q \<or> q \<le> p"
    by (auto simp: less_eq_phase_def)
qed

end

lemma phase_le_simps [simp]:
  "STARTING \<le> p"
  "GROWING c \<le> GROWING d \<longleftrightarrow> unat c \<le> unat d"
  "GROWING c \<le> IDLE"
  "IDLE \<le> IDLE"
  "GROWING c \<le> CRASHED f"
  by (cases p; simp_all add: less_eq_phase_def)+

section \<open>The relation and the function are one machine\<close>

inductive_cases step_STARTING: "step P (STARTING, s) c'"
inductive_cases step_GROWING: "step P (GROWING c, s) c'"
inductive_cases step_IDLE: "step P (IDLE, s) c'"
inductive_cases step_EXITED: "step P (EXITED status, s) c'"
inductive_cases step_CRASHED: "step P (CRASHED f, s) c'"

lemmas step_elims = step_STARTING step_GROWING step_IDLE step_EXITED step_CRASHED

lemma next_conf_step: "next_conf P c = Some c' \<Longrightarrow> step P c c'"
  by (cases "(P, c)" rule: next_conf.cases)
    (auto intro: step.intros split: sum.splits prod.splits loop_ctl.splits if_splits)

lemma step_next_conf: "step P c c' \<Longrightarrow> next_conf P c = Some c'"
  by (induction rule: step.induct) simp_all

lemma step_iff_next_conf: "step P c c' \<longleftrightarrow> next_conf P c = Some c'"
  by (blast intro: next_conf_step step_next_conf)

lemma step_deterministic: "step P c c1 \<Longrightarrow> step P c c2 \<Longrightarrow> c1 = c2"
  by (simp add: step_iff_next_conf)

lemma next_conf_None_iff: "next_conf P (ph, s) = None \<longleftrightarrow> final ph"
  by (cases ph) (auto split: sum.splits prod.splits loop_ctl.splits)

lemma final_no_step: "final ph \<Longrightarrow> \<not> step P (ph, s) c'"
  by (simp add: step_iff_next_conf next_conf_None_iff [THEN iffD2])

section \<open>Runs\<close>

lemma run_for_stuck: "next_conf P c = None \<Longrightarrow> run_for P n c = c"
  by (cases n) simp_all

lemma run_for_final [simp]: "final ph \<Longrightarrow> run_for P n (ph, s) = (ph, s)"
  by (simp add: run_for_stuck next_conf_None_iff [THEN iffD2])

lemma run_for_step: "next_conf P c = Some c' \<Longrightarrow> run_for P (Suc n) c = run_for P n c'"
  by simp

lemma run_for_add: "run_for P (m + n) c = run_for P n (run_for P m c)"
proof (induction m arbitrary: c)
  case 0
  show ?case by simp
next
  case (Suc m)
  show ?case
  proof (cases "next_conf P c")
    case None
    then show ?thesis
      by (simp add: run_for_stuck)
  next
    case (Some c')
    with Suc.IH show ?thesis by simp
  qed
qed

lemma reaches_trans:
  assumes "reaches P c c'" "reaches P c' c''"
  shows "reaches P c c''"
  using assms(2,1) by (induction rule: reaches.induct) (auto intro: reaches.intros)

lemma step_reaches: "step P c c' \<Longrightarrow> reaches P c c'"
  by (blast intro: reaches.intros)

lemma reaches_run_for: "reaches P c (run_for P n c)"
proof (induction n arbitrary: c)
  case 0
  show ?case by (simp add: reaches.here)
next
  case (Suc n)
  show ?case
  proof (cases "next_conf P c")
    case None
    then show ?thesis by (simp add: reaches.here)
  next
    case (Some c')
    then have "reaches P c c'"
      by (blast intro: step_reaches next_conf_step)
    with Some Suc.IH [of c'] show ?thesis
      by (auto intro: reaches_trans)
  qed
qed

lemma reaches_imp_run_for: "reaches P c c' \<Longrightarrow> \<exists>n. run_for P n c = c'"
proof (induction rule: reaches.induct)
  case here
  have "run_for P 0 c = c" by simp
  then show ?case ..
next
  case (after c' c'')
  then obtain n where n: "run_for P n c = c'"
    by blast
  from after.hyps(2) have "run_for P (Suc 0) c' = c''"
    by (simp add: step_next_conf)
  with n have "run_for P (n + Suc 0) c = c''"
    by (simp only: run_for_add)
  then show ?case ..
qed

lemma reaches_iff_run_for: "reaches P c c' \<longleftrightarrow> (\<exists>n. run_for P n c = c')"
  using reaches_run_for reaches_imp_run_for by blast

lemma reaches_unfold:
  "reaches P c x \<longleftrightarrow> x = c \<or> (\<exists>c1. next_conf P c = Some c1 \<and> reaches P c1 x)"
proof
  assume "reaches P c x"
  then obtain n where n: "run_for P n c = x"
    by (auto simp: reaches_iff_run_for)
  show "x = c \<or> (\<exists>c1. next_conf P c = Some c1 \<and> reaches P c1 x)"
  proof (cases n)
    case 0
    with n show ?thesis by simp
  next
    case (Suc m)
    with n show ?thesis
      by (cases "next_conf P c") (auto simp: reaches_iff_run_for)
  qed
next
  assume "x = c \<or> (\<exists>c1. next_conf P c = Some c1 \<and> reaches P c1 x)"
  then show "reaches P c x"
    by (auto intro: reaches.here reaches_trans step_reaches next_conf_step)
qed

text \<open>
  A property that holds of the first configuration and is kept by every
  step holds of every configuration the machine reaches.
\<close>

lemma reaches_invariant:
  assumes "reaches P c c'" "I c" "\<And>a b. I a \<Longrightarrow> step P a b \<Longrightarrow> I b"
  shows "I c'"
  using assms by (induction rule: reaches.induct) blast+

section \<open>The idle phase and the final phases\<close>

lemma run_for_IDLE [simp]: "run_for P n (IDLE, s) = (IDLE, (idle_body P ^^ n) s)"
  by (induction n arbitrary: s) (simp_all add: funpow_swap1)

lemma reaches_IDLE:
  "reaches P (IDLE, s) c' \<longleftrightarrow> (\<exists>n. c' = (IDLE, (idle_body P ^^ n) s))"
  by (auto simp: reaches_iff_run_for)

lemma reaches_final: "final ph \<Longrightarrow> reaches P (ph, s) c' \<longleftrightarrow> c' = (ph, s)"
  by (auto simp: reaches_iff_run_for)

section \<open>The growing phase of a program that follows a plan\<close>

text \<open>
  When the body and the guard of a program's growth loop are those of a
  plan, the growing phase takes \<open>steps_taken\<close> steps through the states
  \<open>grown\<close> and one more step into the idle phase, where it arrives in the
  state of the reference definition \<open>grow_outcome\<close>.
\<close>

lemma growing_next_granted:
  assumes "\<And>c s. growth_body P c s = grow_body plan c s"
    "growth_target P = target_size_bytes plan"
    "heap_ok s" "c < target_size_bytes plan"
    "reserved s + unat (step_size_bytes plan) \<le> mem_limit s"
  shows "next_conf P (GROWING c, s) =
    Some (GROWING (c + step_size_bytes plan), grow_once plan c s)"
  using assms by (simp add: grow_body_granted)

lemma growing_next_refused:
  assumes "\<And>c s. growth_body P c s = grow_body plan c s"
    "growth_target P = target_size_bytes plan"
    "c < target_size_bytes plan"
    "mem_limit s < reserved s + unat (step_size_bytes plan)"
  shows "next_conf P (GROWING c, s) = Some (IDLE, fprintf_stderr (failure_line plan) s)"
  using assms by (simp add: grow_body_refused)

lemma growing_next:
  assumes "\<And>c s. growth_body P c s = grow_body plan c s"
    "growth_target P = target_size_bytes plan" "heap_ok s"
  shows "next_conf P (GROWING c, s) =
    Some (if c < target_size_bytes plan then
            if reserved s + unat (step_size_bytes plan) \<le> mem_limit s
            then (GROWING (c + step_size_bytes plan), grow_once plan c s)
            else (IDLE, fprintf_stderr (failure_line plan) s)
          else (IDLE, s))"
  using assms by (simp add: grow_body_granted grow_body_refused)

lemma growing_run_for:
  assumes body: "\<And>c s. growth_body P c s = grow_body plan c s"
    and target: "growth_target P = target_size_bytes plan"
    and ok: "plan_ok plan"
  shows "heap_ok s \<Longrightarrow> k \<le> steps_taken plan c s \<Longrightarrow>
    run_for P k (GROWING c, s) =
      (GROWING (c + of_nat k * step_size_bytes plan), grown plan k c s)"
proof (induction k arbitrary: c s)
  case 0
  show ?case by simp
next
  case (Suc k)
  let ?c1 = "c + step_size_bytes plan" and ?s1 = "grow_once plan c s"
  from Suc.prems have pos: "0 < steps_taken plan c s"
    by simp
  note less = steps_taken_pos(1) [OF ok Suc.prems(1) pos]
    and room = steps_taken_pos(2) [OF ok Suc.prems(1) pos]
  from Suc.prems(2) steps_taken_step [OF ok less room]
  have "k \<le> steps_taken plan ?c1 ?s1"
    by simp
  moreover have "heap_ok ?s1"
    using Suc.prems(1) room by (rule grow_once_heap_ok)
  ultimately have "run_for P k (GROWING ?c1, ?s1) =
      (GROWING (?c1 + of_nat k * step_size_bytes plan), grown plan k ?c1 ?s1)"
    by (rule Suc.IH [rotated])
  with growing_next_granted [OF body target Suc.prems(1) less room] show ?case
    by (simp add: algebra_simps)
qed

lemma growing_last_step:
  assumes body: "\<And>c s. growth_body P c s = grow_body plan c s"
    and target: "growth_target P = target_size_bytes plan"
    and ok: "plan_ok plan" and heap: "heap_ok s"
    and none: "steps_taken plan c s = 0"
  shows "next_conf P (GROWING c, s) = Some (IDLE, snd (grow_outcome plan c s))"
proof (cases "c < target_size_bytes plan")
  case False
  with ok target show ?thesis
    by (simp add: grow_outcome_done)
next
  case True
  have short: "mem_limit s < reserved s + unat (step_size_bytes plan)"
  proof (rule ccontr)
    assume "\<not> mem_limit s < reserved s + unat (step_size_bytes plan)"
    then have "reserved s + unat (step_size_bytes plan) \<le> mem_limit s"
      by simp
    from steps_taken_step [OF ok True this] none show False
      by simp
  qed
  from growing_next_refused [OF body target True short]
    grow_outcome_refused [OF ok heap True short]
  show ?thesis
    by simp
qed

lemma growing_reaches_IDLE_aux:
  assumes body: "\<And>c s. growth_body P c s = grow_body plan c s"
    and target: "growth_target P = target_size_bytes plan"
    and ok: "plan_ok plan"
  shows "heap_ok s \<Longrightarrow> steps_taken plan c s = n \<Longrightarrow>
    run_for P (Suc n) (GROWING c, s) = (IDLE, snd (grow_outcome plan c s))"
proof (induction n arbitrary: c s)
  case 0
  with growing_last_step [OF body target ok] show ?case
    by simp
next
  case (Suc n)
  let ?c1 = "c + step_size_bytes plan" and ?s1 = "grow_once plan c s"
  from Suc.prems have pos: "0 < steps_taken plan c s"
    by simp
  note less = steps_taken_pos(1) [OF ok Suc.prems(1) pos]
    and room = steps_taken_pos(2) [OF ok Suc.prems(1) pos]
  from Suc.prems(2) steps_taken_step [OF ok less room]
  have "steps_taken plan ?c1 ?s1 = n"
    by simp
  moreover have "heap_ok ?s1"
    using Suc.prems(1) room by (rule grow_once_heap_ok)
  ultimately have "run_for P (Suc n) (GROWING ?c1, ?s1) =
      (IDLE, snd (grow_outcome plan ?c1 ?s1))"
    by (rule Suc.IH [rotated])
  with growing_next_granted [OF body target Suc.prems(1) less room]
    grow_outcome_granted [OF ok less room]
  show ?case
    by (simp only: run_for_step)
qed

lemma growing_reaches_IDLE:
  assumes "\<And>c s. growth_body P c s = grow_body plan c s"
    "growth_target P = target_size_bytes plan" "plan_ok plan" "heap_ok s"
  shows "run_for P (Suc (steps_taken plan c s)) (GROWING c, s) =
    (IDLE, snd (grow_outcome plan c s))"
  using assms by (rule growing_reaches_IDLE_aux) simp

text \<open>
  The whole run of a program whose start-up sequence succeeds and whose
  growth is compiled in: one step into the growing phase, the granted steps,
  one step into the idle phase, and idle rounds from then on.
\<close>

lemma run_for_growing:
  assumes "\<And>c s. growth_body P c s = grow_body plan c s"
    "growth_target P = target_size_bytes plan" "plan_ok plan"
    and start: "next_conf P (STARTING, s) = Some (GROWING c, s1)"
    and "heap_ok s1" "k \<le> steps_taken plan c s1"
  shows "run_for P (Suc k) (STARTING, s) =
    (GROWING (c + of_nat k * step_size_bytes plan), grown plan k c s1)"
  using growing_run_for [OF assms(1-3,5,6)] start by simp

lemma run_for_idle:
  assumes "\<And>c s. growth_body P c s = grow_body plan c s"
    "growth_target P = target_size_bytes plan" "plan_ok plan"
    and start: "next_conf P (STARTING, s) = Some (GROWING c, s1)"
    and "heap_ok s1"
  shows "run_for P (Suc (Suc (steps_taken plan c s1)) + n) (STARTING, s) =
    (IDLE, (idle_body P ^^ n) (snd (grow_outcome plan c s1)))"
proof -
  have "run_for P (Suc (Suc (steps_taken plan c s1))) (STARTING, s) =
      (IDLE, snd (grow_outcome plan c s1))"
    using growing_reaches_IDLE [OF assms(1-3,5), of c] start by simp
  then show ?thesis
    by (simp only: run_for_add run_for_IDLE)
qed

section \<open>A run never goes back\<close>

lemma step_forward:
  assumes body: "\<And>c s. growth_body P c s = grow_body plan c s"
    and target: "growth_target P = target_size_bytes plan"
    and ok: "plan_ok plan"
    and step: "step P a b"
  shows "fst a \<le> fst b"
  using step
proof (cases rule: step.cases)
  case (grow_more c s c' s')
  with body target have less: "c < target_size_bytes plan"
    and "grow_body plan c s = Inr (Continue (c', s'))"
    by simp_all
  then have "c' = c + step_size_bytes plan"
    by (simp only: grow_body_Continue)
  with unat_step_nowrap [OF ok less] grow_more show ?thesis
    by simp
qed simp_all

lemma run_for_mono:
  assumes "\<And>c s. growth_body P c s = grow_body plan c s"
    "growth_target P = target_size_bytes plan" "plan_ok plan"
  shows "mono (\<lambda>n. fst (run_for P n c))"
  unfolding mono_iff_le_Suc
proof
  fix n
  have "run_for P (Suc n) c = run_for P (Suc 0) (run_for P n c)"
    using run_for_add [of P n "Suc 0" c] by simp
  then show "fst (run_for P n c) \<le> fst (run_for P (Suc n) c)"
    using step_forward [OF assms, of "run_for P n c"]
    by (cases "next_conf P (run_for P n c)") (simp_all add: step_iff_next_conf)
qed

text \<open>
  As long as a run stays in the growing phase, every step adds one step size
  to the counter.
\<close>

lemma growing_counter:
  assumes body: "\<And>c s. growth_body P c s = grow_body plan c s"
    and target: "growth_target P = target_size_bytes plan"
    and ok: "plan_ok plan"
  shows "run_for P k (GROWING a, s) = (GROWING b, t) \<Longrightarrow>
    unat b = unat a + k * unat (step_size_bytes plan)"
proof (induction k arbitrary: a s)
  case 0
  then show ?case by simp
next
  case (Suc k)
  obtain ph s' where nxt: "next_conf P (GROWING a, s) = Some (ph, s')"
    using next_conf_None_iff [of P "GROWING a" s]
    by (cases "next_conf P (GROWING a, s)") (auto simp del: next_conf.simps)
  with Suc.prems have run: "run_for P k (ph, s') = (GROWING b, t)"
    by (simp del: next_conf.simps)
  then have "\<not> final ph" "ph \<noteq> IDLE"
    by (auto simp del: run_for.simps)
  with nxt body target obtain a' where ph: "ph = GROWING a'" and less: "a < target_size_bytes plan"
    and "grow_body plan a s = Inr (Continue (a', s'))"
    by (auto split: if_splits sum.splits loop_ctl.splits)
  then have "a' = a + step_size_bytes plan"
    by (simp only: grow_body_Continue)
  with Suc.IH [of a' s'] run ph unat_step_nowrap [OF ok less] show ?case
    by simp
qed

section \<open>Accounting\<close>

text \<open>
  What the phases promise about memory. \<open>init\<close> is the size of the first
  reservation and \<open>off\<close> the part of the footprint the counter of the growth
  loop does not count. While growing, the footprint above the starting state
  \<open>s0\<close> is exactly \<open>off\<close> plus the counter, every reserved byte is written,
  and nothing was reported on standard error; when idle, the footprint lies
  between the first reservation and one step past the target; an exit is an
  exit with status 1 that left the heap, the output and the clock untouched;
  a crash does not occur.
\<close>

fun accounted :: "growth_plan \<Rightarrow> nat \<Rightarrow> nat \<Rightarrow> proc \<Rightarrow> conf \<Rightarrow> bool" where
  "accounted plan init off s0 (STARTING, s) = (s = s0)"
| "accounted plan init off s0 (GROWING c, s) =
     (heap_ok s \<and> init \<le> off + unat c \<and>
      unat c < unat (target_size_bytes plan) + unat (step_size_bytes plan) \<and>
      reserved s = reserved s0 + off + unat c \<and>
      committed s = committed s0 + off + unat c \<and> stderr s = stderr s0)"
| "accounted plan init off s0 (IDLE, s) =
     (heap_ok s \<and> reserved s0 + init \<le> reserved s \<and>
      reserved s < reserved s0 + off + unat (target_size_bytes plan) +
        unat (step_size_bytes plan) \<and>
      committed s + reserved s0 = committed s0 + reserved s)"
| "accounted plan init off s0 (EXITED status, s) =
     (status = 1 \<and> heap s = heap s0 \<and> brk s = brk s0 \<and> stdout s = stdout s0 \<and>
      clock s = clock s0)"
| "accounted plan init off s0 (CRASHED f, s) = False"

text \<open>
  What the growing phase promises about the counter and the output: the
  counter is the initial counter plus a whole number of steps and, once a
  step was taken, the last line on standard output is the report of the
  counter.
\<close>

fun stepped :: "growth_plan \<Rightarrow> size_t \<Rightarrow> conf \<Rightarrow> bool" where
  "stepped plan c0 (GROWING c, s) =
     (heap_ok s \<and> unat c0 \<le> unat c \<and> unat (step_size_bytes plan) dvd unat c - unat c0 \<and>
      (c \<noteq> c0 \<longrightarrow> stdout s \<noteq> [] \<and> last (stdout s) = report_line plan c))"
| "stepped plan c0 (ph, s) = True"

lemma accounted_growing_step:
  assumes body: "\<And>c s. growth_body P c s = grow_body plan c s"
    and target: "growth_target P = target_size_bytes plan"
    and ok: "plan_ok plan"
    and inv: "accounted plan init off s0 (GROWING c, s)"
    and step: "step P (GROWING c, s) b"
  shows "accounted plan init off s0 b"
proof -
  from inv have heap: "heap_ok s"
    by simp
  from step have b: "next_conf P (GROWING c, s) = Some b"
    by (simp only: step_iff_next_conf)
  consider (at_target) "\<not> c < target_size_bytes plan"
    | (refused) "c < target_size_bytes plan"
        "mem_limit s < reserved s + unat (step_size_bytes plan)"
    | (granted) "c < target_size_bytes plan"
        "reserved s + unat (step_size_bytes plan) \<le> mem_limit s"
    by linarith
  then show ?thesis
  proof cases
    case at_target
    with b target inv show ?thesis
      by auto
  next
    case refused
    with b inv growing_next_refused [OF body target refused] show ?thesis
      by auto
  next
    case granted
    from granted(1) have "unat c < unat (target_size_bytes plan)"
      by (simp add: size_t_less_iff)
    with b inv growing_next_granted [OF body target heap granted]
      unat_step_nowrap [OF ok granted(1)] grow_once_heap_ok [OF heap granted(2), of c]
    show ?thesis
      by auto
  qed
qed

lemma accounted_idle_step:
  assumes "\<And>s. idle_body P s = sleep d s"
    "accounted plan init off s0 (IDLE, s)" "step P (IDLE, s) b"
  shows "accounted plan init off s0 b"
  using assms by (auto elim: step_IDLE)

lemma accounted_starting_step:
  assumes start: "startup P s0 = Inr (Inl 1, fprintf_stderr line s0) \<or>
      (\<exists>buffer s1. startup P s0 = Inr (Inr buffer, s1) \<and> heap_ok s1 \<and>
        reserved s1 = reserved s0 + init \<and> committed s1 = committed s0 + init \<and>
        stderr s1 = stderr s0)"
    and init: "init = off + unat (initial_counter P)"
      "unat (initial_counter P) < unat (target_size_bytes plan) + unat (step_size_bytes plan)"
    and step: "step P (STARTING, s0) b"
  shows "accounted plan init off s0 b"
  using assms by (auto elim!: step_STARTING)

text \<open>
  The invariant holds in every configuration a program reaches from its
  start, provided its growth loop follows the plan, its idle loop only
  sleeps and its start-up sequence either gives up with status 1 or reserves
  and writes \<open>init\<close> bytes.
\<close>

lemma accounted_reaches:
  assumes body: "\<And>c s. growth_body P c s = grow_body plan c s"
    and target: "growth_target P = target_size_bytes plan"
    and ok: "plan_ok plan"
    and idle: "\<And>s. idle_body P s = sleep d s"
    and start: "startup P s0 = Inr (Inl 1, fprintf_stderr line s0) \<or>
      (\<exists>buffer s1. startup P s0 = Inr (Inr buffer, s1) \<and> heap_ok s1 \<and>
        reserved s1 = reserved s0 + init \<and> committed s1 = committed s0 + init \<and>
        stderr s1 = stderr s0)"
    and init: "init = off + unat (initial_counter P)"
      "unat (initial_counter P) < unat (target_size_bytes plan) + unat (step_size_bytes plan)"
    and run: "reaches P (STARTING, s0) b"
  shows "accounted plan init off s0 b"
using run proof (rule reaches_invariant)
  show "accounted plan init off s0 (STARTING, s0)"
    by simp
next
  fix a b
  assume inv: "accounted plan init off s0 a" and step: "step P a b"
  obtain ph s where a: "a = (ph, s)"
    by (cases a)
  show "accounted plan init off s0 b"
  proof (cases ph)
    case STARTING
    with inv step a accounted_starting_step [OF start init] show ?thesis
      by simp
  next
    case (GROWING c)
    with inv step a accounted_growing_step [OF body target ok] show ?thesis
      by simp
  next
    case IDLE
    with inv step a accounted_idle_step [OF idle] show ?thesis
      by simp
  qed (use step a final_no_step in auto)
qed

lemma stepped_step:
  assumes body: "\<And>c s. growth_body P c s = grow_body plan c s"
    and target: "growth_target P = target_size_bytes plan"
    and ok: "plan_ok plan"
    and start: "\<forall>buffer s1. startup P z = Inr (Inr buffer, s1) \<longrightarrow> heap_ok s1"
    and inv: "stepped plan (initial_counter P) a" "fst a = STARTING \<longrightarrow> snd a = z"
    and step: "step P a b"
  shows "stepped plan (initial_counter P) b \<and> fst b \<noteq> STARTING"
  using step
proof (cases rule: step.cases)
  case (grow_more c s c' s')
  with body target have granted: "grow_body plan c s = Inr (Continue (c', s'))"
    and less: "c < target_size_bytes plan"
    by simp_all
  from inv grow_more have heap: "heap_ok s"
    by simp
  have room: "reserved s + unat (step_size_bytes plan) \<le> mem_limit s"
    using granted grow_body_refused [of s plan c] by (cases "reserved s + unat (step_size_bytes plan) \<le> mem_limit s") simp_all
  from granted grow_body_granted [OF heap room, of c]
  have c': "c' = c + step_size_bytes plan" and s': "s' = grow_once plan c s"
    by simp_all
  from inv grow_more obtain k where le: "unat (initial_counter P) \<le> unat c"
    and "unat c - unat (initial_counter P) = unat (step_size_bytes plan) * k"
    by (auto simp: dvd_def)
  then have "unat c + unat (step_size_bytes plan) - unat (initial_counter P) =
      unat (step_size_bytes plan) * Suc k"
    by simp
  then have "unat (step_size_bytes plan) dvd
      unat c + unat (step_size_bytes plan) - unat (initial_counter P)"
    by (simp only: dvd_triv_left)
  with inv grow_more unat_step_nowrap [OF ok less] grow_once_heap_ok [OF heap room, of c]
  show ?thesis
    by (simp add: c' s')
qed (use inv start in auto)

lemma stepped_reaches:
  assumes "\<And>c s. growth_body P c s = grow_body plan c s"
    "growth_target P = target_size_bytes plan" "plan_ok plan"
    "\<forall>buffer s1. startup P z = Inr (Inr buffer, s1) \<longrightarrow> heap_ok s1"
    and run: "reaches P (STARTING, z) b"
  shows "stepped plan (initial_counter P) b"
proof -
  have "stepped plan (initial_counter P) b \<and> (fst b = STARTING \<longrightarrow> snd b = z)"
    using run
  proof (rule reaches_invariant)
    fix a b
    assume "stepped plan (initial_counter P) a \<and> (fst a = STARTING \<longrightarrow> snd a = z)"
      and "step P a b"
    with stepped_step [where z = z and a = a and b = b, OF assms(1-4)]
    show "stepped plan (initial_counter P) b \<and> (fst b = STARTING \<longrightarrow> snd b = z)"
      by blast
  qed simp
  then show ?thesis ..
qed

end
