(* ===== verification/Memory_Usage_Program.thy ===== *)
theory Memory_Usage_Program
  imports Simulator
begin

text \<open>
  The program \<open>src/memory_usage_program.c\<close>: its five macros, the growth
  function \<open>increase_memory_usage\<close> (one definition for the loop body, one
  for the loop, one for the function) and \<open>main\<close> (the start-up sequence, the
  idle loop and their composition). Locals keep their C names. \<open>mup_plan\<close>
  collects the macros into the growth plan that makes the loop an instance
  of the simulator's.
\<close>

section \<open>Macros\<close>

definition mup_INITIAL_MEMORY_MB :: c_int where
  "mup_INITIAL_MEMORY_MB = 100"

definition TOTAL_MEMORY_MB :: c_int where
  "TOTAL_MEMORY_MB = 1124"

definition MEMORY_STEP_MB :: c_int where
  "MEMORY_STEP_MB = 10"

definition mup_SLEEP_INTERVAL_SEC :: c_int where
  "mup_SLEEP_INTERVAL_SEC = 1"

definition DELAY_BEFORE_INCREASE_SEC :: c_int where
  "DELAY_BEFORE_INCREASE_SEC = 60"

section \<open>increase_memory_usage\<close>

definition increase_memory_usage_body ::
  "size_t \<Rightarrow> proc \<Rightarrow> fault + (size_t \<times> proc) loop_ctl" where
  "increase_memory_usage_body total_memory_allocated s =
     (case malloc (int_to_size_t (MEMORY_STEP_MB * 1024 * 1024)) s of
        (additional_memory, s1) \<Rightarrow>
          if additional_memory = NULL
          then Inr (Break (total_memory_allocated,
                 fprintf_stderr ''Failed to allocate additional memory\<newline>'' s1))
          else bind_res
            (memset additional_memory 0 (int_to_size_t (MEMORY_STEP_MB * 1024 * 1024)) s1)
            (\<lambda>s2.
              let total_memory_allocated' =
                    total_memory_allocated + int_to_size_t (MEMORY_STEP_MB * 1024 * 1024);
                  s3 = printf (''Total memory allocated: '' @
                         fmt_zu (total_memory_allocated' div int_to_size_t (1024 * 1024)) @
                         '' MB\<newline>'') s2;
                  s4 = sleep (int_to_unsigned mup_SLEEP_INTERVAL_SEC) s3
              in Inr (Continue (total_memory_allocated', s4))))"

lemmas mup_macros [c_arith] =
  mup_INITIAL_MEMORY_MB_def TOTAL_MEMORY_MB_def MEMORY_STEP_MB_def
  mup_SLEEP_INTERVAL_SEC_def DELAY_BEFORE_INCREASE_SEC_def

text \<open>The growth plan the macros describe, and the body as a step of the simulator.\<close>

definition mup_plan :: growth_plan where
  "mup_plan =
     \<lparr>target_size_bytes = int_to_size_t (TOTAL_MEMORY_MB * 1024 * 1024),
      step_size_bytes = int_to_size_t (MEMORY_STEP_MB * 1024 * 1024),
      step_interval = int_to_unsigned mup_SLEEP_INTERVAL_SEC,
      report_line = (\<lambda>t. ''Total memory allocated: '' @
         fmt_zu (t div int_to_size_t (1024 * 1024)) @ '' MB\<newline>''),
      failure_line = ''Failed to allocate additional memory\<newline>''\<rparr>"

lemma mup_plan_fields [simp]:
  "target_size_bytes mup_plan = 1178599424"
  "step_size_bytes mup_plan = 10485760"
  "step_interval mup_plan = 1"
  "failure_line mup_plan = ''Failed to allocate additional memory\<newline>''"
  "report_line mup_plan t =
     ''Total memory allocated: '' @ fmt_zu (t div 1048576) @ '' MB\<newline>''"
  by (simp_all add: mup_plan_def c_arith)

lemma mup_plan_ok: "plan_ok mup_plan"
  by (simp add: plan_ok_def)

lemma increase_memory_usage_body_eq:
  "increase_memory_usage_body t s = grow_body mup_plan t s"
  by (simp add: increase_memory_usage_body_def grow_body_def c_arith split: prod.split)

function increase_memory_usage_loop :: "size_t \<Rightarrow> proc \<Rightarrow> fault + size_t \<times> proc" where
  "increase_memory_usage_loop total_memory_allocated s =
     (if total_memory_allocated < int_to_size_t (TOTAL_MEMORY_MB * 1024 * 1024) then
        (case increase_memory_usage_body total_memory_allocated s of
           Inl f \<Rightarrow> Inl f
         | Inr (Break r) \<Rightarrow> Inr r
         | Inr (Continue (total_memory_allocated', s')) \<Rightarrow>
             increase_memory_usage_loop total_memory_allocated' s')
      else Inr (total_memory_allocated, s))"
  by pat_completeness auto
termination
proof (relation "measure (\<lambda>(t, s). unat (target_size_bytes mup_plan) - unat t)")
  fix t :: size_t and s s' :: proc and r c t'
  assume "t < int_to_size_t (TOTAL_MEMORY_MB * 1024 * 1024)"
    and "increase_memory_usage_body t s = Inr r" "r = Continue c" "(t', s') = c"
  then have "t < target_size_bytes mup_plan" "grow_body mup_plan t s = Inr (Continue (t', s'))"
    by (simp_all add: increase_memory_usage_body_eq c_arith)
  from grow_body_decreases [OF mup_plan_ok this]
  show "((t', s'), (t, s)) \<in> measure (\<lambda>(t, s). unat (target_size_bytes mup_plan) - unat t)"
    by simp
qed simp

definition increase_memory_usage :: "proc \<Rightarrow> fault + proc" where
  "increase_memory_usage s =
     (let total_memory_allocated = int_to_size_t (mup_INITIAL_MEMORY_MB * 1024 * 1024)
      in bind_res (increase_memory_usage_loop total_memory_allocated s) (\<lambda>r. Inr (snd r)))"

section \<open>main\<close>

definition mup_startup :: "proc \<Rightarrow> fault + (c_int + addr) \<times> proc" where
  "mup_startup s =
     (case malloc (int_to_size_t (mup_INITIAL_MEMORY_MB * 1024 * 1024)) s of
        (initial_buffer, s1) \<Rightarrow>
          if initial_buffer = NULL
          then Inr (Inl 1, fprintf_stderr ''Failed to allocate initial memory\<newline>'' s1)
          else bind_res
            (memset initial_buffer 0 (int_to_size_t (mup_INITIAL_MEMORY_MB * 1024 * 1024)) s1)
            (\<lambda>s2.
              let s3 = printf (''Initial '' @ fmt_d mup_INITIAL_MEMORY_MB @
                         '' MB of memory allocated. PID: '' @ fmt_d (getpid s2) @
                         ''\<newline>'') s2;
                  s4 = printf (''Waiting for '' @ fmt_d DELAY_BEFORE_INCREASE_SEC @
                         '' seconds before increasing memory usage...\<newline>'') s3;
                  s5 = sleep (int_to_unsigned DELAY_BEFORE_INCREASE_SEC) s4
              in Inr (Inr initial_buffer, s5)))"

definition mup_idle_body :: "proc \<Rightarrow> proc" where
  "mup_idle_body s = sleep (int_to_unsigned 10) s"

partial_function (option) mup_idle_loop :: "proc \<Rightarrow> proc option" where
  "mup_idle_loop s = (if (1 :: c_int) \<noteq> 0 then mup_idle_loop (mup_idle_body s) else Some s)"

definition mup_main :: "proc \<Rightarrow> (fault + c_int \<times> proc) option" where
  "mup_main s =
     (case mup_startup s of
        Inl f \<Rightarrow> Some (Inl f)
      | Inr (Inl status, s') \<Rightarrow> Some (Inr (status, s'))
      | Inr (Inr initial_buffer, s') \<Rightarrow>
          (case mup_idle_loop s' of
             None \<Rightarrow> None
           | Some s'' \<Rightarrow> Some (bind_res (free initial_buffer s'') (\<lambda>s3. Inr (0, s3)))))"

text \<open>
  The state right after a granted start-up, and \<open>main\<close> with its idle loop
  cut after \<open>n\<close> rounds: the state after start-up and \<open>n\<close> rounds, or
  the state at the \<open>return 1\<close> when the first allocation is refused.
\<close>

definition mup_ready :: "proc \<Rightarrow> proc" where
  "mup_ready s =
     sleep 60
       (printf ''Waiting for 60 seconds before increasing memory usage...\<newline>''
         (printf (''Initial 100 MB of memory allocated. PID: '' @ fmt_d (pid s) @ ''\<newline>'')
           (s\<lparr>heap := (brk s, replicate 104857600 (Some 0)) # heap s,
              brk := brk s + 104857601\<rparr>)))"

definition mup_idle_state :: "nat \<Rightarrow> proc \<Rightarrow> fault + proc" where
  "mup_idle_state n s =
     (case mup_startup s of
        Inl f \<Rightarrow> Inl f
      | Inr (Inl status, s') \<Rightarrow> Inr s'
      | Inr (Inr initial_buffer, s') \<Rightarrow> Inr ((mup_idle_body ^^ n) s'))"

section \<open>The loop is the simulator's loop under the plan of the macros\<close>

declare increase_memory_usage_loop.simps [simp del]

lemma increase_memory_usage_loop_unfold:
  "increase_memory_usage_loop c s =
     (if c < target_size_bytes mup_plan then
        (case grow_body mup_plan c s of
           Inl f \<Rightarrow> Inl f
         | Inr (Break r) \<Rightarrow> Inr r
         | Inr (Continue (c', s')) \<Rightarrow> increase_memory_usage_loop c' s')
      else Inr (c, s))"
  by (subst increase_memory_usage_loop.simps)
    (simp add: increase_memory_usage_body_eq c_arith)

lemma increase_memory_usage_loop_outcome:
  "heap_ok s \<Longrightarrow> increase_memory_usage_loop t s = Inr (grow_outcome mup_plan t s)"
  by (rule grow_loop_total [OF increase_memory_usage_loop_unfold mup_plan_ok])

lemma increase_memory_usage_loop_eq:
  "heap_ok s \<Longrightarrow> grow_loop mup_plan t s = Some (increase_memory_usage_loop t s)"
  by (simp add: grow_loop_eq mup_plan_ok increase_memory_usage_loop_outcome)

lemma mup_steps_needed: "steps_needed mup_plan 104857600 = 103"
  by (simp add: steps_needed_def ceil_div_def)

lemma mup_steps_taken_enough:
  assumes "reserved s + 1080033280 \<le> mem_limit s"
  shows "steps_taken mup_plan 104857600 s = 103"
    "\<not> steps_granted mup_plan s < steps_needed mup_plan 104857600"
  using assms steps_taken_enough [of mup_plan s 104857600] by (simp_all add: mup_steps_needed)

lemma mup_steps_taken_short:
  assumes "j < 103" "reserved s + j * 10485760 \<le> mem_limit s"
    "mem_limit s < reserved s + Suc j * 10485760"
  shows "steps_taken mup_plan 104857600 s = j" "steps_granted mup_plan s < steps_needed mup_plan 104857600"
  using assms steps_taken_short [of j mup_plan 104857600 s] by (simp_all add: mup_steps_needed)

lemma mup_report_line:
  assumes "k \<le> 103"
  shows "report_line mup_plan (104857600 + of_nat k * 10485760) =
    ''Total memory allocated: '' @ dec (100 + 10 * k) @ '' MB\<newline>''"
proof -
  from assms have "unat (104857600 :: size_t) + k * unat (10485760 :: size_t) < 2 ^ 64"
    by simp
  then have "unat (104857600 + of_nat k * 10485760 :: size_t) = 104857600 + k * 10485760"
    using unat_linear [of 104857600 k 10485760] by simp
  also have "\<dots> = (100 + 10 * k) * 1048576"
    by simp
  finally have "unat ((104857600 + of_nat k * 10485760 :: size_t) div 1048576) = 100 + 10 * k"
    by (simp add: unat_div)
  then show ?thesis
    by (simp add: fmt_zu_def)
qed

lemma mup_reports:
  assumes "k \<le> 103"
  shows "map (\<lambda>i. report_line mup_plan (104857600 + of_nat (Suc i) * 10485760)) [0..<k] =
    map (\<lambda>j. ''Total memory allocated: '' @ dec (100 + 10 * j) @ '' MB\<newline>'') [1..<Suc k]"
proof -
  have "[1..<Suc k] = map Suc [0..<k]"
    by (simp add: map_Suc_upt)
  moreover have "report_line mup_plan (104857600 + of_nat (Suc i) * 10485760) =
      ''Total memory allocated: '' @ dec (100 + 10 * Suc i) @ '' MB\<newline>''"
    if "i < k" for i
    using that assms by (intro mup_report_line) simp
  ultimately show ?thesis
    by (simp add: comp_def del: upt_Suc mup_plan_fields)
qed

lemma increase_memory_usage_outcome:
  "heap_ok s \<Longrightarrow> increase_memory_usage s = Inr (snd (grow_outcome mup_plan 104857600 s))"
  by (simp add: increase_memory_usage_def increase_memory_usage_loop_outcome c_arith)

text \<open>
  C1. With memory for all of it, \<open>increase_memory_usage\<close> returns after
  printing exactly 103 progress lines, "Total memory allocated: 110 MB" up to
  "Total memory allocated: 1130 MB" in steps of 10, and nothing on standard
  error.
\<close>

theorem increase_memory_usage_reports:
  assumes "heap_ok s" "reserved s + 1080033280 \<le> mem_limit s"
  shows "\<exists>s'. increase_memory_usage s = Inr s' \<and>
    stdout s' = stdout s @
      map (\<lambda>j. ''Total memory allocated: '' @ dec (100 + 10 * j) @ '' MB\<newline>'') [1..<104] \<and>
    stderr s' = stderr s"
  using assms mup_reports [of 103]
  by (simp add: increase_memory_usage_outcome grow_outcome_fields mup_steps_taken_enough
      del: upt_Suc mup_plan_fields(5))

theorem increase_memory_usage_reports_witness:
  "heap_ok (boot 2147483648 7) \<and>
   reserved (boot 2147483648 7) + 1080033280 \<le> mem_limit (boot 2147483648 7) \<and>
   (\<exists>s'. increase_memory_usage (boot 2147483648 7) = Inr s' \<and>
     stdout s' = stdout (boot 2147483648 7) @
       map (\<lambda>j. ''Total memory allocated: '' @ dec (100 + 10 * j) @ '' MB\<newline>'')
         [1..<104] \<and>
     stderr s' = stderr (boot 2147483648 7))"
  using increase_memory_usage_reports [of "boot 2147483648 7"] by simp

text \<open>
  C2. On a well-formed heap the loop of \<open>increase_memory_usage\<close>, started
  from any counter, returns what the simulator's reference definition
  prescribes for the plan of the macros: the loop refines the specification.
\<close>

theorem increase_memory_usage_loop_refines:
  assumes "heap_ok s"
  shows "grow_loop mup_plan t s = Some (increase_memory_usage_loop t s) \<and>
    increase_memory_usage_loop t s = Inr (grow_outcome mup_plan t s) \<and>
    heap_ok (snd (grow_outcome mup_plan t s))"
  using assms grow_outcome_heap_ok [OF mup_plan_ok assms]
  by (simp add: increase_memory_usage_loop_eq increase_memory_usage_loop_outcome)

theorem increase_memory_usage_loop_refines_witness:
  "heap_ok (boot 20971520 7) \<and>
   grow_loop mup_plan 1168113664 (boot 20971520 7) =
     Some (increase_memory_usage_loop 1168113664 (boot 20971520 7)) \<and>
   increase_memory_usage_loop 1168113664 (boot 20971520 7) =
     Inr (grow_outcome mup_plan 1168113664 (boot 20971520 7)) \<and>
   heap_ok (snd (grow_outcome mup_plan 1168113664 (boot 20971520 7)))"
  using increase_memory_usage_loop_refines [of "boot 20971520 7" 1168113664] by simp

text \<open>
  C20. The counter ends at 1130 MiB: the first value not below the target of
  1124 MiB, 6 MiB past it and less than one step past it.
\<close>

theorem increase_memory_usage_overshoot:
  assumes "heap_ok s" "reserved s + 1080033280 \<le> mem_limit s"
  shows "\<exists>s'. increase_memory_usage_loop
      (int_to_size_t (mup_INITIAL_MEMORY_MB * 1024 * 1024)) s = Inr (1184890880, s') \<and>
    unat (int_to_size_t (TOTAL_MEMORY_MB * 1024 * 1024)) + 6291456 = 1184890880 \<and>
    6291456 < unat (int_to_size_t (MEMORY_STEP_MB * 1024 * 1024))"
proof -
  have "fst (grow_outcome mup_plan 104857600 s) = 1184890880"
    using assms(2) by (simp add: grow_outcome_fst mup_steps_taken_enough)
  then have "\<exists>s'. grow_outcome mup_plan 104857600 s = (1184890880, s')"
    by (cases "grow_outcome mup_plan 104857600 s") simp
  with assms(1) show ?thesis
    by (simp add: increase_memory_usage_loop_outcome c_arith)
qed

theorem increase_memory_usage_overshoot_witness:
  "heap_ok (boot 2147483648 7) \<and>
   reserved (boot 2147483648 7) + 1080033280 \<le> mem_limit (boot 2147483648 7) \<and>
   (\<exists>s'. increase_memory_usage_loop
      (int_to_size_t (mup_INITIAL_MEMORY_MB * 1024 * 1024)) (boot 2147483648 7) =
        Inr (1184890880, s') \<and>
    unat (int_to_size_t (TOTAL_MEMORY_MB * 1024 * 1024)) + 6291456 = 1184890880 \<and>
    6291456 < unat (int_to_size_t (MEMORY_STEP_MB * 1024 * 1024)))"
  using increase_memory_usage_overshoot [of "boot 2147483648 7"] by simp

text \<open>
  C21. \<open>increase_memory_usage\<close> never crashes: from a well-formed heap it
  returns, whatever the memory limit, and leaves the heap well formed.
\<close>

theorem increase_memory_usage_safe:
  assumes "heap_ok s"
  shows "\<exists>s'. increase_memory_usage s = Inr s' \<and> heap_ok s'"
  using assms grow_outcome_heap_ok [OF mup_plan_ok assms]
  by (simp add: increase_memory_usage_outcome)

theorem increase_memory_usage_safe_witness:
  "heap_ok (boot 1000 7) \<and>
   (\<exists>s'. increase_memory_usage (boot 1000 7) = Inr s' \<and> heap_ok s')"
  using increase_memory_usage_safe [of "boot 1000 7"] by simp

text \<open>
  C4. When the allocator refuses the step after \<open>j\<close> granted ones, the
  function stops growing and returns normally: \<open>j\<close> progress lines, one
  line on standard error, \<open>j\<close> blocks of 10 MiB kept.
\<close>

theorem increase_memory_usage_out_of_memory:
  assumes "heap_ok s" "j < 103" "reserved s + j * 10485760 \<le> mem_limit s"
    "mem_limit s < reserved s + Suc j * 10485760"
  shows "\<exists>s'. increase_memory_usage s = Inr s' \<and>
    stdout s' = stdout s @
      map (\<lambda>i. ''Total memory allocated: '' @ dec (100 + 10 * i) @ '' MB\<newline>'') [1..<Suc j] \<and>
    stderr s' = stderr s @ [''Failed to allocate additional memory\<newline>''] \<and>
    reserved s' = reserved s + j * 10485760"
proof -
  from assms(2) have "j \<le> 103"
    by simp
  from mup_reports [OF this] mup_steps_taken_short [OF assms(2-4)] assms(1) show ?thesis
    by (simp add: increase_memory_usage_outcome grow_outcome_fields
        del: upt_Suc mup_plan_fields(5))
qed

theorem increase_memory_usage_out_of_memory_witness:
  "heap_ok (boot 25000000 7) \<and> (2::nat) < 103 \<and>
   reserved (boot 25000000 7) + 2 * 10485760 \<le> mem_limit (boot 25000000 7) \<and>
   mem_limit (boot 25000000 7) < reserved (boot 25000000 7) + Suc 2 * 10485760 \<and>
   (\<exists>s'. increase_memory_usage (boot 25000000 7) = Inr s' \<and>
    stdout s' = stdout (boot 25000000 7) @
      map (\<lambda>i. ''Total memory allocated: '' @ dec (100 + 10 * i) @ '' MB\<newline>'') [1..<Suc 2] \<and>
    stderr s' = stderr (boot 25000000 7) @ [''Failed to allocate additional memory\<newline>''] \<and>
    reserved s' = reserved (boot 25000000 7) + 2 * 10485760)"
  using increase_memory_usage_out_of_memory [of "boot 25000000 7" 2] by simp

text \<open>
  C22. The footprint after a complete run: 103 blocks of 10 MiB reserved and
  written in full, 103 seconds slept, older blocks untouched.
\<close>

theorem increase_memory_usage_footprint:
  assumes "heap_ok s" "reserved s + 1080033280 \<le> mem_limit s"
  shows "\<exists>s'. increase_memory_usage s = Inr s' \<and>
    reserved s' = reserved s + 1080033280 \<and> committed s' = committed s + 1080033280 \<and>
    clock s' = clock s + 103 \<and>
    heap s' = map (\<lambda>i. (brk s + i * 10485761, replicate 10485760 (Some 0))) (rev [0..<103])
      @ heap s"
  using assms
  by (simp add: increase_memory_usage_outcome grow_outcome_fields grow_outcome_heap
      mup_steps_taken_enough del: upt_Suc)

theorem increase_memory_usage_footprint_witness:
  "heap_ok (boot 2147483648 7) \<and>
   reserved (boot 2147483648 7) + 1080033280 \<le> mem_limit (boot 2147483648 7) \<and>
   (\<exists>s'. increase_memory_usage (boot 2147483648 7) = Inr s' \<and>
    reserved s' = reserved (boot 2147483648 7) + 1080033280 \<and>
    committed s' = committed (boot 2147483648 7) + 1080033280 \<and>
    clock s' = clock (boot 2147483648 7) + 103 \<and>
    heap s' = map (\<lambda>i. (brk (boot 2147483648 7) + i * 10485761, replicate 10485760 (Some 0)))
        (rev [0..<103]) @ heap (boot 2147483648 7))"
  using increase_memory_usage_footprint [of "boot 2147483648 7"] by simp

section \<open>main\<close>

lemma mup_startup_refused:
  assumes "mem_limit s < reserved s + 104857600"
  shows "mup_startup s =
    Inr (Inl 1, fprintf_stderr ''Failed to allocate initial memory\<newline>'' s)"
  using assms by (simp add: mup_startup_def malloc_refused c_arith)

lemma mup_startup_granted:
  assumes "heap_ok s" "reserved s + 104857600 \<le> mem_limit s"
  shows "mup_startup s = Inr (Inr (brk s), mup_ready s)"
proof -
  have fits: "reserved s + unat (104857600 :: size_t) \<le> mem_limit s"
    using assms(2) by simp
  from malloc_memset [OF assms(1) fits, of 0] malloc_granted [OF fits] heap_ok_brk [OF assms(1)]
  show ?thesis
    by (simp add: mup_startup_def mup_ready_def c_arith getpid_def Let_def)
qed

lemma mup_ready_fields [simp]:
  "heap (mup_ready s) = (brk s, replicate 104857600 (Some 0)) # heap s"
  "brk (mup_ready s) = brk s + 104857601"
  "mem_limit (mup_ready s) = mem_limit s"
  "stdout (mup_ready s) = stdout s @
     [''Initial 100 MB of memory allocated. PID: '' @ fmt_d (pid s) @ ''\<newline>'',
      ''Waiting for 60 seconds before increasing memory usage...\<newline>'']"
  "stderr (mup_ready s) = stderr s"
  "clock (mup_ready s) = clock s + 60"
  "pid (mup_ready s) = pid s"
  by (simp_all add: mup_ready_def)

lemma mup_ready_measures [simp]:
  "reserved (mup_ready s) = reserved s + 104857600"
  "committed (mup_ready s) = committed s + 104857600"
  by (simp_all add: mup_ready_def measures_push)

lemma mup_ready_heap_ok:
  assumes "heap_ok s" "reserved s + 104857600 \<le> mem_limit s"
  shows "heap_ok (mup_ready s)"
  using assms by (simp add: mup_ready_def heap_ok_push)

lemma mup_idle_loop_diverges: "mup_idle_loop s = None"
proof (cases "mup_idle_loop s")
  case None
  then show ?thesis .
next
  case (Some t)
  have False
  proof (rule mup_idle_loop.raw_induct [where P = "\<lambda>s t. False", OF _ Some])
    fix f and s t :: proc
    assume "\<And>s t. f s = Some t \<Longrightarrow> False"
      and "(if (1 :: c_int) \<noteq> 0 then f (mup_idle_body s) else Some s) = Some t"
    then show False
      by simp
  qed
  then show ?thesis ..
qed

lemma mup_idle_rounds [simp]:
  "clock ((mup_idle_body ^^ n) s) = clock s + 10 * n"
  "heap ((mup_idle_body ^^ n) s) = heap s"
  "brk ((mup_idle_body ^^ n) s) = brk s"
  "mem_limit ((mup_idle_body ^^ n) s) = mem_limit s"
  "stdout ((mup_idle_body ^^ n) s) = stdout s"
  "stderr ((mup_idle_body ^^ n) s) = stderr s"
  "pid ((mup_idle_body ^^ n) s) = pid s"
  by (induction n) (simp_all add: mup_idle_body_def c_arith)

text \<open>
  C5. If the first allocation is refused, \<open>main\<close> returns 1 after writing
  one line to standard error; nothing is printed on standard output and
  nothing else changes.
\<close>

theorem mup_main_initial_failure:
  assumes "mem_limit s < reserved s + 104857600"
  shows "mup_main s =
    Some (Inr (1, s\<lparr>stderr := stderr s @ [''Failed to allocate initial memory\<newline>'']\<rparr>))"
  using assms by (simp add: mup_main_def mup_startup_refused fprintf_stderr_def)

theorem mup_main_initial_failure_witness:
  "mem_limit (boot 1000 7) < reserved (boot 1000 7) + 104857600 \<and>
   mup_main (boot 1000 7) =
     Some (Inr (1, (boot 1000 7)\<lparr>stderr := stderr (boot 1000 7) @
       [''Failed to allocate initial memory\<newline>'']\<rparr>))"
  using mup_main_initial_failure [of "boot 1000 7"] by simp

text \<open>
  C6. If the first allocation is granted, \<open>main\<close> never returns: the
  statements after the idle loop (\<open>free(initial_buffer); return 0;\<close>) are
  unreachable, so the process never exits with status 0 of its own accord.
\<close>

theorem mup_main_never_returns:
  assumes "heap_ok s" "reserved s + 104857600 \<le> mem_limit s"
  shows "mup_main s = None"
  using assms by (simp add: mup_main_def mup_startup_granted mup_idle_loop_diverges)

theorem mup_main_never_returns_witness:
  "heap_ok (boot 2147483648 7) \<and>
   reserved (boot 2147483648 7) + 104857600 \<le> mem_limit (boot 2147483648 7) \<and>
   mup_main (boot 2147483648 7) = None"
  using mup_main_never_returns [of "boot 2147483648 7"] by simp

text \<open>
  C7. The steady state of the program as shipped: after start-up and any
  number \<open>n\<close> of rounds of the idle loop, standard output holds exactly the
  two start-up lines, 100 MiB are reserved and committed on top of what was
  there, and \<open>60 + 10 * n\<close> seconds have passed. Memory never grows, since
  the call of \<open>increase_memory_usage\<close> is commented out.
\<close>

theorem mup_idle_state_steady:
  assumes "heap_ok s" "reserved s + 104857600 \<le> mem_limit s"
  shows "\<exists>s'. mup_idle_state n s = Inr s' \<and>
    stdout s' = stdout s @
      [''Initial 100 MB of memory allocated. PID: '' @ fmt_d (pid s) @ ''\<newline>'',
       ''Waiting for 60 seconds before increasing memory usage...\<newline>''] \<and>
    stderr s' = stderr s \<and>
    reserved s' = reserved s + 104857600 \<and> committed s' = committed s + 104857600 \<and>
    clock s' = clock s + 60 + 10 * n"
  using assms
  by (simp add: mup_idle_state_def mup_startup_granted mup_ready_def reserved_def
      committed_def)

theorem mup_idle_state_steady_witness:
  "heap_ok (boot 2147483648 7) \<and>
   reserved (boot 2147483648 7) + 104857600 \<le> mem_limit (boot 2147483648 7) \<and>
   (\<exists>s'. mup_idle_state 6 (boot 2147483648 7) = Inr s' \<and>
    stdout s' = stdout (boot 2147483648 7) @
      [''Initial 100 MB of memory allocated. PID: '' @ fmt_d (pid (boot 2147483648 7)) @
         ''\<newline>'',
       ''Waiting for 60 seconds before increasing memory usage...\<newline>''] \<and>
    stderr s' = stderr (boot 2147483648 7) \<and>
    reserved s' = reserved (boot 2147483648 7) + 104857600 \<and>
    committed s' = committed (boot 2147483648 7) + 104857600 \<and>
    clock s' = clock (boot 2147483648 7) + 60 + 10 * 6)"
  using mup_idle_state_steady [of "boot 2147483648 7" 6] by simp

text \<open>
  The macro products are computed in \<open>int\<close> without overflow, and their
  conversion to \<open>size_t\<close> keeps the value: 100, 1124 and 10 MiB.
\<close>

lemma mup_macro_arithmetic:
  "int_mul_ok mup_INITIAL_MEMORY_MB 1024 \<and> int_mul_ok (mup_INITIAL_MEMORY_MB * 1024) 1024 \<and>
   int_mul_ok TOTAL_MEMORY_MB 1024 \<and> int_mul_ok (TOTAL_MEMORY_MB * 1024) 1024 \<and>
   int_mul_ok MEMORY_STEP_MB 1024 \<and> int_mul_ok (MEMORY_STEP_MB * 1024) 1024 \<and>
   unat (int_to_size_t (mup_INITIAL_MEMORY_MB * 1024 * 1024)) = 100 * 2 ^ 20 \<and>
   unat (int_to_size_t (TOTAL_MEMORY_MB * 1024 * 1024)) = 1124 * 2 ^ 20 \<and>
   unat (int_to_size_t (MEMORY_STEP_MB * 1024 * 1024)) = 10 * 2 ^ 20"
  by (simp add: int_mul_ok_def c_arith)

text \<open>
  C3. From any counter not above the target, and with memory for the steps
  still needed, the loop of \<open>increase_memory_usage\<close> ends after exactly
  \<open>ceil ((target - counter) / step)\<close> iterations (one progress line
  each), with the counter at or above the target and less than one step
  above it.
\<close>

theorem increase_memory_usage_loop_steps:
  assumes "heap_ok s" "unat c \<le> 1178599424"
    "reserved s + ceil_div (1178599424 - unat c) 10485760 * 10485760 \<le> mem_limit s"
  shows "\<exists>c' s'. increase_memory_usage_loop c s = Inr (c', s') \<and>
    unat (int_to_size_t (TOTAL_MEMORY_MB * 1024 * 1024)) \<le> unat c' \<and>
    unat c' < unat (int_to_size_t (TOTAL_MEMORY_MB * 1024 * 1024)) +
      unat (int_to_size_t (MEMORY_STEP_MB * 1024 * 1024)) \<and>
    length (stdout s') = length (stdout s) + ceil_div (1178599424 - unat c) 10485760 \<and>
    stderr s' = stderr s"
proof -
  have c: "unat c \<le> unat (target_size_bytes mup_plan)"
    using assms(2) by simp
  have fits: "reserved s + steps_needed mup_plan c * unat (step_size_bytes mup_plan) \<le> mem_limit s"
    using assms(3) by (simp add: steps_needed_def)
  from grow_outcome_complete [OF mup_plan_ok c fits] assms(1) show ?thesis
    by (cases "grow_outcome mup_plan c s")
      (simp add: increase_memory_usage_loop_outcome steps_needed_def c_arith)
qed

theorem increase_memory_usage_loop_steps_witness:
  "heap_ok (boot 2147483648 7) \<and> unat (1000000000 :: size_t) \<le> 1178599424 \<and>
   reserved (boot 2147483648 7) +
     ceil_div (1178599424 - unat (1000000000 :: size_t)) 10485760 * 10485760
     \<le> mem_limit (boot 2147483648 7) \<and>
   (\<exists>c' s'. increase_memory_usage_loop 1000000000 (boot 2147483648 7) = Inr (c', s') \<and>
    unat (int_to_size_t (TOTAL_MEMORY_MB * 1024 * 1024)) \<le> unat c' \<and>
    unat c' < unat (int_to_size_t (TOTAL_MEMORY_MB * 1024 * 1024)) +
      unat (int_to_size_t (MEMORY_STEP_MB * 1024 * 1024)) \<and>
    length (stdout s') = length (stdout (boot 2147483648 7)) +
      ceil_div (1178599424 - unat (1000000000 :: size_t)) 10485760 \<and>
    stderr s' = stderr (boot 2147483648 7))"
  using increase_memory_usage_loop_steps [of "boot 2147483648 7" 1000000000]
  by (simp add: ceil_div_def)

text \<open>
  C23. A run of \<open>increase_memory_usage\<close> is repeatable: from two well-formed
  states with the same amount of free memory (whatever their process id,
  their clock and their earlier output) it prints the same progress lines,
  the same lines on standard error, and takes the same time.
\<close>

theorem increase_memory_usage_repeatable:
  assumes "heap_ok s" "heap_ok t" "mem_limit s - reserved s = mem_limit t - reserved t"
  shows "\<exists>s' t'. increase_memory_usage s = Inr s' \<and> increase_memory_usage t = Inr t' \<and>
    drop (length (stdout s)) (stdout s') = drop (length (stdout t)) (stdout t') \<and>
    drop (length (stderr s)) (stderr s') = drop (length (stderr t)) (stderr t') \<and>
    clock s' - clock s = clock t' - clock t"
  using assms steps_taken_cong [OF assms(3), of mup_plan 104857600]
  by (simp add: increase_memory_usage_outcome grow_outcome_output grow_outcome_fields(3)
      del: upt_Suc mup_plan_fields(5))

theorem increase_memory_usage_repeatable_witness:
  "heap_ok (boot 52428800 7) \<and> heap_ok (sleep 5 (printf ''x'' (boot 52428800 9))) \<and>
   mem_limit (boot 52428800 7) - reserved (boot 52428800 7) =
     mem_limit (sleep 5 (printf ''x'' (boot 52428800 9))) -
     reserved (sleep 5 (printf ''x'' (boot 52428800 9))) \<and>
   (\<exists>s' t'. increase_memory_usage (boot 52428800 7) = Inr s' \<and>
     increase_memory_usage (sleep 5 (printf ''x'' (boot 52428800 9))) = Inr t' \<and>
     drop (length (stdout (boot 52428800 7))) (stdout s') =
       drop (length (stdout (sleep 5 (printf ''x'' (boot 52428800 9))))) (stdout t') \<and>
     drop (length (stderr (boot 52428800 7))) (stderr s') =
       drop (length (stderr (sleep 5 (printf ''x'' (boot 52428800 9))))) (stderr t') \<and>
     clock s' - clock (boot 52428800 7) =
       clock t' - clock (sleep 5 (printf ''x'' (boot 52428800 9))))"
  using increase_memory_usage_repeatable
    [of "boot 52428800 7" "sleep 5 (printf ''x'' (boot 52428800 9))"]
  by simp

lemma mup_report_read_back: "read_number (report_line mup_plan c) = unat c div 1048576"
  using read_number_dec [of "''Total memory allocated: ''" "'' MB\<newline>''" "unat (c div 1048576)"]
  by (simp add: fmt_zu_def is_digit_def unat_div)

lemma mup_lines_read_back:
  "map read_number
     (map (\<lambda>j. ''Total memory allocated: '' @ dec (100 + 10 * j) @ '' MB\<newline>'') js) =
   map (\<lambda>j. 100 + 10 * j) js"
  using read_number_dec [of "''Total memory allocated: ''" "'' MB\<newline>''"]
  by (simp add: is_digit_def)

text \<open>
  C19. The progress lines can be read back, under any memory limit: the
  numbers in the lines \<open>increase_memory_usage\<close> prints are 110, 120, ... in
  steps of 10, one for each step taken, and at most 103 of them.
\<close>

theorem increase_memory_usage_lines_read_back:
  assumes "heap_ok s"
  shows "\<exists>s'. increase_memory_usage s = Inr s' \<and>
    map read_number (drop (length (stdout s)) (stdout s')) =
      map (\<lambda>j. 100 + 10 * j) [1..<Suc (steps_taken mup_plan 104857600 s)] \<and>
    steps_taken mup_plan 104857600 s \<le> 103"
proof (intro exI conjI)
  let ?s' = "snd (grow_outcome mup_plan 104857600 s)"
  show le: "steps_taken mup_plan 104857600 s \<le> 103"
    using mup_steps_needed by (simp add: steps_taken_def)
  from assms show "increase_memory_usage s = Inr ?s'"
    by (rule increase_memory_usage_outcome)
  have "drop (length (stdout s)) (stdout ?s') =
      map (\<lambda>j. ''Total memory allocated: '' @ dec (100 + 10 * j) @ '' MB\<newline>'')
        [1..<Suc (steps_taken mup_plan 104857600 s)]"
    using mup_reports [OF le] by (simp add: grow_outcome_output del: upt_Suc mup_plan_fields(5))
  then show "map read_number (drop (length (stdout s)) (stdout ?s')) =
      map (\<lambda>j. 100 + 10 * j) [1..<Suc (steps_taken mup_plan 104857600 s)]"
    by (simp only: mup_lines_read_back)
qed

theorem increase_memory_usage_lines_read_back_witness:
  "heap_ok (boot 31457280 7) \<and>
   (\<exists>s'. increase_memory_usage (boot 31457280 7) = Inr s' \<and>
    map read_number (drop (length (stdout (boot 31457280 7))) (stdout s')) =
      map (\<lambda>j. 100 + 10 * j) [1..<Suc (steps_taken mup_plan 104857600 (boot 31457280 7))] \<and>
    steps_taken mup_plan 104857600 (boot 31457280 7) \<le> 103)"
  using increase_memory_usage_lines_read_back [of "boot 31457280 7"] by simp

end
