(* ===== verification/App.thy ===== *)
theory App
  imports Simulator
begin

text \<open>
  The program \<open>src/app.c\<close>: its five macros, the leak function
  \<open>start_memory_leak\<close> (loop body, loop, function) and \<open>main\<close> (start-up,
  idle loop, composition). The leak counts the leaked bytes from zero, where
  the growth of \<open>memory_usage_program.c\<close> counts from the initial size; the
  loop is the simulator's under \<open>app_plan\<close>.
\<close>

section \<open>Macros\<close>

definition app_INITIAL_MEMORY_MB :: c_int where
  "app_INITIAL_MEMORY_MB = 100"

definition LEAK_MEMORY_MB :: c_int where
  "LEAK_MEMORY_MB = 1024"

definition LEAK_CHUNK_MB :: c_int where
  "LEAK_CHUNK_MB = 10"

definition app_SLEEP_INTERVAL_SEC :: c_int where
  "app_SLEEP_INTERVAL_SEC = 1"

definition DELAY_BEFORE_LEAK_SEC :: c_int where
  "DELAY_BEFORE_LEAK_SEC = 60"

section \<open>start_memory_leak\<close>

definition start_memory_leak_body ::
  "size_t \<Rightarrow> proc \<Rightarrow> fault + (size_t \<times> proc) loop_ctl" where
  "start_memory_leak_body total_leaked s =
     (case malloc (int_to_size_t (LEAK_CHUNK_MB * 1024 * 1024)) s of
        (leak, s1) \<Rightarrow>
          if leak = NULL
          then Inr (Break (total_leaked,
                 fprintf_stderr ''Failed to allocate leak memory\<newline>'' s1))
          else bind_res
            (memset leak 0 (int_to_size_t (LEAK_CHUNK_MB * 1024 * 1024)) s1)
            (\<lambda>s2.
              let total_leaked' = total_leaked + int_to_size_t (LEAK_CHUNK_MB * 1024 * 1024);
                  s3 = printf (''Leaked '' @
                         fmt_zu (total_leaked' div int_to_size_t (1024 * 1024)) @
                         '' MB of memory\<newline>'') s2;
                  s4 = sleep (int_to_unsigned app_SLEEP_INTERVAL_SEC) s3
              in Inr (Continue (total_leaked', s4))))"

lemmas app_macros [c_arith] =
  app_INITIAL_MEMORY_MB_def LEAK_MEMORY_MB_def LEAK_CHUNK_MB_def
  app_SLEEP_INTERVAL_SEC_def DELAY_BEFORE_LEAK_SEC_def

text \<open>The growth plan the macros describe, and the body as a step of the simulator.\<close>

definition app_plan :: growth_plan where
  "app_plan =
     \<lparr>target_size_bytes = int_to_size_t (LEAK_MEMORY_MB * 1024 * 1024),
      step_size_bytes = int_to_size_t (LEAK_CHUNK_MB * 1024 * 1024),
      step_interval = int_to_unsigned app_SLEEP_INTERVAL_SEC,
      report_line = (\<lambda>t. ''Leaked '' @
         fmt_zu (t div int_to_size_t (1024 * 1024)) @ '' MB of memory\<newline>''),
      failure_line = ''Failed to allocate leak memory\<newline>''\<rparr>"

lemma app_plan_fields [simp]:
  "target_size_bytes app_plan = 1073741824"
  "step_size_bytes app_plan = 10485760"
  "step_interval app_plan = 1"
  "failure_line app_plan = ''Failed to allocate leak memory\<newline>''"
  "report_line app_plan t = ''Leaked '' @ fmt_zu (t div 1048576) @ '' MB of memory\<newline>''"
  by (simp_all add: app_plan_def c_arith)

lemma app_plan_ok: "plan_ok app_plan"
  by (simp add: plan_ok_def)

lemma start_memory_leak_body_eq:
  "start_memory_leak_body t s = grow_body app_plan t s"
  by (simp add: start_memory_leak_body_def grow_body_def c_arith split: prod.split)

function start_memory_leak_loop :: "size_t \<Rightarrow> proc \<Rightarrow> fault + size_t \<times> proc" where
  "start_memory_leak_loop total_leaked s =
     (if total_leaked < int_to_size_t (LEAK_MEMORY_MB * 1024 * 1024) then
        (case start_memory_leak_body total_leaked s of
           Inl f \<Rightarrow> Inl f
         | Inr (Break r) \<Rightarrow> Inr r
         | Inr (Continue (total_leaked', s')) \<Rightarrow> start_memory_leak_loop total_leaked' s')
      else Inr (total_leaked, s))"
  by pat_completeness auto
termination
proof (relation "measure (\<lambda>(t, s). unat (target_size_bytes app_plan) - unat t)")
  fix t :: size_t and s s' :: proc and r c t'
  assume "t < int_to_size_t (LEAK_MEMORY_MB * 1024 * 1024)"
    and "start_memory_leak_body t s = Inr r" "r = Continue c" "(t', s') = c"
  then have "t < target_size_bytes app_plan" "grow_body app_plan t s = Inr (Continue (t', s'))"
    by (simp_all add: start_memory_leak_body_eq c_arith)
  from grow_body_decreases [OF app_plan_ok this]
  show "((t', s'), (t, s)) \<in> measure (\<lambda>(t, s). unat (target_size_bytes app_plan) - unat t)"
    by simp
qed simp

definition start_memory_leak :: "proc \<Rightarrow> fault + proc" where
  "start_memory_leak s =
     (let total_leaked = 0
      in bind_res (start_memory_leak_loop total_leaked s) (\<lambda>r. Inr (snd r)))"

section \<open>main\<close>

definition app_startup :: "proc \<Rightarrow> fault + (c_int + addr) \<times> proc" where
  "app_startup s =
     (case malloc (int_to_size_t (app_INITIAL_MEMORY_MB * 1024 * 1024)) s of
        (initial_memory, s1) \<Rightarrow>
          if initial_memory = NULL
          then Inr (Inl 1, fprintf_stderr ''Failed to allocate initial memory\<newline>'' s1)
          else bind_res
            (memset initial_memory 0 (int_to_size_t (app_INITIAL_MEMORY_MB * 1024 * 1024)) s1)
            (\<lambda>s2.
              let s3 = printf (''Initial 100 MB of memory allocated. PID: '' @
                         fmt_d (getpid s2) @ ''\<newline>'') s2;
                  s4 = printf (''Waiting for '' @ fmt_d DELAY_BEFORE_LEAK_SEC @
                         '' seconds before starting the memory leak...\<newline>'') s3;
                  s5 = sleep (int_to_unsigned DELAY_BEFORE_LEAK_SEC) s4
              in Inr (Inr initial_memory, s5)))"

definition app_idle_body :: "proc \<Rightarrow> proc" where
  "app_idle_body s = sleep (int_to_unsigned 10) s"

partial_function (option) app_idle_loop :: "proc \<Rightarrow> proc option" where
  "app_idle_loop s = (if (1 :: c_int) \<noteq> 0 then app_idle_loop (app_idle_body s) else Some s)"

definition app_main :: "proc \<Rightarrow> (fault + c_int \<times> proc) option" where
  "app_main s =
     (case app_startup s of
        Inl f \<Rightarrow> Some (Inl f)
      | Inr (Inl status, s') \<Rightarrow> Some (Inr (status, s'))
      | Inr (Inr initial_memory, s') \<Rightarrow>
          (case app_idle_loop s' of
             None \<Rightarrow> None
           | Some s'' \<Rightarrow> Some (bind_res (free initial_memory s'') (\<lambda>s3. Inr (0, s3)))))"

text \<open>
  The state right after a granted start-up, and \<open>main\<close> with its idle loop
  cut after \<open>n\<close> rounds: the state after start-up and \<open>n\<close> rounds, or
  the state at the \<open>return 1\<close> when the first allocation is refused.
\<close>

definition app_ready :: "proc \<Rightarrow> proc" where
  "app_ready s =
     sleep 60
       (printf ''Waiting for 60 seconds before starting the memory leak...\<newline>''
         (printf (''Initial 100 MB of memory allocated. PID: '' @ fmt_d (pid s) @ ''\<newline>'')
           (s\<lparr>heap := (brk s, replicate 104857600 (Some 0)) # heap s,
              brk := brk s + 104857601\<rparr>)))"

definition app_idle_state :: "nat \<Rightarrow> proc \<Rightarrow> fault + proc" where
  "app_idle_state n s =
     (case app_startup s of
        Inl f \<Rightarrow> Inl f
      | Inr (Inl status, s') \<Rightarrow> Inr s'
      | Inr (Inr initial_memory, s') \<Rightarrow> Inr ((app_idle_body ^^ n) s'))"

section \<open>The loop is the simulator's loop under the plan of the macros\<close>

declare start_memory_leak_loop.simps [simp del]

lemma start_memory_leak_loop_unfold:
  "start_memory_leak_loop c s =
     (if c < target_size_bytes app_plan then
        (case grow_body app_plan c s of
           Inl f \<Rightarrow> Inl f
         | Inr (Break r) \<Rightarrow> Inr r
         | Inr (Continue (c', s')) \<Rightarrow> start_memory_leak_loop c' s')
      else Inr (c, s))"
  by (subst start_memory_leak_loop.simps)
    (simp add: start_memory_leak_body_eq c_arith)

lemma start_memory_leak_loop_outcome:
  "heap_ok s \<Longrightarrow> start_memory_leak_loop t s = Inr (grow_outcome app_plan t s)"
  by (rule grow_loop_total [OF start_memory_leak_loop_unfold app_plan_ok])

lemma start_memory_leak_loop_eq:
  "heap_ok s \<Longrightarrow> grow_loop app_plan t s = Some (start_memory_leak_loop t s)"
  by (simp add: grow_loop_eq app_plan_ok start_memory_leak_loop_outcome)

lemma start_memory_leak_outcome:
  "heap_ok s \<Longrightarrow> start_memory_leak s = Inr (snd (grow_outcome app_plan 0 s))"
  by (simp add: start_memory_leak_def start_memory_leak_loop_outcome)

lemma app_steps_needed: "steps_needed app_plan 0 = 103"
  by (simp add: steps_needed_def ceil_div_def)

lemma app_steps_taken_enough:
  assumes "reserved s + 1080033280 \<le> mem_limit s"
  shows "steps_taken app_plan 0 s = 103"
    "\<not> steps_granted app_plan s < steps_needed app_plan 0"
  using assms steps_taken_enough [of app_plan s 0] by (simp_all add: app_steps_needed)

lemma app_steps_taken_short:
  assumes "j < 103" "reserved s + j * 10485760 \<le> mem_limit s"
    "mem_limit s < reserved s + Suc j * 10485760"
  shows "steps_taken app_plan 0 s = j" "steps_granted app_plan s < steps_needed app_plan 0"
  using assms steps_taken_short [of j app_plan 0 s] by (simp_all add: app_steps_needed)

lemma app_report_line:
  assumes "k \<le> 103"
  shows "report_line app_plan (0 + of_nat k * 10485760) =
    ''Leaked '' @ dec (10 * k) @ '' MB of memory\<newline>''"
proof -
  from assms have "unat (0 :: size_t) + k * unat (10485760 :: size_t) < 2 ^ 64"
    by simp
  then have "unat (0 + of_nat k * 10485760 :: size_t) = k * 10485760"
    using unat_linear [of 0 k 10485760] by simp
  also have "\<dots> = (10 * k) * 1048576"
    by simp
  finally have "unat ((0 + of_nat k * 10485760 :: size_t) div 1048576) = 10 * k"
    by (simp add: unat_div)
  then show ?thesis
    by (simp add: fmt_zu_def)
qed

lemma app_reports:
  assumes "k \<le> 103"
  shows "map (\<lambda>i. report_line app_plan (0 + of_nat (Suc i) * 10485760)) [0..<k] =
    map (\<lambda>j. ''Leaked '' @ dec (10 * j) @ '' MB of memory\<newline>'') [1..<Suc k]"
proof -
  have "[1..<Suc k] = map Suc [0..<k]"
    by (simp add: map_Suc_upt)
  moreover have "report_line app_plan (0 + of_nat (Suc i) * 10485760) =
      ''Leaked '' @ dec (10 * Suc i) @ '' MB of memory\<newline>''"
    if "i < k" for i
    using that assms by (intro app_report_line) simp
  ultimately show ?thesis
    by (simp add: comp_def del: upt_Suc app_plan_fields)
qed

text \<open>
  C8. With memory for all of it, \<open>start_memory_leak\<close> returns after
  printing exactly 103 lines, "Leaked 10 MB of memory" up to "Leaked 1030 MB
  of memory", nothing on standard error; 103 blocks of 10 MiB stay reserved
  and written, and 103 seconds have passed.
\<close>

theorem start_memory_leak_reports:
  assumes "heap_ok s" "reserved s + 1080033280 \<le> mem_limit s"
  shows "\<exists>s'. start_memory_leak s = Inr s' \<and>
    stdout s' = stdout s @
      map (\<lambda>j. ''Leaked '' @ dec (10 * j) @ '' MB of memory\<newline>'') [1..<104] \<and>
    stderr s' = stderr s \<and>
    reserved s' = reserved s + 1080033280 \<and> committed s' = committed s + 1080033280 \<and>
    clock s' = clock s + 103"
  using assms app_reports [of 103]
  by (simp add: start_memory_leak_outcome grow_outcome_fields app_steps_taken_enough
      del: upt_Suc app_plan_fields(5))

theorem start_memory_leak_reports_witness:
  "heap_ok (boot 2147483648 7) \<and>
   reserved (boot 2147483648 7) + 1080033280 \<le> mem_limit (boot 2147483648 7) \<and>
   (\<exists>s'. start_memory_leak (boot 2147483648 7) = Inr s' \<and>
    stdout s' = stdout (boot 2147483648 7) @
      map (\<lambda>j. ''Leaked '' @ dec (10 * j) @ '' MB of memory\<newline>'') [1..<104] \<and>
    stderr s' = stderr (boot 2147483648 7) \<and>
    reserved s' = reserved (boot 2147483648 7) + 1080033280 \<and>
    committed s' = committed (boot 2147483648 7) + 1080033280 \<and>
    clock s' = clock (boot 2147483648 7) + 103)"
  using start_memory_leak_reports [of "boot 2147483648 7"] by simp

text \<open>
  C28. On a well-formed heap the loop of \<open>start_memory_leak\<close>, from any
  counter, is the simulator's loop under the plan of the macros and returns
  what the reference definition prescribes; the heap stays well formed.
\<close>

theorem start_memory_leak_loop_refines:
  assumes "heap_ok s"
  shows "grow_loop app_plan t s = Some (start_memory_leak_loop t s) \<and>
    start_memory_leak_loop t s = Inr (grow_outcome app_plan t s) \<and>
    heap_ok (snd (grow_outcome app_plan t s))"
  using assms grow_outcome_heap_ok [OF app_plan_ok assms]
  by (simp add: start_memory_leak_loop_eq start_memory_leak_loop_outcome)

theorem start_memory_leak_loop_refines_witness:
  "heap_ok (boot 20971520 7) \<and>
   grow_loop app_plan 1063256064 (boot 20971520 7) =
     Some (start_memory_leak_loop 1063256064 (boot 20971520 7)) \<and>
   start_memory_leak_loop 1063256064 (boot 20971520 7) =
     Inr (grow_outcome app_plan 1063256064 (boot 20971520 7)) \<and>
   heap_ok (snd (grow_outcome app_plan 1063256064 (boot 20971520 7)))"
  using start_memory_leak_loop_refines [of "boot 20971520 7" 1063256064] by simp

text \<open>
  C29. When the allocator refuses the chunk after \<open>j\<close> granted ones, the
  leak stops and the function returns normally: \<open>j\<close> lines on standard
  output, "Failed to allocate leak memory" on standard error, \<open>j\<close> chunks
  kept.
\<close>

theorem start_memory_leak_out_of_memory:
  assumes "heap_ok s" "j < 103" "reserved s + j * 10485760 \<le> mem_limit s"
    "mem_limit s < reserved s + Suc j * 10485760"
  shows "\<exists>s'. start_memory_leak s = Inr s' \<and>
    stdout s' = stdout s @
      map (\<lambda>i. ''Leaked '' @ dec (10 * i) @ '' MB of memory\<newline>'') [1..<Suc j] \<and>
    stderr s' = stderr s @ [''Failed to allocate leak memory\<newline>''] \<and>
    reserved s' = reserved s + j * 10485760"
proof -
  from assms(2) have "j \<le> 103"
    by simp
  from app_reports [OF this] app_steps_taken_short [OF assms(2-4)] assms(1) show ?thesis
    by (simp add: start_memory_leak_outcome grow_outcome_fields
        del: upt_Suc app_plan_fields(5))
qed

theorem start_memory_leak_out_of_memory_witness:
  "heap_ok (boot 25000000 7) \<and> (2::nat) < 103 \<and>
   reserved (boot 25000000 7) + 2 * 10485760 \<le> mem_limit (boot 25000000 7) \<and>
   mem_limit (boot 25000000 7) < reserved (boot 25000000 7) + Suc 2 * 10485760 \<and>
   (\<exists>s'. start_memory_leak (boot 25000000 7) = Inr s' \<and>
    stdout s' = stdout (boot 25000000 7) @
      map (\<lambda>i. ''Leaked '' @ dec (10 * i) @ '' MB of memory\<newline>'') [1..<Suc 2] \<and>
    stderr s' = stderr (boot 25000000 7) @ [''Failed to allocate leak memory\<newline>''] \<and>
    reserved s' = reserved (boot 25000000 7) + 2 * 10485760)"
  using start_memory_leak_out_of_memory [of "boot 25000000 7" 2] by simp

section \<open>main\<close>

lemma app_report_read_back: "read_number (report_line app_plan c) = unat c div 1048576"
  using read_number_dec [of "''Leaked ''" "'' MB of memory\<newline>''" "unat (c div 1048576)"]
  by (simp add: fmt_zu_def is_digit_def unat_div)

lemma app_startup_refused:
  assumes "mem_limit s < reserved s + 104857600"
  shows "app_startup s =
    Inr (Inl 1, fprintf_stderr ''Failed to allocate initial memory\<newline>'' s)"
  using assms by (simp add: app_startup_def malloc_refused c_arith)

lemma app_startup_granted:
  assumes "heap_ok s" "reserved s + 104857600 \<le> mem_limit s"
  shows "app_startup s = Inr (Inr (brk s), app_ready s)"
proof -
  have fits: "reserved s + unat (104857600 :: size_t) \<le> mem_limit s"
    using assms(2) by simp
  from malloc_memset [OF assms(1) fits, of 0] malloc_granted [OF fits] heap_ok_brk [OF assms(1)]
  show ?thesis
    by (simp add: app_startup_def app_ready_def c_arith getpid_def Let_def)
qed

lemma app_ready_fields [simp]:
  "heap (app_ready s) = (brk s, replicate 104857600 (Some 0)) # heap s"
  "brk (app_ready s) = brk s + 104857601"
  "mem_limit (app_ready s) = mem_limit s"
  "stdout (app_ready s) = stdout s @
     [''Initial 100 MB of memory allocated. PID: '' @ fmt_d (pid s) @ ''\<newline>'',
      ''Waiting for 60 seconds before starting the memory leak...\<newline>'']"
  "stderr (app_ready s) = stderr s"
  "clock (app_ready s) = clock s + 60"
  "pid (app_ready s) = pid s"
  by (simp_all add: app_ready_def)

lemma app_ready_measures [simp]:
  "reserved (app_ready s) = reserved s + 104857600"
  "committed (app_ready s) = committed s + 104857600"
  by (simp_all add: app_ready_def measures_push)

lemma app_ready_heap_ok:
  assumes "heap_ok s" "reserved s + 104857600 \<le> mem_limit s"
  shows "heap_ok (app_ready s)"
  using assms by (simp add: app_ready_def heap_ok_push)

lemma app_idle_loop_diverges: "app_idle_loop s = None"
proof (cases "app_idle_loop s")
  case None
  then show ?thesis .
next
  case (Some t)
  have False
  proof (rule app_idle_loop.raw_induct [where P = "\<lambda>s t. False", OF _ Some])
    fix f and s t :: proc
    assume "\<And>s t. f s = Some t \<Longrightarrow> False"
      and "(if (1 :: c_int) \<noteq> 0 then f (app_idle_body s) else Some s) = Some t"
    then show False
      by simp
  qed
  then show ?thesis ..
qed

lemma app_idle_rounds [simp]:
  "clock ((app_idle_body ^^ n) s) = clock s + 10 * n"
  "heap ((app_idle_body ^^ n) s) = heap s"
  "brk ((app_idle_body ^^ n) s) = brk s"
  "mem_limit ((app_idle_body ^^ n) s) = mem_limit s"
  "stdout ((app_idle_body ^^ n) s) = stdout s"
  "stderr ((app_idle_body ^^ n) s) = stderr s"
  "pid ((app_idle_body ^^ n) s) = pid s"
  by (induction n) (simp_all add: app_idle_body_def c_arith)

text \<open>
  C30. \<open>main\<close> of \<open>app.c\<close> returns exactly when the first allocation is
  refused, and then with status 1 and one line on standard error; when it is
  granted, \<open>main\<close> never returns.
\<close>

theorem app_main_returns_iff:
  assumes "heap_ok s"
  shows "app_main s =
    (if mem_limit s < reserved s + 104857600
     then Some (Inr (1, s\<lparr>stderr := stderr s @ [''Failed to allocate initial memory\<newline>'']\<rparr>))
     else None)"
  using assms
  by (simp add: app_main_def app_startup_refused app_startup_granted app_idle_loop_diverges
      fprintf_stderr_def)

theorem app_main_returns_iff_witness:
  "heap_ok (boot 1000 7) \<and>
   app_main (boot 1000 7) =
    (if mem_limit (boot 1000 7) < reserved (boot 1000 7) + 104857600
     then Some (Inr (1, (boot 1000 7)\<lparr>stderr := stderr (boot 1000 7) @
       [''Failed to allocate initial memory\<newline>'']\<rparr>))
     else None)"
  using app_main_returns_iff [of "boot 1000 7"] by simp

text \<open>
  C31. The steady state of \<open>app.c\<close> as shipped: after start-up and \<open>n\<close>
  rounds of the idle loop, the two start-up lines are all of the output,
  100 MiB are reserved and committed on top of what was there, and
  \<open>60 + 10 * n\<close> seconds have passed. Nothing leaks, since the call of
  \<open>start_memory_leak\<close> is commented out.
\<close>

theorem app_idle_state_steady:
  assumes "heap_ok s" "reserved s + 104857600 \<le> mem_limit s"
  shows "\<exists>s'. app_idle_state n s = Inr s' \<and>
    stdout s' = stdout s @
      [''Initial 100 MB of memory allocated. PID: '' @ fmt_d (pid s) @ ''\<newline>'',
       ''Waiting for 60 seconds before starting the memory leak...\<newline>''] \<and>
    stderr s' = stderr s \<and>
    reserved s' = reserved s + 104857600 \<and> committed s' = committed s + 104857600 \<and>
    clock s' = clock s + 60 + 10 * n"
  using assms
  by (simp add: app_idle_state_def app_startup_granted app_ready_def reserved_def
      committed_def)

theorem app_idle_state_steady_witness:
  "heap_ok (boot 2147483648 7) \<and>
   reserved (boot 2147483648 7) + 104857600 \<le> mem_limit (boot 2147483648 7) \<and>
   (\<exists>s'. app_idle_state 6 (boot 2147483648 7) = Inr s' \<and>
    stdout s' = stdout (boot 2147483648 7) @
      [''Initial 100 MB of memory allocated. PID: '' @ fmt_d (pid (boot 2147483648 7)) @
         ''\<newline>'',
       ''Waiting for 60 seconds before starting the memory leak...\<newline>''] \<and>
    stderr s' = stderr (boot 2147483648 7) \<and>
    reserved s' = reserved (boot 2147483648 7) + 104857600 \<and>
    committed s' = committed (boot 2147483648 7) + 104857600 \<and>
    clock s' = clock (boot 2147483648 7) + 60 + 10 * 6)"
  using app_idle_state_steady [of "boot 2147483648 7" 6] by simp

text \<open>
  C39. From any counter not above the target, and with memory for the chunks
  still needed, the loop of \<open>start_memory_leak\<close> ends after exactly
  \<open>ceil ((target - counter) / chunk)\<close> iterations (one line each), with the
  counter at or above the target and less than one chunk above it.
\<close>

theorem start_memory_leak_loop_steps:
  assumes "heap_ok s" "unat c \<le> 1073741824"
    "reserved s + ceil_div (1073741824 - unat c) 10485760 * 10485760 \<le> mem_limit s"
  shows "\<exists>c' s'. start_memory_leak_loop c s = Inr (c', s') \<and>
    unat (int_to_size_t (LEAK_MEMORY_MB * 1024 * 1024)) \<le> unat c' \<and>
    unat c' < unat (int_to_size_t (LEAK_MEMORY_MB * 1024 * 1024)) +
      unat (int_to_size_t (LEAK_CHUNK_MB * 1024 * 1024)) \<and>
    length (stdout s') = length (stdout s) + ceil_div (1073741824 - unat c) 10485760 \<and>
    stderr s' = stderr s"
proof -
  have c: "unat c \<le> unat (target_size_bytes app_plan)"
    using assms(2) by simp
  have fits: "reserved s + steps_needed app_plan c * unat (step_size_bytes app_plan) \<le> mem_limit s"
    using assms(3) by (simp add: steps_needed_def)
  from grow_outcome_complete [OF app_plan_ok c fits] assms(1) show ?thesis
    by (cases "grow_outcome app_plan c s")
      (simp add: start_memory_leak_loop_outcome steps_needed_def c_arith)
qed

theorem start_memory_leak_loop_steps_witness:
  "heap_ok (boot 2147483648 7) \<and> unat (1000000000 :: size_t) \<le> 1073741824 \<and>
   reserved (boot 2147483648 7) +
     ceil_div (1073741824 - unat (1000000000 :: size_t)) 10485760 * 10485760
     \<le> mem_limit (boot 2147483648 7) \<and>
   (\<exists>c' s'. start_memory_leak_loop 1000000000 (boot 2147483648 7) = Inr (c', s') \<and>
    unat (int_to_size_t (LEAK_MEMORY_MB * 1024 * 1024)) \<le> unat c' \<and>
    unat c' < unat (int_to_size_t (LEAK_MEMORY_MB * 1024 * 1024)) +
      unat (int_to_size_t (LEAK_CHUNK_MB * 1024 * 1024)) \<and>
    length (stdout s') = length (stdout (boot 2147483648 7)) +
      ceil_div (1073741824 - unat (1000000000 :: size_t)) 10485760 \<and>
    stderr s' = stderr (boot 2147483648 7))"
  using start_memory_leak_loop_steps [of "boot 2147483648 7" 1000000000]
  by (simp add: ceil_div_def)

text \<open>
  The macro products of \<open>app.c\<close> are computed in \<open>int\<close> without
  overflow and keep their value as \<open>size_t\<close>: 100, 1024 and 10 MiB. The
  margin is a factor of two: a leak target of 2048 MB would overflow \<open>int\<close>.
\<close>

lemma app_macro_arithmetic:
  "int_mul_ok app_INITIAL_MEMORY_MB 1024 \<and> int_mul_ok (app_INITIAL_MEMORY_MB * 1024) 1024 \<and>
   int_mul_ok LEAK_MEMORY_MB 1024 \<and> int_mul_ok (LEAK_MEMORY_MB * 1024) 1024 \<and>
   int_mul_ok LEAK_CHUNK_MB 1024 \<and> int_mul_ok (LEAK_CHUNK_MB * 1024) 1024 \<and>
   unat (int_to_size_t (app_INITIAL_MEMORY_MB * 1024 * 1024)) = 100 * 2 ^ 20 \<and>
   unat (int_to_size_t (LEAK_MEMORY_MB * 1024 * 1024)) = 1024 * 2 ^ 20 \<and>
   unat (int_to_size_t (LEAK_CHUNK_MB * 1024 * 1024)) = 10 * 2 ^ 20 \<and>
   \<not> int_mul_ok (2 * LEAK_MEMORY_MB * 1024) 1024"
  by (simp add: int_mul_ok_def c_arith)

lemma app_steps_taken:
  "steps_taken app_plan 0 s = min 103 ((mem_limit s - reserved s) div 10485760)"
  "steps_granted app_plan s < steps_needed app_plan 0 \<longleftrightarrow>
     min 103 ((mem_limit s - reserved s) div 10485760) < 103"
  by (auto simp: steps_taken_def steps_granted_def app_steps_needed min_def)

text \<open>
  C27. \<open>start_memory_leak\<close> under any memory limit: it leaks
  \<open>k = min 103 (free memory div 10 MiB)\<close> chunks, each written in full, in
  front of the older blocks, prints the \<open>k\<close> lines "Leaked 10 MB of memory"
  up to "Leaked 10 k MB of memory", prints its failure line exactly when
  \<open>k\<close> is less than 103, takes \<open>k\<close> seconds, never faults and leaves the
  heap well formed.
\<close>

theorem start_memory_leak_under_any_limit:
  assumes "heap_ok s" "k = min 103 ((mem_limit s - reserved s) div 10485760)"
  shows "\<exists>s'. start_memory_leak s = Inr s' \<and> heap_ok s' \<and>
    heap s' = map (\<lambda>i. (brk s + i * 10485761, replicate 10485760 (Some 0))) (rev [0..<k])
      @ heap s \<and>
    stdout s' = stdout s @
      map (\<lambda>j. ''Leaked '' @ dec (10 * j) @ '' MB of memory\<newline>'') [1..<Suc k] \<and>
    stderr s' = stderr s @
      (if k < 103 then [''Failed to allocate leak memory\<newline>''] else []) \<and>
    clock s' = clock s + k"
proof -
  from assms(2) have "k \<le> 103"
    by simp
  from app_reports [OF this] assms grow_outcome_heap_ok [OF app_plan_ok assms(1), of 0]
  show ?thesis
    by (simp add: start_memory_leak_outcome grow_outcome_fields grow_outcome_heap
        app_steps_taken del: upt_Suc app_plan_fields(5))
qed

theorem start_memory_leak_under_any_limit_witness:
  "heap_ok (boot 31457280 7) \<and>
   (3 :: nat) = min 103 ((mem_limit (boot 31457280 7) - reserved (boot 31457280 7)) div 10485760) \<and>
   (\<exists>s'. start_memory_leak (boot 31457280 7) = Inr s' \<and> heap_ok s' \<and>
    heap s' = map (\<lambda>i. (brk (boot 31457280 7) + i * 10485761, replicate 10485760 (Some 0)))
      (rev [0..<3]) @ heap (boot 31457280 7) \<and>
    stdout s' = stdout (boot 31457280 7) @
      map (\<lambda>j. ''Leaked '' @ dec (10 * j) @ '' MB of memory\<newline>'') [1..<Suc 3] \<and>
    stderr s' = stderr (boot 31457280 7) @
      (if (3 :: nat) < 103 then [''Failed to allocate leak memory\<newline>''] else []) \<and>
    clock s' = clock (boot 31457280 7) + 3)"
  using start_memory_leak_under_any_limit [of "boot 31457280 7" 3] by simp

end
