(* ===== verification/Processes.thy ===== *)
theory Processes
  imports Lifecycle Memory_Usage_Program App
begin

text \<open>
  The two simulator programs as machines. \<open>mup_program\<close> and \<open>app_program\<close>
  fill the phases of the life cycle with the functions of
  \<open>src/memory_usage_program.c\<close> and \<open>src/app.c\<close>; their argument says whether
  the call of the growth function in \<open>main\<close> is compiled in (it is commented
  out in both sources, so the programs as shipped, \<open>mup_shipped\<close> and
  \<open>app_shipped\<close>, are \<open>mup_program False\<close> and \<open>app_program False\<close>). The lemmas of \<open>Lifecycle\<close> apply to both
  because their loop bodies are steps of the simulator
  (\<open>increase_memory_usage_body_eq\<close>, \<open>start_memory_leak_body_eq\<close>).
\<close>

section \<open>The programs\<close>

text \<open>
  \<open>mup_shipped\<close> and \<open>app_shipped\<close> are the programs as the sources have
  them: start-up and idle loop from \<open>main\<close>, counter, guard and body from
  the growth function, and the growth call absent (it is a comment in
  \<open>main\<close>). \<open>mup_program\<close> and \<open>app_program\<close> make the commented call
  the flag \<open>growth_enabled\<close> of the specification.
\<close>

definition mup_shipped :: program where
  "mup_shipped =
     \<lparr>startup = mup_startup,
      growth_enabled = False,
      initial_counter = int_to_size_t (mup_INITIAL_MEMORY_MB * 1024 * 1024),
      growth_target = int_to_size_t (TOTAL_MEMORY_MB * 1024 * 1024),
      growth_body = increase_memory_usage_body,
      idle_body = mup_idle_body\<rparr>"

definition app_shipped :: program where
  "app_shipped =
     \<lparr>startup = app_startup,
      growth_enabled = False,
      initial_counter = 0,
      growth_target = int_to_size_t (LEAK_MEMORY_MB * 1024 * 1024),
      growth_body = start_memory_leak_body,
      idle_body = app_idle_body\<rparr>"

definition mup_program :: "bool \<Rightarrow> program" where
  "mup_program enabled = mup_shipped\<lparr>growth_enabled := enabled\<rparr>"

definition app_program :: "bool \<Rightarrow> program" where
  "app_program enabled = app_shipped\<lparr>growth_enabled := enabled\<rparr>"

section \<open>Single steps\<close>

lemma mup_program_fields [simp]:
  "startup (mup_program e) = mup_startup"
  "growth_enabled (mup_program e) = e"
  "initial_counter (mup_program e) = 104857600"
  "growth_target (mup_program e) = target_size_bytes mup_plan"
  "growth_body (mup_program e) = grow_body mup_plan"
  "idle_body (mup_program e) = mup_idle_body"
  by (simp_all add: mup_program_def mup_shipped_def c_arith fun_eq_iff
      increase_memory_usage_body_eq)

lemma app_program_fields [simp]:
  "startup (app_program e) = app_startup"
  "growth_enabled (app_program e) = e"
  "initial_counter (app_program e) = 0"
  "growth_target (app_program e) = target_size_bytes app_plan"
  "growth_body (app_program e) = grow_body app_plan"
  "idle_body (app_program e) = app_idle_body"
  by (simp_all add: app_program_def app_shipped_def c_arith fun_eq_iff
      start_memory_leak_body_eq)

lemma shipped_programs:
  "mup_program False = mup_shipped" "app_program False = app_shipped"
  by (simp_all add: mup_program_def app_program_def mup_shipped_def app_shipped_def)

lemma mup_next_STARTING:
  assumes "heap_ok s"
  shows "next_conf (mup_program e) (STARTING, s) =
    Some (if reserved s + 104857600 \<le> mem_limit s
          then (if e then GROWING 104857600 else IDLE, mup_ready s)
          else (EXITED 1, fprintf_stderr ''Failed to allocate initial memory\<newline>'' s))"
  using assms by (simp add: mup_startup_granted mup_startup_refused)

lemma app_next_STARTING:
  assumes "heap_ok s"
  shows "next_conf (app_program e) (STARTING, s) =
    Some (if reserved s + 104857600 \<le> mem_limit s
          then (if e then GROWING 0 else IDLE, app_ready s)
          else (EXITED 1, fprintf_stderr ''Failed to allocate initial memory\<newline>'' s))"
  using assms by (simp add: app_startup_granted app_startup_refused)

lemmas mup_next_GROWING =
  growing_next [of "mup_program e" mup_plan for e, simplified mup_program_fields, OF refl refl]

lemmas app_next_GROWING =
  growing_next [of "app_program e" app_plan for e, simplified app_program_fields, OF refl refl]

lemma mup_reaches_ready:
  assumes "heap_ok s" "reserved s + 104857600 \<le> mem_limit s"
  shows "reaches (mup_program e) (STARTING, s) (if e then GROWING 104857600 else IDLE, mup_ready s)"
  using assms by (intro step_reaches) (simp only: step_iff_next_conf mup_next_STARTING if_True)

lemma app_reaches_ready:
  assumes "heap_ok s" "reserved s + 104857600 \<le> mem_limit s"
  shows "reaches (app_program e) (STARTING, s) (if e then GROWING 0 else IDLE, app_ready s)"
  using assms by (intro step_reaches) (simp only: step_iff_next_conf app_next_STARTING if_True)

lemma mup_starts:
  assumes "heap_ok s"
  shows "startup (mup_program e) s =
      Inr (Inl 1, fprintf_stderr ''Failed to allocate initial memory\<newline>'' s) \<or>
    (\<exists>buffer s1. startup (mup_program e) s = Inr (Inr buffer, s1) \<and> heap_ok s1 \<and>
      reserved s1 = reserved s + 104857600 \<and> committed s1 = committed s + 104857600 \<and>
      stderr s1 = stderr s)"
  using assms mup_startup_granted [of s] mup_startup_refused [of s] mup_ready_heap_ok [of s]
  by (cases "reserved s + 104857600 \<le> mem_limit s") simp_all

lemma app_starts:
  assumes "heap_ok s"
  shows "startup (app_program e) s =
      Inr (Inl 1, fprintf_stderr ''Failed to allocate initial memory\<newline>'' s) \<or>
    (\<exists>buffer s1. startup (app_program e) s = Inr (Inr buffer, s1) \<and> heap_ok s1 \<and>
      reserved s1 = reserved s + 104857600 \<and> committed s1 = committed s + 104857600 \<and>
      stderr s1 = stderr s)"
  using assms app_startup_granted [of s] app_startup_refused [of s] app_ready_heap_ok [of s]
  by (cases "reserved s + 104857600 \<le> mem_limit s") simp_all

section \<open>Accounting\<close>

lemma mup_invariants:
  assumes "heap_ok s0" "reaches (mup_program e) (STARTING, s0) b"
  shows "accounted mup_plan 104857600 0 s0 b" and "stepped mup_plan 104857600 b"
proof -
  note start = mup_starts [OF assms(1), of e]
  show "accounted mup_plan 104857600 0 s0 b"
    by (rule accounted_reaches [where d = 10 and P = "mup_program e",
          OF _ _ mup_plan_ok _ start _ _ assms(2)])
      (simp_all add: mup_idle_body_def c_arith)
  have "stepped mup_plan (initial_counter (mup_program e)) b"
    using start by (intro stepped_reaches [OF _ _ mup_plan_ok _ assms(2)]) auto
  then show "stepped mup_plan 104857600 b"
    by simp
qed

lemma app_invariants:
  assumes "heap_ok s0" "reaches (app_program e) (STARTING, s0) b"
  shows "accounted app_plan 104857600 104857600 s0 b" and "stepped app_plan 0 b"
proof -
  note start = app_starts [OF assms(1), of e]
  show "accounted app_plan 104857600 104857600 s0 b"
    by (rule accounted_reaches [where d = 10 and P = "app_program e",
          OF _ _ app_plan_ok _ start _ _ assms(2)])
      (simp_all add: app_idle_body_def c_arith)
  have "stepped app_plan (initial_counter (app_program e)) b"
    using start by (intro stepped_reaches [OF _ _ app_plan_ok _ assms(2)]) auto
  then show "stepped app_plan 0 b"
    by simp
qed

text \<open>A counter that is a whole number of 10 MiB steps is a whole number of MiB.\<close>

lemma whole_MiB:
  assumes "(10485760 :: nat) dvd n - m" "m \<le> n" "1048576 dvd m"
  shows "n div 1048576 * 1048576 = n"
proof -
  from assms(1) obtain k where "n - m = 10485760 * k" ..
  moreover from assms(3) obtain j where "m = 1048576 * j" ..
  ultimately have "n = 1048576 * (j + 10 * k)"
    using assms(2) by simp
  then show ?thesis
    by simp
qed

text \<open>
  C12. In every configuration \<open>memory_usage_program.c\<close> reaches, with or
  without the growth call, from any well-formed starting state and under
  any memory limit: while growing, the footprint above the starting state
  is exactly the counter (the number the progress lines report, in bytes)
  and every reserved byte is written; once idle the footprint is at least
  100 MiB and less than one step past the target; the process exits only
  with status 1 and an untouched heap; it never crashes.
\<close>

theorem mup_program_accounted:
  assumes "heap_ok s0" "reaches (mup_program e) (STARTING, s0) b"
  shows "accounted mup_plan 104857600 0 s0 b"
  using assms by (rule mup_invariants)

theorem mup_program_accounted_witness:
  "heap_ok (boot 2147483648 7) \<and>
   reaches (mup_program True) (STARTING, boot 2147483648 7)
     (GROWING 104857600, mup_ready (boot 2147483648 7)) \<and>
   accounted mup_plan 104857600 0 (boot 2147483648 7)
     (GROWING 104857600, mup_ready (boot 2147483648 7))"
  using mup_program_accounted [of "boot 2147483648 7" True
      "(GROWING 104857600, mup_ready (boot 2147483648 7))"]
    mup_reaches_ready [of "boot 2147483648 7" True]
  by simp

text \<open>
  C32. The same for \<open>app.c\<close>, whose counter starts at 0: while leaking, the
  footprint above the starting state is the counter plus the initial
  100 MiB, which the progress lines do not report.
\<close>

theorem app_program_accounted:
  assumes "heap_ok s0" "reaches (app_program e) (STARTING, s0) b"
  shows "accounted app_plan 104857600 104857600 s0 b"
  using assms by (rule app_invariants)

theorem app_program_accounted_witness:
  "heap_ok (boot 2147483648 7) \<and>
   reaches (app_program True) (STARTING, boot 2147483648 7)
     (GROWING 0, app_ready (boot 2147483648 7)) \<and>
   accounted app_plan 104857600 104857600 (boot 2147483648 7)
     (GROWING 0, app_ready (boot 2147483648 7))"
  using app_program_accounted [of "boot 2147483648 7" True
      "(GROWING 0, app_ready (boot 2147483648 7))"]
    app_reaches_ready [of "boot 2147483648 7" True]
  by simp

section \<open>Whole runs\<close>

lemma mup_ready_steps_taken:
  assumes "reserved s + 1184890880 \<le> mem_limit s"
  shows "steps_taken mup_plan 104857600 (mup_ready s) = 103"
  using assms by (intro mup_steps_taken_enough) simp

lemma app_ready_steps_taken:
  assumes "reserved s + 1184890880 \<le> mem_limit s"
  shows "steps_taken app_plan 0 (app_ready s) = 103"
  using assms by (intro app_steps_taken_enough) simp

lemma mup_run_growing:
  assumes "heap_ok s" "reserved s + 1184890880 \<le> mem_limit s" "k \<le> 103"
  shows "run_for (mup_program True) (Suc k) (STARTING, s) =
    (GROWING (104857600 + of_nat k * 10485760), grown mup_plan k 104857600 (mup_ready s))"
  using assms mup_ready_heap_ok [of s]
    run_for_growing [of "mup_program True" mup_plan s 104857600 "mup_ready s" k]
  by (simp add: mup_plan_ok mup_next_STARTING mup_ready_steps_taken del: run_for.simps next_conf.simps)

lemma mup_run_idle:
  assumes "heap_ok s" "reserved s + 1184890880 \<le> mem_limit s"
  shows "run_for (mup_program True) (105 + n) (STARTING, s) =
    (IDLE, (mup_idle_body ^^ n) (snd (grow_outcome mup_plan 104857600 (mup_ready s))))"
proof -
  have "run_for (mup_program True)
      (Suc (Suc (steps_taken mup_plan 104857600 (mup_ready s))) + n) (STARTING, s) =
    (IDLE, (idle_body (mup_program True) ^^ n)
      (snd (grow_outcome mup_plan 104857600 (mup_ready s))))"
    using assms by (intro run_for_idle)
      (simp_all add: mup_plan_ok mup_next_STARTING mup_ready_heap_ok del: next_conf.simps)
  moreover have "Suc (Suc 103) + n = 105 + n"
    by simp
  ultimately show ?thesis
    using assms(2) by (simp only: mup_ready_steps_taken mup_program_fields)
qed

text \<open>
  C15. The run of \<open>memory_usage_program.c\<close> with the growth call compiled in
  and memory for all of it, step by step: after start-up and \<open>k\<close> growth
  steps (\<open>k\<close> up to 103) the process is growing with its counter at
  \<open>100 + 10 k\<close> MiB, holds exactly that much more than at its start, and
  \<open>60 + k\<close> seconds have passed; from step 105 on it is idle, holds
  1130 MiB, and \<open>163 + 10 n\<close> seconds have passed after \<open>n\<close> idle rounds.
\<close>

theorem mup_program_timeline:
  assumes "heap_ok s" "reserved s + 1184890880 \<le> mem_limit s"
  shows "(k \<le> 103 \<longrightarrow>
      fst (run_for (mup_program True) (Suc k) (STARTING, s)) =
        GROWING (104857600 + of_nat k * 10485760) \<and>
      reserved (snd (run_for (mup_program True) (Suc k) (STARTING, s))) =
        reserved s + 104857600 + k * 10485760 \<and>
      clock (snd (run_for (mup_program True) (Suc k) (STARTING, s))) = clock s + 60 + k) \<and>
    fst (run_for (mup_program True) (105 + n) (STARTING, s)) = IDLE \<and>
    reserved (snd (run_for (mup_program True) (105 + n) (STARTING, s))) =
      reserved s + 1184890880 \<and>
    clock (snd (run_for (mup_program True) (105 + n) (STARTING, s))) = clock s + 163 + 10 * n"
  using assms
  by (simp add: mup_run_growing mup_run_idle grow_outcome_fields mup_ready_steps_taken
      reserved_cong [of "(mup_idle_body ^^ n) t" t for t] del: run_for.simps)

theorem mup_program_timeline_witness:
  "heap_ok (boot 2147483648 7) \<and>
   reserved (boot 2147483648 7) + 1184890880 \<le> mem_limit (boot 2147483648 7) \<and>
   ((3::nat) \<le> 103 \<and>
      fst (run_for (mup_program True) (Suc 3) (STARTING, boot 2147483648 7)) =
        GROWING (104857600 + of_nat 3 * 10485760) \<and>
      reserved (snd (run_for (mup_program True) (Suc 3) (STARTING, boot 2147483648 7))) =
        reserved (boot 2147483648 7) + 104857600 + 3 * 10485760 \<and>
      clock (snd (run_for (mup_program True) (Suc 3) (STARTING, boot 2147483648 7))) =
        clock (boot 2147483648 7) + 60 + 3) \<and>
    fst (run_for (mup_program True) (105 + 2) (STARTING, boot 2147483648 7)) = IDLE \<and>
    reserved (snd (run_for (mup_program True) (105 + 2) (STARTING, boot 2147483648 7))) =
      reserved (boot 2147483648 7) + 1184890880 \<and>
    clock (snd (run_for (mup_program True) (105 + 2) (STARTING, boot 2147483648 7))) =
      clock (boot 2147483648 7) + 163 + 10 * 2"
  using mup_program_timeline [of "boot 2147483648 7" 3 2] by (simp del: run_for.simps)

lemma app_run_growing:
  assumes "heap_ok s" "reserved s + 1184890880 \<le> mem_limit s" "k \<le> 103"
  shows "run_for (app_program True) (Suc k) (STARTING, s) =
    (GROWING (of_nat k * 10485760), grown app_plan k 0 (app_ready s))"
  using assms app_ready_heap_ok [of s]
    run_for_growing [of "app_program True" app_plan s 0 "app_ready s" k]
  by (simp add: app_plan_ok app_next_STARTING app_ready_steps_taken del: run_for.simps next_conf.simps)

lemma app_run_idle:
  assumes "heap_ok s" "reserved s + 1184890880 \<le> mem_limit s"
  shows "run_for (app_program True) (105 + n) (STARTING, s) =
    (IDLE, (app_idle_body ^^ n) (snd (grow_outcome app_plan 0 (app_ready s))))"
proof -
  have "run_for (app_program True)
      (Suc (Suc (steps_taken app_plan 0 (app_ready s))) + n) (STARTING, s) =
    (IDLE, (idle_body (app_program True) ^^ n) (snd (grow_outcome app_plan 0 (app_ready s))))"
    using assms by (intro run_for_idle)
      (simp_all add: app_plan_ok app_next_STARTING app_ready_heap_ok del: next_conf.simps)
  moreover have "Suc (Suc 103) + n = 105 + n"
    by simp
  ultimately show ?thesis
    using assms(2) by (simp only: app_ready_steps_taken app_program_fields)
qed

text \<open>
  C34. The run of \<open>app.c\<close> with the leak compiled in has the same timeline
  of memory, though its counter starts at 0: after start-up and \<open>k\<close> chunks
  the counter is \<open>10 k\<close> MiB and the process holds \<open>100 + 10 k\<close> MiB more
  than at its start; from step 105 on it is idle and holds 1130 MiB.
\<close>

theorem app_program_timeline:
  assumes "heap_ok s" "reserved s + 1184890880 \<le> mem_limit s"
  shows "(k \<le> 103 \<longrightarrow>
      fst (run_for (app_program True) (Suc k) (STARTING, s)) = GROWING (of_nat k * 10485760) \<and>
      reserved (snd (run_for (app_program True) (Suc k) (STARTING, s))) =
        reserved s + 104857600 + k * 10485760 \<and>
      clock (snd (run_for (app_program True) (Suc k) (STARTING, s))) = clock s + 60 + k) \<and>
    fst (run_for (app_program True) (105 + n) (STARTING, s)) = IDLE \<and>
    reserved (snd (run_for (app_program True) (105 + n) (STARTING, s))) =
      reserved s + 1184890880 \<and>
    clock (snd (run_for (app_program True) (105 + n) (STARTING, s))) = clock s + 163 + 10 * n"
  using assms
  by (simp add: app_run_growing app_run_idle grow_outcome_fields app_ready_steps_taken
      reserved_cong [of "(app_idle_body ^^ n) t" t for t] del: run_for.simps)

theorem app_program_timeline_witness:
  "heap_ok (boot 2147483648 7) \<and>
   reserved (boot 2147483648 7) + 1184890880 \<le> mem_limit (boot 2147483648 7) \<and>
   ((3::nat) \<le> 103 \<and>
      fst (run_for (app_program True) (Suc 3) (STARTING, boot 2147483648 7)) =
        GROWING (of_nat 3 * 10485760) \<and>
      reserved (snd (run_for (app_program True) (Suc 3) (STARTING, boot 2147483648 7))) =
        reserved (boot 2147483648 7) + 104857600 + 3 * 10485760 \<and>
      clock (snd (run_for (app_program True) (Suc 3) (STARTING, boot 2147483648 7))) =
        clock (boot 2147483648 7) + 60 + 3) \<and>
    fst (run_for (app_program True) (105 + 2) (STARTING, boot 2147483648 7)) = IDLE \<and>
    reserved (snd (run_for (app_program True) (105 + 2) (STARTING, boot 2147483648 7))) =
      reserved (boot 2147483648 7) + 1184890880 \<and>
    clock (snd (run_for (app_program True) (105 + 2) (STARTING, boot 2147483648 7))) =
      clock (boot 2147483648 7) + 163 + 10 * 2"
  using app_program_timeline [of "boot 2147483648 7" 3 2] by (simp del: run_for.simps)

section \<open>What the output tells\<close>

lemma mup_reaches_first_step:
  assumes "heap_ok s" "reserved s + 1184890880 \<le> mem_limit s"
  shows "reaches (mup_program True) (STARTING, s)
    (GROWING 115343360, grow_once mup_plan 104857600 (mup_ready s))"
  using assms reaches_run_for [of "mup_program True" "(STARTING, s)" "Suc 1"]
    mup_run_growing [of s 1]
  by (simp del: run_for.simps)

lemma app_reaches_first_step:
  assumes "heap_ok s" "reserved s + 1184890880 \<le> mem_limit s"
  shows "reaches (app_program True) (STARTING, s)
    (GROWING 10485760, grow_once app_plan 0 (app_ready s))"
  using assms reaches_run_for [of "app_program True" "(STARTING, s)" "Suc 1"]
    app_run_growing [of s 1]
  by (simp del: run_for.simps)

text \<open>
  C13. The output of \<open>memory_usage_program.c\<close> tells its footprint: in
  every growing configuration after the first step, under any memory limit,
  the number in the last line printed, in MiB, is exactly what the process
  holds above its starting state.
\<close>

theorem mup_last_line_is_footprint:
  assumes "heap_ok s0" "reaches (mup_program e) (STARTING, s0) (GROWING c, s)"
    "c \<noteq> 104857600"
  shows "read_number (last (stdout s)) * 1048576 = reserved s - reserved s0"
  using mup_invariants [OF assms(1,2)] assms(3) whole_MiB [of "unat c" 104857600]
  by (simp add: mup_report_read_back del: mup_plan_fields(5))

theorem mup_last_line_is_footprint_witness:
  "heap_ok (boot 2147483648 7) \<and>
   reaches (mup_program True) (STARTING, boot 2147483648 7)
     (GROWING 115343360, grow_once mup_plan 104857600 (mup_ready (boot 2147483648 7))) \<and>
   (115343360 :: size_t) \<noteq> 104857600 \<and>
   read_number (last (stdout (grow_once mup_plan 104857600 (mup_ready (boot 2147483648 7))))) *
     1048576 =
   reserved (grow_once mup_plan 104857600 (mup_ready (boot 2147483648 7))) -
     reserved (boot 2147483648 7)"
  using mup_last_line_is_footprint [of "boot 2147483648 7" True 115343360
      "grow_once mup_plan 104857600 (mup_ready (boot 2147483648 7))"]
    mup_reaches_first_step [of "boot 2147483648 7"]
  by (simp del: mup_plan_fields(5))

text \<open>
  C33. The output of \<open>app.c\<close> lags its footprint: in every leaking
  configuration after the first chunk the number in the last line printed
  is 100 MiB short of what the process holds above its starting state.
\<close>

theorem app_last_line_lags_footprint:
  assumes "heap_ok s0" "reaches (app_program e) (STARTING, s0) (GROWING c, s)" "c \<noteq> 0"
  shows "read_number (last (stdout s)) * 1048576 + 104857600 = reserved s - reserved s0"
  using app_invariants [OF assms(1,2)] assms(3) whole_MiB [of "unat c" 0]
  by (simp add: app_report_read_back del: app_plan_fields(5))

theorem app_last_line_lags_footprint_witness:
  "heap_ok (boot 2147483648 7) \<and>
   reaches (app_program True) (STARTING, boot 2147483648 7)
     (GROWING 10485760, grow_once app_plan 0 (app_ready (boot 2147483648 7))) \<and>
   (10485760 :: size_t) \<noteq> 0 \<and>
   read_number (last (stdout (grow_once app_plan 0 (app_ready (boot 2147483648 7))))) *
     1048576 + 104857600 =
   reserved (grow_once app_plan 0 (app_ready (boot 2147483648 7))) -
     reserved (boot 2147483648 7)"
  using app_last_line_lags_footprint [of "boot 2147483648 7" True 10485760
      "grow_once app_plan 0 (app_ready (boot 2147483648 7))"]
    app_reaches_first_step [of "boot 2147483648 7"]
  by (simp del: app_plan_fields(5))

section \<open>The programs as shipped\<close>

lemma mup_shipped_run:
  assumes "heap_ok s"
  shows "run_for mup_shipped (Suc n) (STARTING, s) =
    (if reserved s + 104857600 \<le> mem_limit s
     then (IDLE, (mup_idle_body ^^ n) (mup_ready s))
     else (EXITED 1, fprintf_stderr ''Failed to allocate initial memory\<newline>'' s))"
  using assms unfolding shipped_programs [symmetric]
  by (simp add: run_for_step [OF mup_next_STARTING] del: run_for.simps)

lemma app_shipped_run:
  assumes "heap_ok s"
  shows "run_for app_shipped (Suc n) (STARTING, s) =
    (if reserved s + 104857600 \<le> mem_limit s
     then (IDLE, (app_idle_body ^^ n) (app_ready s))
     else (EXITED 1, fprintf_stderr ''Failed to allocate initial memory\<newline>'' s))"
  using assms unfolding shipped_programs [symmetric]
  by (simp add: run_for_step [OF app_next_STARTING] del: run_for.simps)

text \<open>
  C24. As shipped, with the growth call commented out, neither program is
  ever in the growing phase: after any number of steps the phase is
  \<open>STARTING\<close> (no step yet), \<open>IDLE\<close> or \<open>EXITED 1\<close>, and the footprint is
  that of the starting state plus at most the initial 100 MiB.
\<close>

theorem shipped_programs_never_grow:
  assumes "heap_ok s" "P = mup_shipped \<or> P = app_shipped"
  shows "fst (run_for P m (STARTING, s)) \<in> {STARTING, IDLE, EXITED 1} \<and>
    reserved (snd (run_for P m (STARTING, s))) \<le> reserved s + 104857600"
proof (cases m)
  case 0
  then show ?thesis by simp
next
  case (Suc n)
  with assms show ?thesis
    by (auto simp: mup_shipped_run app_shipped_run
        reserved_cong [of "(mup_idle_body ^^ n) t" t for t]
        reserved_cong [of "(app_idle_body ^^ n) t" t for t]
        simp del: run_for.simps split: if_splits)
qed

theorem shipped_programs_never_grow_witness:
  "heap_ok (boot 2147483648 7) \<and>
   (mup_shipped = mup_shipped \<or> mup_shipped = app_shipped) \<and>
   fst (run_for mup_shipped 5 (STARTING, boot 2147483648 7)) \<in>
     {STARTING, IDLE, EXITED 1} \<and>
   reserved (snd (run_for mup_shipped 5 (STARTING, boot 2147483648 7))) \<le>
     reserved (boot 2147483648 7) + 104857600"
  using shipped_programs_never_grow [of "boot 2147483648 7" mup_shipped 5]
  by (simp del: run_for.simps)

section \<open>The functions and the machine\<close>

lemma mup_shipped_reaches:
  assumes "heap_ok s"
  shows "reaches mup_shipped (STARTING, s) x \<longleftrightarrow>
    x = (STARTING, s) \<or>
    (if reserved s + 104857600 \<le> mem_limit s
     then \<exists>n. x = (IDLE, (mup_idle_body ^^ n) (mup_ready s))
     else x = (EXITED 1, fprintf_stderr ''Failed to allocate initial memory\<newline>'' s))"
  using assms unfolding shipped_programs [symmetric]
  by (subst reaches_unfold)
    (simp add: mup_next_STARTING reaches_IDLE reaches_final del: next_conf.simps)

lemma mup_idle_state_granted:
  assumes "heap_ok s" "reserved s + 104857600 \<le> mem_limit s"
  shows "mup_idle_state n s = Inr ((mup_idle_body ^^ n) (mup_ready s))"
  using assms by (simp add: mup_idle_state_def mup_startup_granted)

text \<open>
  C14. \<open>main\<close> of \<open>memory_usage_program.c\<close> and the machine of the shipped
  program agree: \<open>main\<close> returns a status exactly when the machine reaches
  the phase \<open>EXITED\<close> with that status and state; \<open>main\<close> never returns
  exactly when the machine reaches the idle phase, and the states the machine
  is idle in are the states of \<open>main\<close> after some number of rounds of its
  idle loop; neither faults, and the machine is never in the growing phase.
\<close>

theorem mup_main_simulated:
  assumes "heap_ok s"
  shows "(mup_main s = Some (Inr (status, s')) \<longleftrightarrow>
      reaches mup_shipped (STARTING, s) (EXITED status, s')) \<and>
    (mup_main s = None \<longleftrightarrow> (\<exists>t. reaches mup_shipped (STARTING, s) (IDLE, t))) \<and>
    (reaches mup_shipped (STARTING, s) (IDLE, t) \<longleftrightarrow>
      mup_main s = None \<and> (\<exists>n. mup_idle_state n s = Inr t)) \<and>
    mup_main s \<noteq> Some (Inl f) \<and> \<not> reaches mup_shipped (STARTING, s) (CRASHED f, u) \<and>
    \<not> reaches mup_shipped (STARTING, s) (GROWING c, u)"
  using assms
  by (cases "reserved s + 104857600 \<le> mem_limit s")
    (auto simp: mup_shipped_reaches mup_main_def mup_startup_granted mup_startup_refused
      mup_idle_loop_diverges mup_idle_state_granted)

theorem mup_main_simulated_witness:
  "heap_ok (boot 1048576 7) \<and>
   (mup_main (boot 1048576 7) =
      Some (Inr (1, fprintf_stderr ''Failed to allocate initial memory\<newline>'' (boot 1048576 7)))
    \<longleftrightarrow> reaches mup_shipped (STARTING, boot 1048576 7)
      (EXITED 1, fprintf_stderr ''Failed to allocate initial memory\<newline>'' (boot 1048576 7))) \<and>
   (mup_main (boot 1048576 7) = None \<longleftrightarrow>
      (\<exists>t. reaches mup_shipped (STARTING, boot 1048576 7) (IDLE, t))) \<and>
   (reaches mup_shipped (STARTING, boot 1048576 7) (IDLE, boot 1048576 7) \<longleftrightarrow>
      mup_main (boot 1048576 7) = None \<and>
      (\<exists>n. mup_idle_state n (boot 1048576 7) = Inr (boot 1048576 7))) \<and>
   mup_main (boot 1048576 7) \<noteq> Some (Inl NullDeref) \<and>
   \<not> reaches mup_shipped (STARTING, boot 1048576 7) (CRASHED NullDeref, boot 1048576 7) \<and>
   \<not> reaches mup_shipped (STARTING, boot 1048576 7) (GROWING 0, boot 1048576 7)"
  using mup_main_simulated [where s = "boot 1048576 7" and status = 1 and f = NullDeref
      and u = "boot 1048576 7" and t = "boot 1048576 7" and c = 0 and s' = "fprintf_stderr ''Failed to allocate initial memory\<newline>'' (boot 1048576 7)"]
  by simp

text \<open>
  C17. The growth loop and the growing phase agree, whatever the memory
  limit: from any counter and any well-formed state the function
  \<open>increase_memory_usage_loop\<close> returns, and the machine, started in the
  growing phase, is idle in the returned state after one step more than the
  number of growth steps taken.
\<close>

theorem increase_memory_usage_simulated:
  assumes "heap_ok s"
  shows "\<exists>r. increase_memory_usage_loop c s = Inr r \<and>
    run_for (mup_program e) (Suc (steps_taken mup_plan c s)) (GROWING c, s) = (IDLE, snd r)"
  using assms growing_reaches_IDLE [of "mup_program e" mup_plan s c]
  by (simp add: increase_memory_usage_loop_outcome mup_plan_ok del: run_for.simps)

theorem increase_memory_usage_simulated_witness:
  "heap_ok (boot 20971520 7) \<and>
   (\<exists>r. increase_memory_usage_loop 1168113664 (boot 20971520 7) = Inr r \<and>
    run_for (mup_program True) (Suc (steps_taken mup_plan 1168113664 (boot 20971520 7)))
      (GROWING 1168113664, boot 20971520 7) = (IDLE, snd r))"
  using increase_memory_usage_simulated [of "boot 20971520 7" 1168113664 True] by simp

text \<open>
  C25. The idle phase is final in all but name: whatever either program
  reaches from it is the idle phase again, with the same heap and the same
  output, a whole number of 10-second rounds later; and every step from the
  idle phase takes exactly 10 seconds.
\<close>

theorem idle_phase_absorbing:
  assumes "P = mup_program e \<or> P = app_program e" "reaches P (IDLE, s) (ph, s')"
  shows "ph = IDLE \<and> heap s' = heap s \<and> brk s' = brk s \<and> stdout s' = stdout s \<and>
    stderr s' = stderr s \<and> (\<exists>n. clock s' = clock s + 10 * n) \<and>
    fst (run_for P k (IDLE, s)) = IDLE \<and>
    clock (snd (run_for P k (IDLE, s))) = clock s + 10 * k"
  using assms by (auto simp: reaches_IDLE)

theorem idle_phase_absorbing_witness:
  "(mup_program True = mup_program True \<or> mup_program True = app_program True) \<and>
   reaches (mup_program True) (IDLE, boot 1048576 7) (IDLE, mup_idle_body (boot 1048576 7)) \<and>
   IDLE = IDLE \<and> heap (mup_idle_body (boot 1048576 7)) = heap (boot 1048576 7) \<and>
   brk (mup_idle_body (boot 1048576 7)) = brk (boot 1048576 7) \<and>
   stdout (mup_idle_body (boot 1048576 7)) = stdout (boot 1048576 7) \<and>
   stderr (mup_idle_body (boot 1048576 7)) = stderr (boot 1048576 7) \<and>
   (\<exists>n. clock (mup_idle_body (boot 1048576 7)) = clock (boot 1048576 7) + 10 * n) \<and>
   fst (run_for (mup_program True) 3 (IDLE, boot 1048576 7)) = IDLE \<and>
   clock (snd (run_for (mup_program True) 3 (IDLE, boot 1048576 7))) =
     clock (boot 1048576 7) + 10 * 3"
  using idle_phase_absorbing [of "mup_program True" True "boot 1048576 7" IDLE
      "mup_idle_body (boot 1048576 7)" 3]
    step_reaches [OF step.idle [of "mup_program True" "boot 1048576 7"]]
  by simp

text \<open>
  C26. Neither program ever goes back: along every run, from any
  configuration, the phase only moves forward in the order starting,
  growing, idle, exited, crashed; and between two growing configurations of
  a run the counter has advanced by exactly 10 MiB for every step taken (it
  does not wrap).
\<close>

theorem lifecycle_moves_forward:
  assumes "P = mup_program e \<or> P = app_program e" "m \<le> n"
  shows "fst (run_for P m c) \<le> fst (run_for P n c) \<and>
    (fst (run_for P m c) = GROWING a \<and> fst (run_for P n c) = GROWING b \<longrightarrow>
     unat b = unat a + (n - m) * 10485760)"
proof
  from assms(1) have "mono (\<lambda>n. fst (run_for P n c))"
    by (auto intro: run_for_mono [OF _ _ mup_plan_ok] run_for_mono [OF _ _ app_plan_ok])
  from monoD [OF this assms(2)] show "fst (run_for P m c) \<le> fst (run_for P n c)" .
next
  show "fst (run_for P m c) = GROWING a \<and> fst (run_for P n c) = GROWING b \<longrightarrow>
    unat b = unat a + (n - m) * 10485760"
  proof
    assume "fst (run_for P m c) = GROWING a \<and> fst (run_for P n c) = GROWING b"
    then obtain s t where at_m: "run_for P m c = (GROWING a, s)"
      and at_n: "run_for P n c = (GROWING b, t)"
      by (metis prod.collapse)
    from assms(2) run_for_add [of P m "n - m" c] at_m at_n
    have "run_for P (n - m) (GROWING a, s) = (GROWING b, t)"
      by simp
    with assms(1) show "unat b = unat a + (n - m) * 10485760"
      by (auto dest: growing_counter [OF _ _ mup_plan_ok, rotated 2]
          growing_counter [OF _ _ app_plan_ok, rotated 2])
  qed
qed

theorem lifecycle_moves_forward_witness:
  "(mup_program True = mup_program True \<or> mup_program True = app_program True) \<and>
   (1 :: nat) \<le> 2 \<and>
   fst (run_for (mup_program True) 1 (STARTING, boot 2147483648 7)) \<le>
     fst (run_for (mup_program True) 2 (STARTING, boot 2147483648 7)) \<and>
   fst (run_for (mup_program True) 1 (STARTING, boot 2147483648 7)) = GROWING 104857600 \<and>
   fst (run_for (mup_program True) 2 (STARTING, boot 2147483648 7)) = GROWING 115343360 \<and>
   unat (115343360 :: size_t) = unat (104857600 :: size_t) + (2 - 1) * 10485760"
  using lifecycle_moves_forward [of "mup_program True" True 1 2 "(STARTING, boot 2147483648 7)"
      104857600 115343360]
    mup_run_growing [of "boot 2147483648 7" 0] mup_run_growing [of "boot 2147483648 7" 1]
  by (simp del: run_for.simps add: numeral_2_eq_2)

end
