(* ===== verification/Worker.thy ===== *)
theory Worker
  imports Environment
begin

text \<open>
  The program \<open>src/worker.c\<close>: the macro \<open>PAYLOAD_MB\<close>, \<open>process_work_item\<close>,
  \<open>process_work\<close> (one definition for the statement inside its \<open>for\<close>
  loop, one for the loop, one for the function), \<open>controller\<close> (one round,
  the endless loop) and \<open>main\<close>.

  \<open>process_work_item\<close> is declared with a \<open>char *\<close> parameter and called
  with the \<open>char\<close> read from \<open>payload[i]\<close>; \<open>char_to_ptr\<close> is that
  conversion. The parameter is assigned and never read, so the call changes
  nothing. The local \<open>size\<close> of \<open>process_work\<close> is initialised from the
  macro and never assigned, so it is the constant \<open>process_work_size\<close>.
\<close>

section \<open>Macro and conversions\<close>

definition PAYLOAD_MB :: c_int where
  "PAYLOAD_MB = 10"

definition sizeof_char :: size_t where
  "sizeof_char = 1"

definition char_to_ptr :: "cell \<Rightarrow> addr option" where
  "char_to_ptr c = map_option (\<lambda>b. unat (scast b :: size_t)) c"

section \<open>process_work\<close>

definition process_work_item :: "addr option \<Rightarrow> proc \<Rightarrow> proc" where
  "process_work_item work_item s = (let work_item' = Some NULL in s)"

definition process_work_touch :: "addr \<Rightarrow> size_t \<Rightarrow> proc \<Rightarrow> fault + proc" where
  "process_work_touch payload i s =
     bind_res (load payload i s) (\<lambda>c. Inr (process_work_item (char_to_ptr c) s))"

text \<open>
  The local \<open>size\<close> of \<open>process_work\<close>: initialised from the macro, never
  assigned, and read by the guard of the loop.
\<close>

definition process_work_size :: size_t where
  "process_work_size = int_to_size_t (PAYLOAD_MB * 1024 * 1024)"

lemmas worker_macros [c_arith] = PAYLOAD_MB_def sizeof_char_def process_work_size_def

text \<open>A stride from below the payload size comes closer to it and does not wrap.\<close>

lemma stride_measure:
  assumes "i < (10485760 :: size_t)"
  shows "10485760 - unat (i + 4096) < 10485760 - unat i"
proof -
  from assms have less: "unat i < 10485760"
    by (simp add: size_t_less_iff)
  then have "unat (i + 4096) = unat i + unat (4096 :: size_t)"
    by (intro unat_plus_nowrap) simp
  with less show ?thesis
    by simp
qed

function process_work_loop :: "addr \<Rightarrow> size_t \<Rightarrow> proc \<Rightarrow> fault + proc" where
  "process_work_loop payload i s =
     (if i < process_work_size then
        (case process_work_touch payload i s of
           Inl f \<Rightarrow> Inl f
         | Inr s' \<Rightarrow> process_work_loop payload (i + 4096) s')
      else Inr s)"
  by pat_completeness auto
termination
  by (relation "measure (\<lambda>(p, i, s). unat process_work_size - unat i)")
    (simp_all add: c_arith stride_measure)

definition process_work :: "addr \<Rightarrow> proc \<Rightarrow> fault + proc" where
  "process_work payload s =
     (let s1 = printf ''Processing work...\<newline>'' s
      in bind_res (process_work_loop payload 0 s1)
           (\<lambda>s2. Inr (sleep (int_to_unsigned 1) s2)))"

section \<open>controller and main\<close>

definition controller_body :: "proc \<Rightarrow> fault + proc" where
  "controller_body s =
     (case malloc (int_to_size_t (PAYLOAD_MB * 1024 * 1024) * sizeof_char) s of
        (buffer, s1) \<Rightarrow> bind_res (process_work buffer s1) (\<lambda>s2. free buffer s2))"

partial_function (option) controller :: "proc \<Rightarrow> (fault + proc) option" where
  "controller s =
     (if (1 :: c_int) \<noteq> 0 then
        (case controller_body s of
           Inl f \<Rightarrow> Some (Inl f)
         | Inr s' \<Rightarrow> controller s')
      else Some (Inr s))"

definition worker_main :: "proc \<Rightarrow> (fault + c_int \<times> proc) option" where
  "worker_main s =
     (case controller s of
        None \<Rightarrow> None
      | Some (Inl f) \<Rightarrow> Some (Inl f)
      | Some (Inr s') \<Rightarrow> Some (Inr (0, s')))"

text \<open>
  Reference definitions: the offsets the loop of \<open>process_work\<close> visits from
  \<open>i\<close> on, the state of a round once the payload is allocated, the state
  after one granted round of the controller, and the result of \<open>n\<close> rounds.
\<close>

function touched_offsets :: "size_t \<Rightarrow> size_t list" where
  "touched_offsets i =
     (if i < process_work_size then i # touched_offsets (i + 4096)
      else [])"
  by pat_completeness auto
termination
  by (relation "measure (\<lambda>i. unat process_work_size - unat i)")
    (simp_all add: c_arith stride_measure)

definition with_payload :: "proc \<Rightarrow> proc" where
  "with_payload s =
     s\<lparr>heap := (brk s, replicate 10485760 None) # heap s, brk := brk s + 10485761\<rparr>"

definition after_round :: "proc \<Rightarrow> proc" where
  "after_round s =
     s\<lparr>brk := brk s + 10485761, stdout := stdout s @ [''Processing work...\<newline>''],
       clock := clock s + 1\<rparr>"

primrec controller_rounds :: "nat \<Rightarrow> proc \<Rightarrow> fault + proc" where
  "controller_rounds 0 s = Inr s"
| "controller_rounds (Suc n) s = bind_res (controller_body s) (controller_rounds n)"

section \<open>process_work\<close>

declare process_work_loop.simps [simp del] touched_offsets.simps [simp del]

lemma process_work_item_id [simp]: "process_work_item w s = s"
  by (simp add: process_work_item_def)

lemma process_work_touch_in_bounds:
  "payload \<noteq> NULL \<Longrightarrow> map_of (heap s) payload = Some cs \<Longrightarrow> unat i < length cs \<Longrightarrow>
   process_work_touch payload i s = Inr s"
  by (simp add: process_work_touch_def load_in_bounds)

lemma process_work_touch_NULL [simp]: "process_work_touch NULL i s = Inl NullDeref"
  by (simp add: process_work_touch_def)

lemma process_work_loop_iterate:
  "process_work_loop payload i s =
     iterate_res (process_work_touch payload) (touched_offsets i) s"
proof (induction payload i s rule: process_work_loop.induct)
  case (1 payload i s)
  show ?case
  proof (cases "i < process_work_size")
    case False
    then show ?thesis
      by (subst process_work_loop.simps, subst touched_offsets.simps) simp
  next
    case True
    show ?thesis
    proof (cases "process_work_touch payload i s")
      case (Inl f)
      with True show ?thesis
        by (subst process_work_loop.simps, subst touched_offsets.simps) simp
    next
      case (Inr s')
      with True have "process_work_loop payload (i + 4096) s' =
          iterate_res (process_work_touch payload) (touched_offsets (i + 4096)) s'"
        by (intro "1.IH") simp_all
      with True Inr show ?thesis
        by (subst process_work_loop.simps, subst touched_offsets.simps) simp
    qed
  qed
qed

lemma touched_offsets_from:
  "m \<le> 2560 \<Longrightarrow> n = 2560 - m \<Longrightarrow>
   touched_offsets (of_nat m * 4096) = map (\<lambda>k. of_nat k * 4096) [m..<2560]"
proof (induction n arbitrary: m)
  case 0
  then have m: "m = 2560"
    by simp
  show ?case
    unfolding m by (subst touched_offsets.simps) (simp add: c_arith)
next
  case (Suc n)
  then have less: "m < 2560"
    by simp
  then have "unat (0 :: size_t) + m * unat (4096 :: size_t) < 2 ^ 64"
    by simp
  then have "unat (0 + of_nat m * 4096 :: size_t) = m * 4096"
    using unat_linear [of 0 m 4096] by simp
  with less have guard: "(of_nat m * 4096 :: size_t) < process_work_size"
    by (simp add: size_t_less_iff c_arith)
  have next_offset: "(of_nat m * 4096 + 4096 :: size_t) = of_nat (Suc m) * 4096"
    by (simp add: algebra_simps)
  from Suc.prems less have "touched_offsets (of_nat (Suc m) * 4096) =
      map (\<lambda>k. of_nat k * 4096) [Suc m..<2560]"
    by (intro Suc.IH) simp_all
  with guard less show ?case
    by (subst touched_offsets.simps) (simp only: next_offset if_True upt_conv_Cons list.map)
qed

lemma touched_offsets_0: "touched_offsets 0 = map (\<lambda>k. of_nat k * 4096) [0..<2560]"
  using touched_offsets_from [of 0 2560] by simp

lemma touched_offsets_bound:
  "j \<in> set (touched_offsets i) \<Longrightarrow> unat j < 10485760"
proof (induction i rule: touched_offsets.induct)
  case (1 i)
  show ?case
  proof (cases "i < process_work_size")
    case False
    with "1.prems" show ?thesis
      by (subst (asm) touched_offsets.simps) simp
  next
    case True
    with "1.prems" have "j = i \<or> j \<in> set (touched_offsets (i + 4096))"
      by (subst (asm) touched_offsets.simps) simp
    then show ?thesis
    proof
      assume "j = i"
      with True show ?thesis
        by (simp add: size_t_less_iff c_arith)
    next
      assume "j \<in> set (touched_offsets (i + 4096))"
      with True show ?thesis
        by (intro "1.IH")
    qed
  qed
qed

lemma process_work_loop_id:
  assumes "payload \<noteq> NULL" "map_of (heap s) payload = Some cs" "10485760 \<le> length cs"
  shows "process_work_loop payload i s = Inr s"
  unfolding process_work_loop_iterate
proof (rule iterate_res_id)
  fix j
  assume "j \<in> set (touched_offsets i)"
  then have "unat j < 10485760"
    by (rule touched_offsets_bound)
  then have "unat j < length cs"
    using assms(3) by (rule less_le_trans)
  with assms(1,2) show "process_work_touch payload j s = Inr s"
    by (rule process_work_touch_in_bounds)
qed

lemma process_work_loop_NULL: "process_work_loop NULL 0 s = Inl NullDeref"
  by (subst process_work_loop.simps) (simp add: c_arith)

lemma process_work_valid:
  assumes "payload \<noteq> NULL" "map_of (heap s) payload = Some cs" "10485760 \<le> length cs"
  shows "process_work payload s =
    Inr (sleep 1 (printf ''Processing work...\<newline>'' s))"
  using assms process_work_loop_id [of payload "printf ''Processing work...\<newline>'' s" cs 0]
  by (simp add: process_work_def c_arith)

lemma process_work_NULL: "process_work NULL s = Inl NullDeref"
  by (simp add: process_work_def process_work_loop_NULL)

section \<open>controller\<close>

lemma with_payload_fields [simp]:
  "heap (with_payload s) = (brk s, replicate 10485760 None) # heap s"
  "brk (with_payload s) = brk s + 10485761"
  "mem_limit (with_payload s) = mem_limit s"
  "stdout (with_payload s) = stdout s"
  "stderr (with_payload s) = stderr s"
  "clock (with_payload s) = clock s"
  "pid (with_payload s) = pid s"
  "reserved (with_payload s) = reserved s + 10485760"
  "committed (with_payload s) = committed s"
  by (simp_all add: with_payload_def measures_push written_def)

lemma controller_malloc:
  assumes "reserved s + 10485760 \<le> mem_limit s"
  shows "malloc 10485760 s = (brk s, with_payload s)"
  using assms malloc_granted [where n = 10485760 and s = s] by (simp add: with_payload_def)

lemma controller_process_work:
  assumes "heap_ok s"
  shows "process_work (brk s) (with_payload s) =
    Inr (sleep 1 (printf ''Processing work...\<newline>'' (with_payload s)))"
  using heap_ok_brk [OF assms]
  by (intro process_work_valid [where cs = "replicate 10485760 None"]) simp_all

lemma controller_free:
  assumes "heap_ok s"
  shows "free (brk s) (sleep 1 (printf ''Processing work...\<newline>'' (with_payload s))) =
    Inr (after_round s)"
proof -
  have "AList.delete (brk s) (heap s) = heap s"
    using heap_ok_fresh [OF assms] by (simp add: delete_id map_of_eq_None_iff)
  then show ?thesis
    using heap_ok_brk [OF assms]
    by (simp add: free_def after_round_def sleep_def printf_def with_payload_def)
qed

lemma controller_body_granted:
  assumes "heap_ok s" "reserved s + 10485760 \<le> mem_limit s"
  shows "controller_body s = Inr (after_round s)"
  using assms
  by (simp add: controller_body_def c_arith controller_malloc controller_process_work
      controller_free)

lemma controller_body_refused:
  assumes "mem_limit s < reserved s + 10485760"
  shows "controller_body s = Inl NullDeref"
  using assms by (simp add: controller_body_def c_arith malloc_refused process_work_NULL)

lemma after_round_fields [simp]:
  "heap (after_round s) = heap s"
  "brk (after_round s) = brk s + 10485761"
  "mem_limit (after_round s) = mem_limit s"
  "stdout (after_round s) = stdout s @ [''Processing work...\<newline>'']"
  "stderr (after_round s) = stderr s"
  "clock (after_round s) = clock s + 1"
  "pid (after_round s) = pid s"
  "reserved (after_round s) = reserved s"
  "committed (after_round s) = committed s"
  by (simp_all add: after_round_def reserved_def committed_def)

lemma after_round_heap_ok: "heap_ok s \<Longrightarrow> heap_ok (after_round s)"
  by (force simp: heap_ok_def list_all_iff reserved_def)

lemma controller_diverges:
  assumes "heap_ok s" "reserved s + 10485760 \<le> mem_limit s"
  shows "controller s = None"
proof (cases "controller s")
  case None
  then show ?thesis .
next
  case (Some r)
  have "\<not> (heap_ok s \<and> reserved s + 10485760 \<le> mem_limit s)"
  proof (rule controller.raw_induct
      [where P = "\<lambda>s r. \<not> (heap_ok s \<and> reserved s + 10485760 \<le> mem_limit s)", OF _ Some])
    fix f and s :: proc and r
    assume IH: "\<And>s r. f s = Some r \<Longrightarrow> \<not> (heap_ok s \<and> reserved s + 10485760 \<le> mem_limit s)"
      and eq: "(if (1 :: c_int) \<noteq> 0 then
          (case controller_body s of Inl f \<Rightarrow> Some (Inl f) | Inr s' \<Rightarrow> f s')
        else Some (Inr s)) = Some r"
    show "\<not> (heap_ok s \<and> reserved s + 10485760 \<le> mem_limit s)"
    proof
      assume a: "heap_ok s \<and> reserved s + 10485760 \<le> mem_limit s"
      with eq have "f (after_round s) = Some r"
        by (simp add: controller_body_granted)
      then have "\<not> (heap_ok (after_round s) \<and>
          reserved (after_round s) + 10485760 \<le> mem_limit (after_round s))"
        by (rule IH)
      with a show False
        by (simp add: after_round_heap_ok)
    qed
  qed
  with assms show ?thesis
    by simp
qed

lemma controller_crashes:
  "mem_limit s < reserved s + 10485760 \<Longrightarrow> controller s = Some (Inl NullDeref)"
  by (subst controller.simps) (simp add: controller_body_refused)

lemma controller_rounds_granted:
  "heap_ok s \<Longrightarrow> reserved s + 10485760 \<le> mem_limit s \<Longrightarrow>
   controller_rounds n s = Inr ((after_round ^^ n) s)"
proof (induction n arbitrary: s)
  case 0
  show ?case by simp
next
  case (Suc n)
  then have "controller_rounds n (after_round s) = Inr ((after_round ^^ n) (after_round s))"
    by (intro Suc.IH) (simp_all add: after_round_heap_ok)
  with Suc.prems show ?case
    by (simp add: controller_body_granted funpow_swap1)
qed

lemma after_rounds_fields [simp]:
  "heap ((after_round ^^ n) s) = heap s"
  "brk ((after_round ^^ n) s) = brk s + n * 10485761"
  "mem_limit ((after_round ^^ n) s) = mem_limit s"
  "stdout ((after_round ^^ n) s) = stdout s @ replicate n ''Processing work...\<newline>''"
  "stderr ((after_round ^^ n) s) = stderr s"
  "clock ((after_round ^^ n) s) = clock s + n"
  "pid ((after_round ^^ n) s) = pid s"
  by (induction n) (simp_all add: replicate_append_same)

text \<open>
  C9. One round of the controller with memory for the payload: the heap is
  back at its baseline (same live blocks, same reserved and committed
  bytes), one line was printed and one second has passed. Nothing
  accumulates from round to round.
\<close>

theorem controller_body_baseline:
  assumes "heap_ok s" "reserved s + 10485760 \<le> mem_limit s"
  shows "\<exists>s'. controller_body s = Inr s' \<and> heap s' = heap s \<and>
    reserved s' = reserved s \<and> committed s' = committed s \<and>
    stdout s' = stdout s @ [''Processing work...\<newline>''] \<and> stderr s' = stderr s \<and>
    clock s' = clock s + 1 \<and> heap_ok s'"
  using assms by (simp add: controller_body_granted after_round_heap_ok)

theorem controller_body_baseline_witness:
  "heap_ok (boot 20000000 7) \<and>
   reserved (boot 20000000 7) + 10485760 \<le> mem_limit (boot 20000000 7) \<and>
   (\<exists>s'. controller_body (boot 20000000 7) = Inr s' \<and> heap s' = heap (boot 20000000 7) \<and>
    reserved s' = reserved (boot 20000000 7) \<and> committed s' = committed (boot 20000000 7) \<and>
    stdout s' = stdout (boot 20000000 7) @ [''Processing work...\<newline>''] \<and>
    stderr s' = stderr (boot 20000000 7) \<and>
    clock s' = clock (boot 20000000 7) + 1 \<and> heap_ok s')"
  using controller_body_baseline [of "boot 20000000 7"] by simp

text \<open>
  C10. The result of \<open>malloc\<close> is not checked: when the allocator refuses
  the payload, \<open>process_work\<close> reads through the null pointer, and the
  controller (and with it \<open>main\<close>) ends in a fault instead of running on.
\<close>

theorem controller_null_deref:
  assumes "mem_limit s < reserved s + 10485760"
  shows "controller_body s = Inl NullDeref \<and> controller s = Some (Inl NullDeref) \<and>
    worker_main s = Some (Inl NullDeref)"
  using assms by (simp add: controller_body_refused controller_crashes worker_main_def)

theorem controller_null_deref_witness:
  "mem_limit (boot 1000 7) < reserved (boot 1000 7) + 10485760 \<and>
   controller_body (boot 1000 7) = Inl NullDeref \<and>
   controller (boot 1000 7) = Some (Inl NullDeref) \<and>
   worker_main (boot 1000 7) = Some (Inl NullDeref)"
  using controller_null_deref [of "boot 1000 7"] by simp

text \<open>
  C35. With memory for the payload the controller never returns, and
  neither does \<open>main\<close>: its \<open>return 0\<close> is unreachable.
\<close>

theorem controller_never_returns:
  assumes "heap_ok s" "reserved s + 10485760 \<le> mem_limit s"
  shows "controller s = None \<and> worker_main s = None"
  using assms by (simp add: controller_diverges worker_main_def)

theorem controller_never_returns_witness:
  "heap_ok (boot 20000000 7) \<and>
   reserved (boot 20000000 7) + 10485760 \<le> mem_limit (boot 20000000 7) \<and>
   controller (boot 20000000 7) = None \<and> worker_main (boot 20000000 7) = None"
  using controller_never_returns [of "boot 20000000 7"] by simp

text \<open>
  C36. After any number \<open>n\<close> of rounds the worker has printed \<open>n\<close> lines,
  slept \<open>n\<close> seconds, and holds exactly the memory it started with; no byte
  was ever written, so none of the payload was ever committed.
\<close>

theorem controller_rounds_steady:
  assumes "heap_ok s" "reserved s + 10485760 \<le> mem_limit s"
  shows "\<exists>s'. controller_rounds n s = Inr s' \<and> heap s' = heap s \<and>
    stdout s' = stdout s @ replicate n ''Processing work...\<newline>'' \<and>
    stderr s' = stderr s \<and> clock s' = clock s + n \<and>
    reserved s' = reserved s \<and> committed s' = committed s"
  using assms by (simp add: controller_rounds_granted reserved_def committed_def)

theorem controller_rounds_steady_witness:
  "heap_ok (boot 20000000 7) \<and>
   reserved (boot 20000000 7) + 10485760 \<le> mem_limit (boot 20000000 7) \<and>
   (\<exists>s'. controller_rounds 3 (boot 20000000 7) = Inr s' \<and> heap s' = heap (boot 20000000 7) \<and>
    stdout s' = stdout (boot 20000000 7) @ replicate 3 ''Processing work...\<newline>'' \<and>
    stderr s' = stderr (boot 20000000 7) \<and> clock s' = clock (boot 20000000 7) + 3 \<and>
    reserved s' = reserved (boot 20000000 7) \<and> committed s' = committed (boot 20000000 7))"
  using controller_rounds_steady [of "boot 20000000 7" 3] by simp

text \<open>
  C37. The loop of \<open>process_work\<close> performs the touch at the offsets
  0, 4096, ..., 10481664, in this order: 2560 of them, each inside the
  payload of 10 MiB.
\<close>

theorem process_work_loop_offsets:
  "process_work_loop payload 0 s =
     iterate_res (process_work_touch payload) (map (\<lambda>k. of_nat k * 4096) [0..<2560]) s \<and>
   length (touched_offsets 0) = 2560 \<and>
   list_all (\<lambda>j. unat j < unat (int_to_size_t (PAYLOAD_MB * 1024 * 1024))) (touched_offsets 0)"
proof -
  have "list_all (\<lambda>j. unat j < 10485760) (touched_offsets 0)"
    by (simp add: list_all_iff touched_offsets_bound)
  then show ?thesis
    by (simp add: process_work_loop_iterate touched_offsets_0 c_arith del: upt_Suc)
qed

text \<open>
  C11. \<open>process_work\<close> on a live payload of at least 10 MiB writes nothing:
  it returns the state it was given but for the line printed and the second
  slept. The bytes of the payload stay unwritten.
\<close>

theorem process_work_writes_nothing:
  assumes "payload \<noteq> NULL" "map_of (heap s) payload = Some cs" "10485760 \<le> length cs"
  shows "\<exists>s'. process_work payload s = Inr s' \<and> heap s' = heap s \<and>
    committed s' = committed s \<and> map_of (heap s') payload = Some cs \<and>
    stdout s' = stdout s @ [''Processing work...\<newline>''] \<and> clock s' = clock s + 1"
  using assms by (simp add: process_work_valid)

theorem process_work_writes_nothing_witness:
  "fst (malloc 10485760 (boot 20000000 7)) \<noteq> NULL \<and>
   map_of (heap (snd (malloc 10485760 (boot 20000000 7)))) (fst (malloc 10485760 (boot 20000000 7)))
     = Some (replicate 10485760 None) \<and>
   10485760 \<le> length (replicate 10485760 (None :: cell)) \<and>
   (\<exists>s'. process_work (fst (malloc 10485760 (boot 20000000 7)))
        (snd (malloc 10485760 (boot 20000000 7))) = Inr s' \<and>
    heap s' = heap (snd (malloc 10485760 (boot 20000000 7))) \<and>
    committed s' = committed (snd (malloc 10485760 (boot 20000000 7))) \<and>
    map_of (heap s') (fst (malloc 10485760 (boot 20000000 7))) =
      Some (replicate 10485760 None) \<and>
    stdout s' = stdout (snd (malloc 10485760 (boot 20000000 7))) @
      [''Processing work...\<newline>''] \<and>
    clock s' = clock (snd (malloc 10485760 (boot 20000000 7))) + 1)"
  using process_work_writes_nothing [of "fst (malloc 10485760 (boot 20000000 7))"
      "snd (malloc 10485760 (boot 20000000 7))" "replicate 10485760 None"]
  by (simp add: malloc_def)

text \<open>
  The size of the payload is computed without overflow: the product of the
  macro in \<open>int\<close>, converted to \<open>size_t\<close> and multiplied by
  \<open>sizeof(char)\<close>, is 10 MiB, a multiple of the stride of 4096.
\<close>

lemma worker_macro_arithmetic:
  "int_mul_ok PAYLOAD_MB 1024 \<and> int_mul_ok (PAYLOAD_MB * 1024) 1024 \<and>
   unat (int_to_size_t (PAYLOAD_MB * 1024 * 1024) * sizeof_char) = 10 * 2 ^ 20 \<and>
   unat (int_to_size_t (PAYLOAD_MB * 1024 * 1024)) = 2560 * 4096"
  by (simp add: int_mul_ok_def c_arith)

text \<open>
  C18. The three calls of a round, in order: \<open>malloc\<close> returns a fresh
  block and the footprint is 10 MiB above the baseline; \<open>process_work\<close>
  returns with the footprint still there and nothing committed; \<open>free\<close>
  releases the block and the footprint is the baseline again. The peak of a
  round is exactly the baseline plus the payload.
\<close>

theorem controller_round_sequence:
  assumes "heap_ok s" "reserved s + 10485760 \<le> mem_limit s"
  shows "\<exists>buffer s1 s2 s3.
    malloc (int_to_size_t (PAYLOAD_MB * 1024 * 1024) * sizeof_char) s = (buffer, s1) \<and>
    buffer \<noteq> NULL \<and> reserved s1 = reserved s + 10485760 \<and>
    process_work buffer s1 = Inr s2 \<and>
    reserved s2 = reserved s + 10485760 \<and> committed s2 = committed s \<and>
    free buffer s2 = Inr s3 \<and> reserved s3 = reserved s \<and> controller_body s = Inr s3"
  using assms heap_ok_brk [OF assms(1)]
  by (simp add: c_arith controller_malloc controller_process_work controller_free
      controller_body_granted)

theorem controller_round_sequence_witness:
  "heap_ok (boot 20971520 7) \<and> reserved (boot 20971520 7) + 10485760 \<le> mem_limit (boot 20971520 7) \<and>
   (\<exists>buffer s1 s2 s3.
    malloc (int_to_size_t (PAYLOAD_MB * 1024 * 1024) * sizeof_char) (boot 20971520 7) =
      (buffer, s1) \<and>
    buffer \<noteq> NULL \<and> reserved s1 = reserved (boot 20971520 7) + 10485760 \<and>
    process_work buffer s1 = Inr s2 \<and>
    reserved s2 = reserved (boot 20971520 7) + 10485760 \<and>
    committed s2 = committed (boot 20971520 7) \<and>
    free buffer s2 = Inr s3 \<and> reserved s3 = reserved (boot 20971520 7) \<and>
    controller_body (boot 20971520 7) = Inr s3)"
  using controller_round_sequence [of "boot 20971520 7"] by simp

end
