(* ===== verification/Spec2Isabelle.thy ===== *)
theory Spec2Isabelle
  imports Processes Worker
begin

text \<open>
  \<^bold>\<open>Verification of the memory-consumption simulators\<close>

  The repository holds three standalone C programs that make a process
  consume memory in a known way, so that monitoring can be tested against it:
  \<^item> \<open>src/memory_usage_program.c\<close> reserves and zero-fills 100 MiB, prints its
    size and process id, sleeps 60 seconds and then idles forever; its
    function \<open>increase_memory_usage\<close> (the call is commented out in
    \<open>main\<close>) grows the footprint in steps of 10 MiB, one per second, until
    a counter that starts at 100 MiB reaches 1124 MiB;
  \<^item> \<open>src/app.c\<close> is the same program with a leak in place of the growth:
    \<open>start_memory_leak\<close> (also commented out in \<open>main\<close>) counts from 0 to
    1024 MiB in steps of 10 MiB;
  \<^item> \<open>src/worker.c\<close> allocates 10 MiB, walks it in strides of 4096 bytes,
    sleeps a second and frees it, forever.
  The programs share no code and no state; what they share is the
  environment (the allocator, the clock, the two output streams) and, for the
  first two, the shape of the growth loop, which the specification describes
  once as the "timed memory growth simulator".

  \<^bold>\<open>Theories, in the order they are built\<close>
  \<^item> \<open>Prelude\<close>: the C integer types (\<open>size_t\<close> is \<open>64 word\<close>, \<open>int\<close> is
    \<open>32 word\<close> read with \<open>sint\<close>), the conversions the compiler inserts
    (\<open>int_to_size_t\<close>, \<open>int_to_unsigned\<close>), representability of an \<open>int\<close>
    product (\<open>int_mul_ok\<close>), ceiling division, fallible results
    (\<open>fault + 'a\<close> with \<open>bind_res\<close> and \<open>iterate_res\<close>), the outcome of a
    loop body (\<open>loop_ctl\<close>) and the fact collections \<open>c_arith\<close>,
    \<open>os_simps\<close> and \<open>prog_defs\<close>.
  \<^item> \<open>Environment\<close>: the process state \<open>proc\<close> (heap, next fresh address,
    memory limit, standard output and error, clock, process id) and the
    library calls the sources make: \<open>malloc\<close>, \<open>memset\<close>, \<open>free\<close>,
    \<open>load\<close> (reading \<open>p[i]\<close>), \<open>sleep\<close>, \<open>printf\<close>, \<open>fprintf_stderr\<close>,
    \<open>getpid\<close>, and the conversions \<open>%zu\<close> and \<open>%d\<close>. Lemmas: the effect
    of each call on each field, preservation of the allocator invariant
    \<open>heap_ok\<close>, the accounting of \<open>reserved\<close> and \<open>committed\<close> bytes, and
    that decimal output can be read back (\<open>undec_dec\<close>; \<open>read_number\<close> is
    the first number a reader finds in a line and \<open>read_numbers\<close> all of
    them, \<open>read_number_dec\<close> and \<open>read_numbers_dec\<close>).
  \<^item> \<open>Simulator\<close>: the growth loop of the specification over a
    \<open>growth_plan\<close> (\<open>grow_body\<close>, \<open>grow_loop\<close>), its reference definition
    \<open>grow_outcome\<close> (built from \<open>steps_needed\<close>, \<open>steps_granted\<close>,
    \<open>steps_taken\<close>, \<open>grow_once\<close> and \<open>grown\<close>) and the theorem that the
    loop computes it for every plan that satisfies \<open>plan_ok\<close>
    (\<open>grow_loop_eq\<close>). \<open>grow_loop_total\<close> is the interface to the
    programs: a total function that unfolds like the loop computes the
    reference definition. A plan with a zero step does not terminate
    (\<open>grow_loop_zero_step\<close>).
  \<^item> \<open>Memory_Usage_Program\<close>: \<open>src/memory_usage_program.c\<close>. The macros
    are constants of type \<open>c_int\<close>; \<open>increase_memory_usage_body\<close>,
    \<open>increase_memory_usage_loop\<close> and \<open>increase_memory_usage\<close> are the
    function of that name; \<open>mup_startup\<close>, \<open>mup_idle_body\<close>,
    \<open>mup_idle_loop\<close> and \<open>mup_main\<close> are \<open>main\<close>. The growth loop is a
    total function (its termination is proved from the values of the
    macros) and is an instance of the simulator's loop under \<open>mup_plan\<close>.
    Theorems: the exact output, footprint and final counter of a complete
    run, the behaviour when memory runs out, freedom from faults, that a run
    is repeatable and its lines can be read back, the two outcomes of
    \<open>main\<close>, and the steady state of the idle loop. That the macro
    products fit \<open>int\<close>, so that the model's wrap-around never occurs in
    them, is recorded per program as a lemma (\<open>mup_macro_arithmetic\<close>,
    \<open>app_macro_arithmetic\<close>, \<open>worker_macro_arithmetic\<close>).
  \<^item> \<open>App\<close>: \<open>src/app.c\<close>, built the same way (\<open>start_memory_leak_body\<close>,
    \<open>start_memory_leak_loop\<close>, \<open>start_memory_leak\<close>, \<open>app_startup\<close>,
    \<open>app_idle_body\<close>, \<open>app_idle_loop\<close>, \<open>app_main\<close>, \<open>app_plan\<close>), with
    the corresponding theorems and the behaviour of the leak under every
    memory limit (\<open>start_memory_leak_under_any_limit\<close>).
  \<^item> \<open>Lifecycle\<close>: \<open>run\<close> of the specification as a machine over the
    phases \<open>STARTING\<close>, \<open>GROWING\<close> (with the counter), \<open>IDLE\<close>, \<open>EXITED\<close>
    and \<open>CRASHED\<close>. A \<open>program\<close> names what \<open>main\<close> runs in each phase;
    \<open>next_conf\<close> is one step as a function, \<open>step\<close> the same as a
    relation, \<open>reaches\<close> its closure and \<open>run_for n\<close> the configuration
    after \<open>n\<close> steps. Lemmas: relation and function agree, the machine is
    deterministic and stops only in \<open>EXITED\<close> and \<open>CRASHED\<close>; the
    phases are a linear order (\<open>phase_key\<close>, an instance of \<open>linorder\<close>)
    along which every run is monotone (\<open>run_for_mono\<close>), and between
    two growing configurations the counter advances by one step of the plan
    per step of the machine (\<open>growing_counter\<close>); the growing
    phase of a program that follows a plan passes through the states
    \<open>grown\<close> and arrives idle in the state of \<open>grow_outcome\<close>; the
    invariants \<open>accounted\<close> (footprint against counter) and \<open>stepped\<close>
    (counter against output) hold in every reachable configuration
    (\<open>accounted_reaches\<close>, \<open>stepped_reaches\<close>, by induction over
    \<open>reaches\<close>).
  \<^item> \<open>Processes\<close>: the two programs as machines. \<open>mup_shipped\<close> and
    \<open>app_shipped\<close> are the programs as the sources have them: start-up
    and idle loop from \<open>main\<close>, the growth call absent (it is a comment
    in \<open>main\<close>), counter, target and body of the growth function.
    \<open>mup_program e\<close> and \<open>app_program e\<close> set the flag
    \<open>growth_enabled\<close> of the specification to \<open>e\<close>: \<open>e = False\<close> is the
    shipped program (\<open>shipped_programs\<close>), \<open>e = True\<close> is the source
    with the comment marks of the call removed, which is not in \<open>src/\<close>.
    Theorems: the accounting invariant of each program, what the last line
    of output tells of the footprint, the timeline of a complete run, the
    shipped programs never grow, \<open>main\<close> and the growth loop agree with
    the machine, the idle phase is absorbing, no run goes back.
  \<^item> \<open>Worker\<close>: \<open>src/worker.c\<close>: \<open>process_work_item\<close>,
    \<open>process_work_touch\<close>, \<open>process_work_size\<close> (the local \<open>size\<close>),
    \<open>process_work_loop\<close>, \<open>process_work\<close>,
    \<open>controller_body\<close>, \<open>controller\<close>, \<open>worker_main\<close>. Theorems: the loop
    visits the 2560 offsets \<open>touched_offsets\<close> and writes nothing; the three
    calls of a round in order, with the footprint after each (\<open>with_payload\<close>
    is the state between \<open>malloc\<close> and \<open>free\<close>); a round returns the heap
    to its baseline; the controller never returns when memory suffices and
    faults on a null pointer when it does not.
  \<^item> \<open>Spec2Isabelle\<close> (this theory): the properties that relate the programs
    to each other. \<open>twin\<close> relates the configurations of the two simulator
    programs that have the same memory (\<open>same_memory\<close>); each step keeps
    the relation (\<open>twin_step\<close>), so the two programs cannot be told apart by
    their memory and their timing. \<open>growth_variants_agree\<close> states the
    same of the two growth functions themselves, with the counters the loops
    return, and \<open>readiness_lines_read_back\<close> reads the start-up lines of
    both programs back.

  \<^bold>\<open>How the model corresponds to the code\<close>

  Every C function is a function from the process state to a result and a
  new state. A call that can crash returns \<open>fault + _\<close>; a function that can
  fail to return is a \<open>partial_function\<close> into \<open>option\<close> (\<open>None\<close>: it never
  returns) or is proved total. One step of the machine is one execution of
  the start-up sequence of \<open>main\<close> (up to and including the start-up
  delay), one iteration of the growth loop or the failing test of its guard,
  or one iteration of the idle loop. A loop is split into its body (which says
  \<open>Break\<close> or \<open>Continue\<close>) and the recursion over it; a function with an
  endless loop in the middle is split at the loop. Locals keep their C
  names. Arithmetic is done at the width C does it: the macro products in
  \<open>int\<close>, then converted to \<open>size_t\<close> where they meet a \<open>size_t\<close>, and the
  counters of the loops in \<open>size_t\<close> with wrap-around. Names that two sources
  share (\<open>main\<close>, \<open>INITIAL_MEMORY_MB\<close>, \<open>SLEEP_INTERVAL_SEC\<close>) carry the
  prefix of their program (\<open>mup_\<close>, \<open>app_\<close>, \<open>worker_\<close>).

  Reference definitions (\<open>mup_ready\<close>, \<open>mup_idle_state\<close>, \<open>app_ready\<close>,
  \<open>app_idle_state\<close>, \<open>with_payload\<close>, \<open>after_round\<close>, \<open>controller_rounds\<close>,
  \<open>touched_offsets\<close>, \<open>grow_outcome\<close>) are closed forms of what the code
  computes; each is connected to the code by a lemma, and the theorems are
  stated with them where the code itself never returns. \<open>mup_idle_state n\<close>
  and \<open>app_idle_state n\<close> follow the cases of \<open>main\<close>: the fault when
  start-up faults, the state at \<open>return 1\<close> when the first allocation
  fails, and otherwise the state after \<open>n\<close> rounds of the idle loop.

  \<^bold>\<open>Bounds\<close>

  No fuel is used. The growth loops terminate because the counter grows by a
  positive step without wrapping below the target (\<open>plan_ok\<close>: the target
  plus one step fits 64 bits); the idle loops and the worker's controller do
  not terminate, which is a theorem and not an assumption. The environment
  grants a request exactly when it fits \<open>mem_limit\<close>; no other cause of
  allocation failure is modelled, and a block is never moved or reused.
  A complete run with the growth call compiled in needs 100 MiB and 103
  steps of 10 MiB, 1184890880 bytes in all; the machine is then idle from
  its step 105 (one step of start-up, 103 of growth, one for the guard).
  Witnesses start from \<open>boot\<close>, the state of a fresh process.

  \<^bold>\<open>Not modelled\<close>

  The addresses a real allocator would return and the reuse of freed
  addresses, page-granular commitment of memory, signals and external
  termination of the process, buffering of the output streams, and the
  diagnostics a compiler gives for \<open>worker.c\<close> (the call of
  \<open>process_work_item\<close> before its declaration and with a \<open>char\<close>
  argument). The worker is modelled as its code has it and not as an
  instance of the life cycle, which the specification suggests it could be.
  The life cycle has no step for the time inside a call: a start-up delay
  or a sleep is one step, whatever its length.
\<close>

section \<open>The two programs side by side\<close>

text \<open>
  \<open>same_memory\<close> relates two process states that a monitor of memory and
  time cannot tell apart: the same blocks at the same addresses under the
  same limit, the same clock, and as many lines on each output stream.
  \<open>twin\<close> relates a configuration of \<open>memory_usage_program.c\<close> to one of
  \<open>app.c\<close>: the same phase in states with the same memory, the growth
  counter being the leak counter plus the initial 100 MiB.
\<close>

definition same_memory :: "proc \<Rightarrow> proc \<Rightarrow> bool" where
  "same_memory s t \<longleftrightarrow>
     heap_ok s \<and> heap s = heap t \<and> brk s = brk t \<and> mem_limit s = mem_limit t \<and>
     clock s = clock t \<and> length (stdout s) = length (stdout t) \<and>
     length (stderr s) = length (stderr t)"

fun twin :: "conf \<Rightarrow> conf \<Rightarrow> bool" where
  "twin (STARTING, s) (STARTING, t) = same_memory s t"
| "twin (GROWING c, s) (GROWING d, t) = (unat c = unat d + 104857600 \<and> same_memory s t)"
| "twin (IDLE, s) (IDLE, t) = same_memory s t"
| "twin (EXITED a, s) (EXITED b, t) = (a = b \<and> same_memory s t)"
| "twin (ph, s) (ph', t) = False"

lemma same_memory_measures:
  assumes "same_memory s t"
  shows "heap_ok s" "heap_ok t" "reserved t = reserved s" "committed t = committed s"
    "mem_limit t = mem_limit s"
  using assms heap_ok_cong [of s t] reserved_cong [of s t] committed_cong [of s t]
  by (simp_all add: same_memory_def)

lemma same_memory_ready:
  assumes "same_memory s t" "reserved s + 104857600 \<le> mem_limit s"
  shows "same_memory (mup_ready s) (app_ready t)"
  using assms mup_ready_heap_ok [of s] by (simp add: same_memory_def)

lemma same_memory_refused: "same_memory s t \<Longrightarrow> same_memory (fprintf_stderr l s) (fprintf_stderr l' t)"
  by (simp add: same_memory_def)

lemma same_memory_grow_once:
  assumes "same_memory s t" "reserved s + 10485760 \<le> mem_limit s"
  shows "same_memory (grow_once mup_plan c s) (grow_once app_plan d t)"
  using assms grow_once_heap_ok [of s mup_plan c] by (simp add: same_memory_def)

lemma same_memory_idle: "same_memory s t \<Longrightarrow> same_memory (mup_idle_body s) (app_idle_body t)"
  by (simp add: same_memory_def mup_idle_body_def app_idle_body_def)

lemma twin_step:
  assumes "twin a b"
  shows "rel_option twin (next_conf (mup_program e) a) (next_conf (app_program e) b)"
  using assms
proof (induction a b rule: twin.induct)
  case (1 s t)
  then show ?case
    using same_memory_measures [of s t]
    by (simp add: mup_next_STARTING app_next_STARTING same_memory_ready same_memory_refused
        del: next_conf.simps)
next
  case (2 c s d t)
  then have less: "c < 1178599424 \<longleftrightarrow> d < 1073741824"
    by (simp add: size_t_less_iff)
  from 2 have step: "c < 1178599424 \<Longrightarrow> unat (c + 10485760) = unat (d + 10485760) + 104857600"
    using unat_step_nowrap [OF mup_plan_ok, of c] unat_step_nowrap [OF app_plan_ok, of d] less
    by simp
  from 2 show ?case
    using same_memory_measures [of s t] less step
    by (simp add: mup_next_GROWING app_next_GROWING same_memory_grow_once same_memory_refused
        del: next_conf.simps)
next
  case (3 s t)
  then show ?case
    by (simp add: same_memory_idle)
qed simp_all

section \<open>Properties that span the programs\<close>

text \<open>
  C38. The growth of \<open>memory_usage_program.c\<close> and the leak of \<open>app.c\<close>
  are the same behaviour under two counters: from the same state and with
  memory for all steps, both loops return, both take 103 steps (one line
  each), leave the same heap, the same clock and the same standard error,
  and the counter the growth loop returns is the counter the leak loop
  returns plus the initial 100 MiB.
\<close>

theorem growth_variants_agree:
  assumes "heap_ok s" "reserved s + 1080033280 \<le> mem_limit s"
  shows "\<exists>c1 s1 c2 s2.
    increase_memory_usage_loop (int_to_size_t (mup_INITIAL_MEMORY_MB * 1024 * 1024)) s =
      Inr (c1, s1) \<and>
    start_memory_leak_loop 0 s = Inr (c2, s2) \<and>
    increase_memory_usage s = Inr s1 \<and> start_memory_leak s = Inr s2 \<and>
    heap s1 = heap s2 \<and> brk s1 = brk s2 \<and> clock s1 = clock s2 \<and> stderr s1 = stderr s2 \<and>
    length (stdout s1) = length (stdout s2) \<and>
    length (stdout s1) = length (stdout s) + 103 \<and>
    unat c1 = unat c2 + 104857600 \<and>
    unat (fst (grow_outcome mup_plan 104857600 s)) =
      unat (fst (grow_outcome app_plan 0 s)) + 104857600"
proof -
  let ?m = "grow_outcome mup_plan 104857600 s" and ?a = "grow_outcome app_plan 0 s"
  from assms(1)
  have "increase_memory_usage_loop (int_to_size_t (mup_INITIAL_MEMORY_MB * 1024 * 1024)) s =
      Inr (fst ?m, snd ?m)"
    and "start_memory_leak_loop 0 s = Inr (fst ?a, snd ?a)"
    by (simp_all add: increase_memory_usage_loop_outcome start_memory_leak_loop_outcome c_arith)
  moreover from assms
  have "increase_memory_usage s = Inr (snd ?m) \<and> start_memory_leak s = Inr (snd ?a) \<and>
      heap (snd ?m) = heap (snd ?a) \<and> brk (snd ?m) = brk (snd ?a) \<and>
      clock (snd ?m) = clock (snd ?a) \<and> stderr (snd ?m) = stderr (snd ?a) \<and>
      length (stdout (snd ?m)) = length (stdout (snd ?a)) \<and>
      length (stdout (snd ?m)) = length (stdout s) + 103 \<and>
      unat (fst ?m) = unat (fst ?a) + 104857600"
    by (simp add: increase_memory_usage_outcome start_memory_leak_outcome grow_outcome_fields
        grow_outcome_heap grow_outcome_brk grow_outcome_fst mup_steps_taken_enough
        app_steps_taken_enough del: upt_Suc)
  ultimately show ?thesis
    by blast
qed

theorem growth_variants_agree_witness:
  "heap_ok (boot 2147483648 7) \<and>
   reserved (boot 2147483648 7) + 1080033280 \<le> mem_limit (boot 2147483648 7) \<and>
   (\<exists>c1 s1 c2 s2.
    increase_memory_usage_loop (int_to_size_t (mup_INITIAL_MEMORY_MB * 1024 * 1024))
      (boot 2147483648 7) = Inr (c1, s1) \<and>
    start_memory_leak_loop 0 (boot 2147483648 7) = Inr (c2, s2) \<and>
    increase_memory_usage (boot 2147483648 7) = Inr s1 \<and>
    start_memory_leak (boot 2147483648 7) = Inr s2 \<and>
    heap s1 = heap s2 \<and> brk s1 = brk s2 \<and> clock s1 = clock s2 \<and> stderr s1 = stderr s2 \<and>
    length (stdout s1) = length (stdout s2) \<and>
    length (stdout s1) = length (stdout (boot 2147483648 7)) + 103 \<and>
    unat c1 = unat c2 + 104857600 \<and>
    unat (fst (grow_outcome mup_plan 104857600 (boot 2147483648 7))) =
      unat (fst (grow_outcome app_plan 0 (boot 2147483648 7))) + 104857600)"
  using growth_variants_agree [of "boot 2147483648 7"] by simp

text \<open>
  A counter that has reached its target takes no step: both loops return at
  once, with the counter and the state they were given.
\<close>

lemma growth_loops_idle_at_target:
  "increase_memory_usage_loop (int_to_size_t (TOTAL_MEMORY_MB * 1024 * 1024)) s =
     Inr (int_to_size_t (TOTAL_MEMORY_MB * 1024 * 1024), s) \<and>
   start_memory_leak_loop (int_to_size_t (LEAK_MEMORY_MB * 1024 * 1024)) s =
     Inr (int_to_size_t (LEAK_MEMORY_MB * 1024 * 1024), s)"
  by (subst increase_memory_usage_loop.simps, subst start_memory_leak_loop.simps) simp

text \<open>
  C16. The two programs are twins: started in states with the same memory,
  with or without the growth call, after any number of steps they are in the
  same phase with the same memory, the same clock and as many lines of
  output, under every memory limit. Only the text of their lines differs,
  and the counter of \<open>app.c\<close> is 100 MiB behind.
\<close>

theorem programs_twins:
  assumes "same_memory s t"
  shows "twin (run_for (mup_program e) n (STARTING, s)) (run_for (app_program e) n (STARTING, t))"
proof -
  have "twin a b \<Longrightarrow> twin (run_for (mup_program e) n a) (run_for (app_program e) n b)" for a b
  proof (induction n arbitrary: a b)
    case 0
    then show ?case by simp
  next
    case (Suc n)
    from twin_step [OF Suc.prems, of e] Suc.IH Suc.prems show ?case
      by (cases "next_conf (mup_program e) a"; cases "next_conf (app_program e) b") simp_all
  qed
  with assms show ?thesis
    by simp
qed

theorem programs_twins_witness:
  "same_memory (boot 536870912 7) (boot 536870912 8) \<and>
   twin (run_for (mup_program True) 60 (STARTING, boot 536870912 7))
     (run_for (app_program True) 60 (STARTING, boot 536870912 8))"
  using programs_twins [of "boot 536870912 7" "boot 536870912 8" True 60]
  by (simp add: same_memory_def del: run_for.simps)

lemma waiting_lines_read_back:
  "read_numbers ''Waiting for 60 seconds before increasing memory usage...\<newline>'' = [60]"
  "read_numbers ''Waiting for 60 seconds before starting the memory leak...\<newline>'' = [60]"
  using waiting_read_back [of "''Waiting for ''"
      "'' seconds before increasing memory usage...\<newline>''"]
    waiting_read_back [of "''Waiting for ''"
      "'' seconds before starting the memory leak...\<newline>''"]
  by (simp_all add: is_digit_def)

text \<open>
  C40. The readiness lines of both programs can be read back: after a
  granted start-up the first new line of standard output carries the size
  of the initial block in MB (100) and the process id, and the second the
  start-up delay in seconds (60), for \<open>memory_usage_program.c\<close> and for
  \<open>app.c\<close> alike.
\<close>

theorem readiness_lines_read_back:
  assumes "heap_ok s" "reserved s + 104857600 \<le> mem_limit s" "0 \<le> sint (pid s)"
  shows "\<exists>b1 s1 b2 s2. mup_startup s = Inr (Inr b1, s1) \<and> app_startup s = Inr (Inr b2, s2) \<and>
    map read_numbers (drop (length (stdout s)) (stdout s1)) =
      [[100, nat (sint (pid s))], [60]] \<and>
    map read_numbers (drop (length (stdout s)) (stdout s2)) =
      [[100, nat (sint (pid s))], [60]]"
  using assms readiness_read_back [OF assms(3)]
  by (simp add: mup_startup_granted app_startup_granted waiting_lines_read_back)

theorem readiness_lines_read_back_witness:
  "heap_ok (boot 2147483648 4242) \<and>
   reserved (boot 2147483648 4242) + 104857600 \<le> mem_limit (boot 2147483648 4242) \<and>
   0 \<le> sint (pid (boot 2147483648 4242)) \<and>
   (\<exists>b1 s1 b2 s2. mup_startup (boot 2147483648 4242) = Inr (Inr b1, s1) \<and>
    app_startup (boot 2147483648 4242) = Inr (Inr b2, s2) \<and>
    map read_numbers (drop (length (stdout (boot 2147483648 4242))) (stdout s1)) =
      [[100, nat (sint (pid (boot 2147483648 4242)))], [60]] \<and>
    map read_numbers (drop (length (stdout (boot 2147483648 4242))) (stdout s2)) =
      [[100, nat (sint (pid (boot 2147483648 4242)))], [60]])"
  using readiness_lines_read_back [of "boot 2147483648 4242"] by simp

end
